theory Spec2Isabelle
  imports Main
begin

section \<open>Python values, exceptions and program state\<close>

text \<open>
  The tools receive JSON arguments and return dictionaries.  A JSON value, as Python's
  \<^verbatim>\<open>json\<close> module and the protocol layer hand it to a tool, is a \<open>pyval\<close>; a dictionary
  is an association list in insertion order (the keys of a Python dictionary are distinct).
  Strings are sequences of code points below 256.  JSON numbers with a fraction are
  outside the model.
\<close>

datatype pyval =
    PNone
  | PBool bool
  | PInt int
  | PStr string
  | PList "pyval list"
  | PDict "(string \<times> pyval) list"

type_synonym pydict = "(string \<times> pyval) list"

text \<open>
  An exception is an instance of Python's class \<^verbatim>\<open>Exception\<close>: its class and the text
  that \<^verbatim>\<open>str(e)\<close> returns.  \<open>LibraryError name\<close> stands for any class a library
  defines directly under \<^verbatim>\<open>Exception\<close>.
\<close>

datatype exn_class =
    Exception
  | OSError
  | PermissionError
  | FileNotFoundError
  | ValueError
  | JSONDecodeError
  | TypeError
  | AttributeError
  | IndexError
  | KeyError
  | LibraryError string

datatype exn = Exn exn_class string

definition is_subclass :: "exn_class \<Rightarrow> exn_class \<Rightarrow> bool" where
  "is_subclass c k =
     (k = Exception \<or> c = k
      \<or> (k = OSError \<and> (c = PermissionError \<or> c = FileNotFoundError))
      \<or> (k = ValueError \<and> c = JSONDecodeError))"

fun isinstance :: "exn \<Rightarrow> exn_class \<Rightarrow> bool" where
  "isinstance (Exn c m) k = is_subclass c k"

fun str_exn :: "exn \<Rightarrow> string" where
  "str_exn (Exn c m) = m"

text \<open>
  The state a tool runs in: the world outside the process (the file system, seen only
  through library calls) and the records the module-level logger has written.
\<close>

datatype level = INFO | ERROR

record 'w state =
  world :: 'w
  logs :: "(level \<times> string) list"

type_synonym ('a, 'w) comp = "(exn + 'a) \<times> 'w state"

definition logger :: "level \<Rightarrow> string \<Rightarrow> 'w state \<Rightarrow> 'w state" where
  "logger lv msg s = s\<lparr>logs := logs s @ [(lv, msg)]\<rparr>"

text \<open>
  \<^verbatim>\<open>try: ... except K1: ... except K2 as e: ...\<close>: the first clause whose class the
  exception is an instance of handles it; with no such clause the exception propagates.
\<close>

fun except_clauses ::
  "(exn_class \<times> (exn \<Rightarrow> 'w state \<Rightarrow> ('a, 'w) comp)) list \<Rightarrow> exn \<Rightarrow> 'w state \<Rightarrow> ('a, 'w) comp" where
  "except_clauses [] e s = (Inl e, s)"
| "except_clauses ((k, h) # hs) e s = (if isinstance e k then h e s else except_clauses hs e s)"

definition try_except ::
  "('a, 'w) comp \<Rightarrow> (exn_class \<times> (exn \<Rightarrow> 'w state \<Rightarrow> ('a, 'w) comp)) list \<Rightarrow> ('a, 'w) comp" where
  "try_except r hs = (case r of (Inr x, s) \<Rightarrow> (Inr x, s) | (Inl e, s) \<Rightarrow> except_clauses hs e s)"

text \<open>The tools report success through the key \<^verbatim>\<open>"success"\<close> of the dictionary they return.\<close>

definition succeeded :: "pydict \<Rightarrow> bool" where
  "succeeded r = (map_of r ''success'' = Some (PBool True))"

definition failed :: "pydict \<Rightarrow> bool" where
  "failed r = (map_of r ''success'' = Some (PBool False))"

subsection \<open>Built-in string operations\<close>

definition digit_char :: "nat \<Rightarrow> char" where
  "digit_char d = ''0123456789'' ! d"

fun digits10 :: "nat \<Rightarrow> string" where
  "digits10 n = (if n < 10 then [digit_char n] else digits10 (n div 10) @ [digit_char (n mod 10)])"

declare digits10.simps [simp del]

text \<open>\<^verbatim>\<open>str(i)\<close> for an integer.\<close>

definition str_int :: "int \<Rightarrow> string" where
  "str_int i = (if i < 0 then CHR ''-'' # digits10 (nat (- i)) else digits10 (nat i))"

definition str_nat :: "nat \<Rightarrow> string" where
  "str_nat n = digits10 n"

definition apos :: string where
  "apos = [CHR 0x27]"

section \<open>The document tree\<close>

text \<open>
  An element of \<^verbatim>\<open>word/document.xml\<close>: its qualified name (\<open>''w:tbl''\<close> stands for the
  name \<^verbatim>\<open>tbl\<close> in the wordprocessingml namespace), its attributes, its text and its
  children in document order.  The three queries are the ones the code makes of the tree
  API: \<^verbatim>\<open>e.find(name)\<close>, \<^verbatim>\<open>e.findall(name)\<close> and \<^verbatim>\<open>e.findall('.//name')\<close>.
\<close>

datatype xml = Elem (tag: string) (attrs: "(string \<times> string) list") (etext: string) (children: "xml list")

definition find_child :: "xml \<Rightarrow> string \<Rightarrow> xml option" where
  "find_child e t = List.find (\<lambda>c. tag c = t) (children e)"

definition findall :: "xml \<Rightarrow> string \<Rightarrow> xml list" where
  "findall e t = filter (\<lambda>c. tag c = t) (children e)"

fun iter_desc :: "xml \<Rightarrow> xml list" where
  "iter_desc (Elem t a x cs) = concat (map (\<lambda>c. c # iter_desc c) cs)"

definition findall_desc :: "xml \<Rightarrow> string \<Rightarrow> xml list" where
  "findall_desc e t = filter (\<lambda>c. tag c = t) (iter_desc e)"

definition attr :: "xml \<Rightarrow> string \<Rightarrow> string option" where
  "attr e k = map_of (attrs e) k"

subsection \<open>Built-in operations on values\<close>

definition py_isspace :: "char \<Rightarrow> bool" where
  "py_isspace c = (of_char c \<in> set [9, 10, 11, 12, 13, 28, 29, 30, 31, 32, 133, 160 :: nat])"

text \<open>\<^verbatim>\<open>s.strip()\<close>, \<^verbatim>\<open>s.split(sep)\<close> for a separator of one character, \<^verbatim>\<open>p in s\<close>.\<close>

definition strip :: "string \<Rightarrow> string" where
  "strip s = rev (dropWhile py_isspace (rev (dropWhile py_isspace s)))"

fun split_on :: "char \<Rightarrow> string \<Rightarrow> string list" where
  "split_on sep [] = [[]]"
| "split_on sep (c # cs) =
     (if c = sep then [] # split_on sep cs
      else (case split_on sep cs of [] \<Rightarrow> [[c]] | x # xs \<Rightarrow> (c # x) # xs))"

fun starts_with :: "string \<Rightarrow> string \<Rightarrow> bool" where
  "starts_with s [] = True"
| "starts_with [] (p # ps) = False"
| "starts_with (c # s) (p # ps) = (c = p \<and> starts_with s ps)"

fun str_contains :: "string \<Rightarrow> string \<Rightarrow> bool" where
  "str_contains [] p = (p = [])"
| "str_contains (c # s) p = (starts_with (c # s) p \<or> str_contains s p)"

text \<open>
  \<^verbatim>\<open>int(s)\<close> for a string: surrounding white space and one sign are allowed, and single
  underscores between digits.  (The interpreter's limit on the number of digits is not
  modelled; the text of the error quotes the string without escapes.)
\<close>

definition is_digit :: "char \<Rightarrow> bool" where
  "is_digit c = (c \<in> set ''0123456789'')"

definition digit_val :: "char \<Rightarrow> nat" where
  "digit_val c = of_char c - 48"

fun digits_value :: "nat \<Rightarrow> string \<Rightarrow> nat option" where
  "digits_value acc [] = Some acc"
| "digits_value acc (c # cs) =
     (if is_digit c then digits_value (10 * acc + digit_val c) cs
      else if c = CHR ''_'' then
        (case cs of [] \<Rightarrow> None | d # ds \<Rightarrow> if is_digit d then digits_value acc cs else None)
      else None)"

definition unsigned_value :: "string \<Rightarrow> nat option" where
  "unsigned_value s = (case s of [] \<Rightarrow> None | c # cs \<Rightarrow> if is_digit c then digits_value 0 s else None)"

definition int_literal :: "string \<Rightarrow> int option" where
  "int_literal s =
     (case strip s of
        [] \<Rightarrow> None
      | c # cs \<Rightarrow>
          if c = CHR ''-'' then map_option (\<lambda>n. - int n) (unsigned_value cs)
          else if c = CHR ''+'' then map_option int (unsigned_value cs)
          else map_option int (unsigned_value (c # cs)))"

definition int_of_str :: "string \<Rightarrow> exn + int" where
  "int_of_str s =
     (case int_literal s of
        Some i \<Rightarrow> Inr i
      | None \<Rightarrow> Inl (Exn ValueError (''invalid literal for int() with base 10: '' @ apos @ s @ apos)))"

text \<open>Truth value testing, and \<^verbatim>\<open>d.get(key, default)\<close> on a dictionary.\<close>

fun truthy :: "pyval \<Rightarrow> bool" where
  "truthy PNone = False"
| "truthy (PBool b) = b"
| "truthy (PInt i) = (i \<noteq> 0)"
| "truthy (PStr s) = (s \<noteq> [])"
| "truthy (PList xs) = (xs \<noteq> [])"
| "truthy (PDict kvs) = (kvs \<noteq> [])"

definition dict_get :: "pydict \<Rightarrow> string \<Rightarrow> pyval \<Rightarrow> pyval" where
  "dict_get d k dflt = (case map_of d k of None \<Rightarrow> dflt | Some v \<Rightarrow> v)"

text \<open>\<^verbatim>\<open>d[key]\<close> on a dictionary and \<^verbatim>\<open>xs[i]\<close> on a list, for an index that is not negative.\<close>

definition dict_getitem :: "pydict \<Rightarrow> string \<Rightarrow> exn + pyval" where
  "dict_getitem d k = (case map_of d k of None \<Rightarrow> Inl (Exn KeyError (apos @ k @ apos)) | Some v \<Rightarrow> Inr v)"

fun type_name :: "pyval \<Rightarrow> string" where
  "type_name PNone = ''NoneType''"
| "type_name (PBool b) = ''bool''"
| "type_name (PInt i) = ''int''"
| "type_name (PStr s) = ''str''"
| "type_name (PList xs) = ''list''"
| "type_name (PDict kvs) = ''dict''"

definition getitem_str :: "pyval \<Rightarrow> string \<Rightarrow> exn + pyval" where
  "getitem_str v k =
     (case v of
        PDict d \<Rightarrow> dict_getitem d k
      | PList xs \<Rightarrow> Inl (Exn TypeError ''list indices must be integers or slices, not str'')
      | PStr s \<Rightarrow> Inl (Exn TypeError (''string indices must be integers, not '' @ apos @ ''str'' @ apos))
      | _ \<Rightarrow> Inl (Exn TypeError (apos @ type_name v @ apos @ '' object is not subscriptable'')))"

definition getitem_nat :: "pyval \<Rightarrow> nat \<Rightarrow> exn + pyval" where
  "getitem_nat v i =
     (case v of
        PList xs \<Rightarrow> if i < length xs then Inr (xs ! i) else Inl (Exn IndexError ''list index out of range'')
      | PStr s \<Rightarrow> if i < length s then Inr (PStr [s ! i]) else Inl (Exn IndexError ''string index out of range'')
      | PDict d \<Rightarrow> Inl (Exn KeyError (str_nat i))
      | _ \<Rightarrow> Inl (Exn TypeError (apos @ type_name v @ apos @ '' object is not subscriptable'')))"

text \<open>
  Sequencing of steps that may raise: \<open>then_do\<close> runs the next step on the value of the
  first, \<open>for_each\<close> is a \<^verbatim>\<open>for\<close> loop whose body updates the loop's variables, and
  \<open>sequence\<close> is a list comprehension whose elements may raise.  The first exception ends the
  computation.
\<close>

definition then_do :: "exn + 'a \<Rightarrow> ('a \<Rightarrow> exn + 'b) \<Rightarrow> exn + 'b" where
  "then_do m f = (case m of Inl e \<Rightarrow> Inl e | Inr x \<Rightarrow> f x)"

fun for_each :: "('a \<Rightarrow> 's \<Rightarrow> exn + 's) \<Rightarrow> 'a list \<Rightarrow> 's \<Rightarrow> exn + 's" where
  "for_each f [] s = Inr s"
| "for_each f (x # xs) s = (case f x s of Inl e \<Rightarrow> Inl e | Inr s' \<Rightarrow> for_each f xs s')"

fun sequence :: "(exn + 'a) list \<Rightarrow> exn + 'a list" where
  "sequence [] = Inr []"
| "sequence (m # ms) =
     (case m of
        Inl e \<Rightarrow> Inl e
      | Inr v \<Rightarrow> (case sequence ms of Inl e \<Rightarrow> Inl e | Inr vs \<Rightarrow> Inr (v # vs)))"

definition enumerate_from :: "nat \<Rightarrow> 'a list \<Rightarrow> (nat \<times> 'a) list" where
  "enumerate_from n xs = zip [n..<n + length xs] xs"

text \<open>
  Iteration over a value, \<^verbatim>\<open>v + n\<close> for a count \<open>n\<close>, and the test \<^verbatim>\<open>0 <= idx < n\<close>:
  a Boolean counts as 0 or 1, and a value that is not a number raises \<^verbatim>\<open>TypeError\<close>.
\<close>

definition py_iter :: "pyval \<Rightarrow> exn + pyval list" where
  "py_iter v =
     (case v of
        PList xs \<Rightarrow> Inr xs
      | PStr s \<Rightarrow> Inr (map (\<lambda>c. PStr [c]) s)
      | PDict kvs \<Rightarrow> Inr (map (\<lambda>kv. PStr (fst kv)) kvs)
      | _ \<Rightarrow> Inl (Exn TypeError (apos @ type_name v @ apos @ '' object is not iterable'')))"

definition as_int :: "pyval \<Rightarrow> int option" where
  "as_int v = (case v of PInt i \<Rightarrow> Some i | PBool b \<Rightarrow> Some (if b then 1 else 0) | _ \<Rightarrow> None)"

definition py_add_nat :: "pyval \<Rightarrow> nat \<Rightarrow> exn + pyval" where
  "py_add_nat v n =
     (case as_int v of
        Some i \<Rightarrow> Inr (PInt (i + int n))
      | None \<Rightarrow> Inl (Exn TypeError (''unsupported operand type(s) for +: '' @ apos @ type_name v @ apos
                         @ '' and '' @ apos @ ''int'' @ apos)))"

definition index_in_range :: "pyval \<Rightarrow> nat \<Rightarrow> exn + nat option" where
  "index_in_range idx n =
     (case as_int idx of
        Some i \<Rightarrow> Inr (if 0 \<le> i \<and> i < int n then Some (nat i) else None)
      | None \<Rightarrow> Inl (Exn TypeError (apos @ ''<='' @ apos @ '' not supported between instances of ''
                         @ apos @ ''int'' @ apos @ '' and '' @ apos @ type_name idx @ apos)))"

text \<open>
  More operations on values that the formatted-document tool applies to its JSON input:
  \<^verbatim>\<open>v.get(key, default)\<close>, \<^verbatim>\<open>len(v)\<close>, \<^verbatim>\<open>v.lower()\<close>, \<^verbatim>\<open>'**' in v\<close> and \<^verbatim>\<open>str(v)\<close>, each
  with the error Python raises for a value of another type.  \<^verbatim>\<open>str\<close> of a list or a
  dictionary is left to the parameter \<open>repr\<close>.
\<close>

definition py_get :: "pyval \<Rightarrow> string \<Rightarrow> pyval \<Rightarrow> exn + pyval" where
  "py_get v k dflt =
     (case v of
        PDict d \<Rightarrow> Inr (dict_get d k dflt)
      | _ \<Rightarrow> Inl (Exn AttributeError (apos @ type_name v @ apos @ '' object has no attribute ''
                       @ apos @ ''get'' @ apos)))"

definition py_len :: "pyval \<Rightarrow> exn + nat" where
  "py_len v =
     (case v of
        PStr s \<Rightarrow> Inr (length s)
      | PList xs \<Rightarrow> Inr (length xs)
      | PDict d \<Rightarrow> Inr (length d)
      | _ \<Rightarrow> Inl (Exn TypeError (''object of type '' @ apos @ type_name v @ apos @ '' has no len()'')))"

definition lower_char :: "char \<Rightarrow> char" where
  "lower_char c =
     (let n = (of_char c :: nat)
      in if (65 \<le> n \<and> n \<le> 90) \<or> (192 \<le> n \<and> n \<le> 222 \<and> n \<noteq> 215) then char_of (n + 32) else c)"

definition py_lower :: "pyval \<Rightarrow> exn + string" where
  "py_lower v =
     (case v of
        PStr s \<Rightarrow> Inr (map lower_char s)
      | _ \<Rightarrow> Inl (Exn AttributeError (apos @ type_name v @ apos @ '' object has no attribute ''
                       @ apos @ ''lower'' @ apos)))"

definition contains_stars :: "pyval \<Rightarrow> exn + bool" where
  "contains_stars v =
     (case v of
        PStr s \<Rightarrow> Inr (str_contains s ''**'')
      | PList xs \<Rightarrow> Inr (PStr ''**'' \<in> set xs)
      | PDict d \<Rightarrow> Inr (''**'' \<in> set (map fst d))
      | _ \<Rightarrow> Inl (Exn TypeError (''argument of type '' @ apos @ type_name v @ apos @ '' is not iterable'')))"

definition py_str :: "(pyval \<Rightarrow> string) \<Rightarrow> pyval \<Rightarrow> string" where
  "py_str repr v =
     (case v of
        PNone \<Rightarrow> ''None''
      | PBool b \<Rightarrow> (if b then ''True'' else ''False'')
      | PInt i \<Rightarrow> str_int i
      | PStr s \<Rightarrow> s
      | _ \<Rightarrow> repr v)"

definition ends_with :: "string \<Rightarrow> string \<Rightarrow> bool" where
  "ends_with s p = starts_with (rev s) (rev p)"

text \<open>
  \<^verbatim>\<open>int(s, 16)\<close>: white space around, one sign, an optional \<^verbatim>\<open>0x\<close> prefix, hexadecimal
  digits with single underscores between them.
\<close>

definition hex_val :: "char \<Rightarrow> nat option" where
  "hex_val c =
     (let n = (of_char c :: nat)
      in if 48 \<le> n \<and> n \<le> 57 then Some (n - 48)
         else if 65 \<le> n \<and> n \<le> 70 then Some (n - 55)
         else if 97 \<le> n \<and> n \<le> 102 then Some (n - 87)
         else None)"

fun hex_digits_value :: "nat \<Rightarrow> string \<Rightarrow> nat option" where
  "hex_digits_value acc [] = Some acc"
| "hex_digits_value acc (c # cs) =
     (case hex_val c of
        Some d \<Rightarrow> hex_digits_value (16 * acc + d) cs
      | None \<Rightarrow>
          if c = CHR ''_'' then
            (case cs of [] \<Rightarrow> None | d # ds \<Rightarrow> if hex_val d \<noteq> None then hex_digits_value acc cs else None)
          else None)"

definition hex_unsigned :: "string \<Rightarrow> nat option" where
  "hex_unsigned s =
     (let body = (if starts_with s ''0x'' \<or> starts_with s ''0X''
                  then (case drop 2 s of c # cs \<Rightarrow> if c = CHR ''_'' then cs else c # cs | [] \<Rightarrow> [])
                  else s)
      in case body of [] \<Rightarrow> None | c # cs \<Rightarrow> if hex_val c \<noteq> None then hex_digits_value 0 body else None)"

definition int_of_hex :: "string \<Rightarrow> exn + int" where
  "int_of_hex s =
     (let r = (case strip s of
                 [] \<Rightarrow> None
               | c # cs \<Rightarrow>
                   if c = CHR ''-'' then map_option (\<lambda>n. - int n) (hex_unsigned cs)
                   else if c = CHR ''+'' then map_option int (hex_unsigned cs)
                   else map_option int (hex_unsigned (c # cs)))
      in case r of
           Some i \<Rightarrow> Inr i
         | None \<Rightarrow> Inl (Exn ValueError (''invalid literal for int() with base 16: '' @ apos @ s @ apos)))"

text \<open>
  \<^verbatim>\<open>int(c[0:2], 16), int(c[2:4], 16), int(c[4:6], 16)\<close> for a colour \<open>c\<close>.  (For a
  dictionary the class of the error depends on the interpreter's version; it is
  \<^verbatim>\<open>TypeError\<close> here.)
\<close>

definition parse_rgb :: "pyval \<Rightarrow> exn + pyval" where
  "parse_rgb c =
     (case c of
        PStr s \<Rightarrow>
          then_do (int_of_hex (take 2 s)) (\<lambda>r.
          then_do (int_of_hex (take 2 (drop 2 s))) (\<lambda>g.
          then_do (int_of_hex (take 2 (drop 4 s))) (\<lambda>b. Inr (PList [PInt r, PInt g, PInt b]))))
      | PList xs \<Rightarrow> Inl (Exn TypeError ''int() can't convert non-string with explicit base'')
      | PDict d \<Rightarrow> Inl (Exn TypeError (''unhashable type: '' @ apos @ ''slice'' @ apos))
      | _ \<Rightarrow> Inl (Exn TypeError (apos @ type_name c @ apos @ '' object is not subscriptable'')))"

section \<open>The libraries\<close>

text \<open>
  The tools are glue around the standard library, python-docx, pandas, openpyxl, reportlab,
  docx2pdf and send2trash.  None of these is part of the repository: every call is a field
  of the record below, a function of the world (and of its arguments) that returns a value
  or raises, and a call that writes returns the new world as well.  \<open>'o\<close> is the type of the
  objects the libraries hand out (a data frame, a workbook, a canvas).
\<close>

record 'w oslib =
  os_path_exists :: "'w \<Rightarrow> string \<Rightarrow> bool"
  os_path_isdir :: "'w \<Rightarrow> string \<Rightarrow> bool"
  os_path_getsize :: "'w \<Rightarrow> string \<Rightarrow> exn + nat"
  os_path_basename :: "string \<Rightarrow> string"
  os_path_abspath :: "'w \<Rightarrow> string \<Rightarrow> string"
  os_path_dirname :: "string \<Rightarrow> string"
  os_listdir :: "'w \<Rightarrow> string \<Rightarrow> exn + string list"
  os_makedirs :: "string \<Rightarrow> 'w \<Rightarrow> (exn + unit) \<times> 'w"
  os_remove :: "string \<Rightarrow> 'w \<Rightarrow> (exn + unit) \<times> 'w"
  os_rmdir :: "string \<Rightarrow> 'w \<Rightarrow> (exn + unit) \<times> 'w"
  send2trash :: "string \<Rightarrow> 'w \<Rightarrow> (exn + unit) \<times> 'w"

text \<open>
  Reading: a text file in full, a JSON text, and the archive of a Word document (the root
  of its \<^verbatim>\<open>word/document.xml\<close> and the names of its members).
\<close>

record 'w stdlib = "'w oslib" +
  read_text :: "'w \<Rightarrow> string \<Rightarrow> exn + string"
  json_loads :: "string \<Rightarrow> exn + pyval"
  zip_document_xml :: "'w \<Rightarrow> string \<Rightarrow> exn + (xml \<times> string list)"

text \<open>
  python-docx.  A document is the list of the block-level elements of its body
  (\<^verbatim>\<open>w:p\<close> and \<^verbatim>\<open>w:tbl\<close>, in order) and the rest of its package (section properties,
  styles, header and footer parts), which only the library looks into.  The calls that add
  to the body return the new element and the tool's model appends it;
  \<open>docx_format\<close> stands for the property setters of a paragraph or run
  (alignment, spacing, font, colour), given as name and value pairs.
\<close>

record 'o document =
  body :: "xml list"
  package :: 'o

record ('w, 'o) docxlib = "'w stdlib" +
  docx_new :: "exn + 'o document"
  docx_open :: "'w \<Rightarrow> string \<Rightarrow> exn + 'o document"
  docx_save :: "'o document \<Rightarrow> string \<Rightarrow> 'w \<Rightarrow> (exn + unit) \<times> 'w"
  docx_paragraph :: "'o document \<Rightarrow> pyval \<Rightarrow> pyval \<Rightarrow> exn + xml"
  docx_heading :: "'o document \<Rightarrow> pyval \<Rightarrow> pyval \<Rightarrow> exn + xml"
  docx_set_text :: "xml \<Rightarrow> pyval \<Rightarrow> exn + xml"
  docx_run :: "pyval \<Rightarrow> exn + xml"
  docx_format :: "xml \<Rightarrow> (string \<times> pyval) list \<Rightarrow> exn + xml"
  docx_page_setup :: "'o \<Rightarrow> exn + 'o"
  docx_set_header :: "'o \<Rightarrow> pyval \<Rightarrow> exn + 'o"
  docx_set_footer :: "'o \<Rightarrow> pyval \<Rightarrow> exn + 'o"
  docx_table :: "'o document \<Rightarrow> nat \<Rightarrow> nat \<Rightarrow> exn + xml"
  docx_cell_set_text :: "xml \<Rightarrow> string \<Rightarrow> exn + xml"
  docx_page_break :: "'o document \<Rightarrow> exn + xml"
  py_repr :: "pyval \<Rightarrow> string"

text \<open>
  pandas and openpyxl (a data frame, a workbook and a worksheet are library objects;
  the calls on a worksheet return the workbook they changed), reportlab and docx2pdf.
\<close>

record ('w, 'o) sheetlib = "('w, 'o) docxlib" +
  pd_DataFrame :: "pyval \<Rightarrow> exn + 'o"
  pd_read_csv :: "'w \<Rightarrow> string \<Rightarrow> exn + 'o"
  df_to_excel :: "'o \<Rightarrow> string \<Rightarrow> 'w \<Rightarrow> (exn + unit) \<times> 'w"
  load_workbook :: "'w \<Rightarrow> string \<Rightarrow> exn + 'o"
  wb_sheetnames :: "'o \<Rightarrow> string list"
  wb_create_sheet :: "'o \<Rightarrow> pyval \<Rightarrow> exn + 'o"
  wb_getitem :: "'o \<Rightarrow> pyval \<Rightarrow> exn + 'o"
  ws_cell :: "'o \<Rightarrow> 'o \<Rightarrow> pyval \<Rightarrow> pyval \<Rightarrow> pyval \<Rightarrow> exn + 'o"
  ws_delete_rows :: "'o \<Rightarrow> 'o \<Rightarrow> pyval \<Rightarrow> exn + 'o"
  ws_delete_cols :: "'o \<Rightarrow> 'o \<Rightarrow> pyval \<Rightarrow> exn + 'o"
  wb_delitem :: "'o \<Rightarrow> pyval \<Rightarrow> exn + 'o"
  wb_save :: "'o \<Rightarrow> string \<Rightarrow> 'w \<Rightarrow> (exn + unit) \<times> 'w"

record ('w, 'o) lib = "('w, 'o) sheetlib" +
  canvas_new :: "string \<Rightarrow> exn + 'o"
  canvas_showPage :: "'o \<Rightarrow> exn + 'o"
  canvas_drawString :: "'o \<Rightarrow> int \<Rightarrow> int \<Rightarrow> string \<Rightarrow> exn + 'o"
  canvas_save :: "'o \<Rightarrow> string \<Rightarrow> 'w \<Rightarrow> (exn + unit) \<times> 'w"
  docx2pdf_convert :: "string \<Rightarrow> string \<Rightarrow> 'w \<Rightarrow> (exn + unit) \<times> 'w"

text \<open>
  Steps of a tool: \<open>on_value\<close> continues with the value of a call that does not write,
  \<open>on_write\<close> with the value and the new world of a call that writes; an exception ends the
  tool's \<^verbatim>\<open>try\<close> block, in the world the failing call left.
\<close>

definition on_value :: "exn + 'a \<Rightarrow> ('a \<Rightarrow> 'w state \<Rightarrow> ('b, 'w) comp) \<Rightarrow> 'w state \<Rightarrow> ('b, 'w) comp" where
  "on_value m k s = (case m of Inl e \<Rightarrow> (Inl e, s) | Inr x \<Rightarrow> k x s)"

definition on_write ::
  "('w \<Rightarrow> (exn + 'a) \<times> 'w) \<Rightarrow> ('a \<Rightarrow> 'w state \<Rightarrow> ('b, 'w) comp) \<Rightarrow> 'w state \<Rightarrow> ('b, 'w) comp" where
  "on_write m k s =
     (case m (world s) of
        (Inl e, w') \<Rightarrow> (Inl e, s\<lparr>world := w'\<rparr>)
      | (Inr x, w') \<Rightarrow> k x (s\<lparr>world := w'\<rparr>))"

text \<open>\<^verbatim>\<open>os.makedirs(os.path.dirname(os.path.abspath(filepath)), exist_ok=True)\<close>\<close>

definition make_parent_dirs :: "('w, 'z) oslib_scheme \<Rightarrow> string \<Rightarrow> 'w \<Rightarrow> (exn + unit) \<times> 'w" where
  "make_parent_dirs L filepath w = os_makedirs L (os_path_dirname L (os_path_abspath L w filepath)) w"

section \<open>File management tools\<close>

definition confirm_trash :: string where
  "confirm_trash = ''CORBEILLE''"

definition confirm_permanent :: string where
  "confirm_permanent = ''SUPPRESSION D'' @ CHR 0xC9 # ''FINITIVE''"

definition cancel_message :: string where
  "cancel_message =
     ''Suppression annulee. Le parametre '' @ apos @ ''confirm'' @ apos @ '' doit etre: ''
     @ apos @ confirm_trash @ apos @ '' (recuperable) ou ''
     @ apos @ confirm_permanent @ apos @ '' (permanent)''"

definition delete_file_body :: "('w, 'z) oslib_scheme \<Rightarrow> string \<Rightarrow> string \<Rightarrow> 'w state \<Rightarrow> (pydict, 'w) comp" where
  "delete_file_body L filepath confirm s =
     (if confirm \<notin> set [confirm_trash, confirm_permanent] then
        (Inr [(''success'', PBool False), (''message'', PStr cancel_message),
              (''filepath'', PStr filepath), (''deleted'', PBool False)], s)
      else if \<not> os_path_exists L (world s) filepath then
        (Inr [(''success'', PBool False), (''message'', PStr (''File not found: '' @ filepath)),
              (''filepath'', PStr filepath), (''deleted'', PBool False)], s)
      else if os_path_isdir L (world s) filepath then
        (Inr [(''success'', PBool False),
              (''message'', PStr (''Cannot delete directory with this function: '' @ filepath)),
              (''filepath'', PStr filepath), (''deleted'', PBool False)], s)
      else
        (case os_path_getsize L (world s) filepath of
           Inl e \<Rightarrow> (Inl e, s)
         | Inr file_size \<Rightarrow>
            (let file_name = os_path_basename L filepath in
             if confirm = confirm_trash then
               (case send2trash L filepath (world s) of
                  (Inl e, w') \<Rightarrow> (Inl e, s\<lparr>world := w'\<rparr>)
                | (Inr u, w') \<Rightarrow>
                    (Inr [(''success'', PBool True),
                          (''message'', PStr (''Envoye a la corbeille: '' @ file_name @ '' (''
                              @ str_nat file_size @ '' bytes) - RECUPERABLE'')),
                          (''filepath'', PStr filepath), (''deleted'', PBool True),
                          (''method'', PStr ''trash'')],
                     logger INFO (''Sent to trash: '' @ filepath @ '' ('' @ str_nat file_size @ '' bytes)'')
                       (s\<lparr>world := w'\<rparr>)))
             else
               (case os_remove L filepath (world s) of
                  (Inl e, w') \<Rightarrow> (Inl e, s\<lparr>world := w'\<rparr>)
                | (Inr u, w') \<Rightarrow>
                    (Inr [(''success'', PBool True),
                          (''message'', PStr (''Supprime definitivement: '' @ file_name @ '' (''
                              @ str_nat file_size @ '' bytes) - NON RECUPERABLE'')),
                          (''filepath'', PStr filepath), (''deleted'', PBool True),
                          (''method'', PStr ''permanent'')],
                     logger INFO (''Permanently deleted: '' @ filepath @ '' ('' @ str_nat file_size @ '' bytes)'')
                       (s\<lparr>world := w'\<rparr>))))))"

definition delete_file :: "('w, 'z) oslib_scheme \<Rightarrow> string \<Rightarrow> string \<Rightarrow> 'w state \<Rightarrow> (pydict, 'w) comp" where
  "delete_file L filepath confirm s =
     try_except (delete_file_body L filepath confirm s)
       [(PermissionError, \<lambda>e s'.
           (Inr [(''success'', PBool False), (''message'', PStr (''Permission denied: '' @ filepath)),
                 (''filepath'', PStr filepath), (''deleted'', PBool False)], s')),
        (Exception, \<lambda>e s'.
           (Inr [(''success'', PBool False), (''message'', PStr (''Error deleting file: '' @ str_exn e)),
                 (''filepath'', PStr filepath), (''deleted'', PBool False)],
            logger ERROR (''Error deleting file: '' @ str_exn e) s'))]"

definition delete_directory_body :: "('w, 'z) oslib_scheme \<Rightarrow> string \<Rightarrow> string \<Rightarrow> 'w state \<Rightarrow> (pydict, 'w) comp" where
  "delete_directory_body L dirpath confirm s =
     (if confirm \<notin> set [confirm_trash, confirm_permanent] then
        (Inr [(''success'', PBool False), (''message'', PStr cancel_message),
              (''dirpath'', PStr dirpath), (''deleted'', PBool False)], s)
      else if \<not> os_path_exists L (world s) dirpath then
        (Inr [(''success'', PBool False), (''message'', PStr (''Directory not found: '' @ dirpath)),
              (''dirpath'', PStr dirpath), (''deleted'', PBool False)], s)
      else if \<not> os_path_isdir L (world s) dirpath then
        (Inr [(''success'', PBool False), (''message'', PStr (''Not a directory: '' @ dirpath)),
              (''dirpath'', PStr dirpath), (''deleted'', PBool False)], s)
      else
        (case os_listdir L (world s) dirpath of
           Inl e \<Rightarrow> (Inl e, s)
         | Inr contents \<Rightarrow>
            if contents \<noteq> [] then
              (Inr [(''success'', PBool False),
                    (''message'', PStr (''Directory not empty ('' @ str_nat (length contents)
                        @ '' items). Delete contents first.'')),
                    (''dirpath'', PStr dirpath),
                    (''contents'', PList (map PStr (take 10 contents))),
                    (''deleted'', PBool False)], s)
            else if confirm = confirm_trash then
              (case send2trash L dirpath (world s) of
                 (Inl e, w') \<Rightarrow> (Inl e, s\<lparr>world := w'\<rparr>)
               | (Inr u, w') \<Rightarrow>
                   (Inr [(''success'', PBool True),
                         (''message'', PStr (''Dossier envoye a la corbeille: '' @ dirpath @ '' - RECUPERABLE'')),
                         (''dirpath'', PStr dirpath), (''deleted'', PBool True),
                         (''method'', PStr ''trash'')],
                    logger INFO (''Sent directory to trash: '' @ dirpath) (s\<lparr>world := w'\<rparr>)))
            else
              (case os_rmdir L dirpath (world s) of
                 (Inl e, w') \<Rightarrow> (Inl e, s\<lparr>world := w'\<rparr>)
               | (Inr u, w') \<Rightarrow>
                   (Inr [(''success'', PBool True),
                         (''message'', PStr (''Dossier supprime definitivement: '' @ dirpath @ '' - NON RECUPERABLE'')),
                         (''dirpath'', PStr dirpath), (''deleted'', PBool True),
                         (''method'', PStr ''permanent'')],
                    logger INFO (''Permanently deleted directory: '' @ dirpath) (s\<lparr>world := w'\<rparr>)))))"

definition delete_directory :: "('w, 'z) oslib_scheme \<Rightarrow> string \<Rightarrow> string \<Rightarrow> 'w state \<Rightarrow> (pydict, 'w) comp" where
  "delete_directory L dirpath confirm s =
     try_except (delete_directory_body L dirpath confirm s)
       [(PermissionError, \<lambda>e s'.
           (Inr [(''success'', PBool False), (''message'', PStr (''Permission denied: '' @ dirpath)),
                 (''dirpath'', PStr dirpath), (''deleted'', PBool False)], s')),
        (Exception, \<lambda>e s'.
           (Inr [(''success'', PBool False), (''message'', PStr (''Error deleting directory: '' @ str_exn e)),
                 (''dirpath'', PStr dirpath), (''deleted'', PBool False)],
            logger ERROR (''Error deleting directory: '' @ str_exn e) s'))]"

section \<open>Reading and comparing the structure of Word documents\<close>

text \<open>\<^verbatim>\<open>int(e.get(name, 0))\<close>: the attribute as an integer, 0 when the element has none.\<close>

definition declared_int :: "xml \<Rightarrow> string \<Rightarrow> exn + int" where
  "declared_int e k = (case attr e k of None \<Rightarrow> Inr 0 | Some v \<Rightarrow> int_of_str v)"

definition column_widths_of :: "xml \<Rightarrow> exn + (pyval \<times> pyval)" where
  "column_widths_of tbl =
     (case find_child tbl ''w:tblGrid'' of
        None \<Rightarrow> Inr (PList [], PNone)
      | Some tblGrid \<Rightarrow>
          then_do (sequence (map (\<lambda>gc. declared_int gc ''w:w'') (findall tblGrid ''w:gridCol'')))
            (\<lambda>ws. Inr (PList (map PInt ws), PStr ''tblGrid'')))"

definition row_info :: "nat \<Rightarrow> pyval \<Rightarrow> pyval \<Rightarrow> pyval" where
  "row_info j height rule = PDict [(''row_index'', PInt (int j)), (''height'', height), (''height_rule'', rule)]"

definition row_height_info :: "nat \<Rightarrow> xml \<Rightarrow> exn + (bool \<times> pyval)" where
  "row_height_info j row =
     (case find_child row ''w:trPr'' of
        None \<Rightarrow> Inr (False, row_info j PNone PNone)
      | Some trPr \<Rightarrow>
          (case find_child trPr ''w:trHeight'' of
             None \<Rightarrow> Inr (False, row_info j PNone PNone)
           | Some trHeight \<Rightarrow>
               (let hRule = (case attr trHeight ''w:hRule'' of None \<Rightarrow> PNone | Some r \<Rightarrow> PStr r) in
                case attr trHeight ''w:val'' of
                  None \<Rightarrow> Inr (True, row_info j PNone hRule)
                | Some v \<Rightarrow>
                    if v = [] then Inr (True, row_info j PNone hRule)
                    else then_do (int_of_str v) (\<lambda>h. Inr (True, row_info j (PInt h) hRule)))))"

definition cell_width :: "xml \<Rightarrow> exn + pyval" where
  "cell_width cell =
     (case find_child cell ''w:tcPr'' of
        None \<Rightarrow> Inr PNone
      | Some tcPr \<Rightarrow>
          (case find_child tcPr ''w:tcW'' of
             None \<Rightarrow> Inr PNone
           | Some tcW \<Rightarrow> then_do (declared_int tcW ''w:w'') (\<lambda>w. Inr (PInt w))))"

text \<open>
  The body of the loop over the rows of a table.  Its variables are the flag
  \<^verbatim>\<open>has_explicit_row_heights\<close> and the lists \<^verbatim>\<open>row_heights\<close> and \<^verbatim>\<open>cell_widths\<close>.
\<close>

definition row_step :: "nat \<times> xml \<Rightarrow> bool \<times> pyval list \<times> pyval list \<Rightarrow> exn + (bool \<times> pyval list \<times> pyval list)" where
  "row_step jr acc =
     (case jr of (j, row) \<Rightarrow>
      case acc of (has, heights, widths) \<Rightarrow>
        then_do (row_height_info j row) (\<lambda>(explicit, info).
        then_do (sequence (map cell_width (findall row ''w:tc''))) (\<lambda>cell_widths_row.
          Inr (has \<or> explicit, heights @ [info], widths @ [PList cell_widths_row]))))"

definition table_info :: "nat \<Rightarrow> xml \<Rightarrow> exn + pydict" where
  "table_info i tbl =
     then_do (column_widths_of tbl) (\<lambda>(column_widths, source).
       (let rows = findall tbl ''w:tr'' in
        then_do (for_each row_step (enumerate_from 0 rows) (False, [], [])) (\<lambda>(has, heights, widths).
          Inr [(''table_index'', PInt (int i + 1)),
               (''column_widths'', column_widths),
               (''column_widths_source'', source),
               (''row_count'', PInt (int (length rows))),
               (''row_heights'', PList heights),
               (''has_explicit_row_heights'', PBool has),
               (''cell_widths'', PList widths)])))"

definition table_step :: "nat \<times> xml \<Rightarrow> pyval list \<Rightarrow> exn + pyval list" where
  "table_step it tables_info =
     (case it of (i, tbl) \<Rightarrow> then_do (table_info i tbl) (\<lambda>info. Inr (tables_info @ [PDict info])))"

definition read_word_document_structure_body ::
  "('w, 'z) stdlib_scheme \<Rightarrow> string \<Rightarrow> 'w state \<Rightarrow> (pydict, 'w) comp" where
  "read_word_document_structure_body L filepath s =
     (case zip_document_xml L (world s) filepath of
        Inl e \<Rightarrow> (Inl e, s)
      | Inr (root, names) \<Rightarrow>
          (let has_header = list_ex (\<lambda>name. str_contains name ''header'') names;
               has_footer = list_ex (\<lambda>name. str_contains name ''footer'') names
           in case for_each table_step (enumerate_from 0 (findall_desc root ''w:tbl'')) [] of
                Inl e \<Rightarrow> (Inl e, s)
              | Inr tables_info \<Rightarrow>
                  (Inr [(''success'', PBool True), (''filepath'', PStr filepath),
                        (''tables_count'', PInt (int (length tables_info))),
                        (''tables'', PList tables_info),
                        (''paragraphs_count'', PInt (int (length (findall_desc root ''w:p'')))),
                        (''has_header'', PBool has_header), (''has_footer'', PBool has_footer)], s)))"

definition read_word_document_structure ::
  "('w, 'z) stdlib_scheme \<Rightarrow> string \<Rightarrow> 'w state \<Rightarrow> (pydict, 'w) comp" where
  "read_word_document_structure L filepath s =
     try_except (read_word_document_structure_body L filepath s)
       [(Exception, \<lambda>e s'.
           (Inr [(''success'', PBool False),
                 (''message'', PStr (''Error analyzing Word document: '' @ str_exn e)),
                 (''filepath'', PStr filepath)],
            logger ERROR (''Error analyzing Word document: '' @ str_exn e) s'))]"

text \<open>
  The comparison.  \<open>table_differences\<close> is the list \<^verbatim>\<open>table_diffs["differences"]\<close> for one
  pair of tables; \<open>compare_step\<close> is the body of the loop over the table indices.
\<close>

definition table_differences :: "pyval \<Rightarrow> pyval \<Rightarrow> exn + pyval list" where
  "table_differences t1 t2 =
     then_do (getitem_str t1 ''column_widths'') (\<lambda>c1.
     then_do (getitem_str t2 ''column_widths'') (\<lambda>c2.
     then_do (if c1 \<noteq> c2 then
                then_do (getitem_str t1 ''column_widths_source'') (\<lambda>s1.
                then_do (getitem_str t2 ''column_widths_source'') (\<lambda>s2.
                  Inr [PDict [(''property'', PStr ''column_widths''), (''doc1'', c1), (''doc2'', c2),
                              (''doc1_source'', s1), (''doc2_source'', s2)]]))
              else Inr []) (\<lambda>d1.
     then_do (getitem_str t1 ''has_explicit_row_heights'') (\<lambda>h1.
     then_do (getitem_str t2 ''has_explicit_row_heights'') (\<lambda>h2.
     then_do (getitem_str t1 ''row_count'') (\<lambda>r1.
     then_do (getitem_str t2 ''row_count'') (\<lambda>r2.
       Inr (d1
            @ (if h1 \<noteq> h2
               then [PDict [(''property'', PStr ''has_explicit_row_heights''), (''doc1'', h1), (''doc2'', h2)]]
               else [])
            @ (if r1 \<noteq> r2
               then [PDict [(''property'', PStr ''row_count''), (''doc1'', r1), (''doc2'', r2)]]
               else [])))))))))"

definition compare_step :: "pydict \<Rightarrow> pydict \<Rightarrow> nat \<Rightarrow> pyval list \<Rightarrow> exn + pyval list" where
  "compare_step doc1 doc2 i differences =
     then_do (dict_getitem doc1 ''tables'') (\<lambda>ts1.
     then_do (getitem_nat ts1 i) (\<lambda>t1.
     then_do (dict_getitem doc2 ''tables'') (\<lambda>ts2.
     then_do (getitem_nat ts2 i) (\<lambda>t2.
     then_do (table_differences t1 t2) (\<lambda>ds.
       Inr (if ds \<noteq> []
            then differences @ [PDict [(''table_index'', PInt (int i + 1)), (''differences'', PList ds)]]
            else differences))))))"

text \<open>
  \<^verbatim>\<open>range(min(a, b))\<close> for the two table counts, which are integers in every result of
  \<open>read_word_document_structure\<close>.
\<close>

definition range_min :: "pyval \<Rightarrow> pyval \<Rightarrow> exn + nat list" where
  "range_min a b =
     (case (a, b) of
        (PInt m, PInt n) \<Rightarrow> Inr [0..<nat (min m n)]
      | _ \<Rightarrow> Inl (Exn TypeError ''table counts are not integers''))"

definition compare_docs :: "pydict \<Rightarrow> pydict \<Rightarrow> string \<Rightarrow> string \<Rightarrow> exn + pydict" where
  "compare_docs doc1 doc2 filepath1 filepath2 =
     then_do (dict_getitem doc1 ''tables_count'') (\<lambda>n1.
     then_do (dict_getitem doc2 ''tables_count'') (\<lambda>n2.
       (let differences0 =
              (if n1 \<noteq> n2 then [PDict [(''type'', PStr ''tables_count''), (''doc1'', n1), (''doc2'', n2)]] else [])
        in then_do (range_min n1 n2) (\<lambda>indices.
           then_do (for_each (compare_step doc1 doc2) indices differences0) (\<lambda>differences.
             (let is_identical = (length differences = 0) in
              Inr [(''success'', PBool True), (''is_identical'', PBool is_identical),
                   (''filepath1'', PStr filepath1), (''filepath2'', PStr filepath2),
                   (''differences'', PList differences),
                   (''summary'', PStr (if is_identical then ''Documents are identical in structure''
                       else ''Found '' @ str_nat (length differences) @ '' difference(s)''))]))))))"

definition compare_word_documents_body ::
  "('w, 'z) stdlib_scheme \<Rightarrow> string \<Rightarrow> string \<Rightarrow> 'w state \<Rightarrow> (pydict, 'w) comp" where
  "compare_word_documents_body L filepath1 filepath2 s =
     (case read_word_document_structure L filepath1 s of
        (Inl e, s1) \<Rightarrow> (Inl e, s1)
      | (Inr doc1, s1) \<Rightarrow>
          (case read_word_document_structure L filepath2 s1 of
             (Inl e, s2) \<Rightarrow> (Inl e, s2)
           | (Inr doc2, s2) \<Rightarrow>
               if \<not> truthy (dict_get doc1 ''success'' PNone) \<or> \<not> truthy (dict_get doc2 ''success'' PNone)
               then (Inr [(''success'', PBool False),
                          (''message'', PStr ''Failed to read one or both documents''),
                          (''doc1_error'', dict_get doc1 ''message'' PNone),
                          (''doc2_error'', dict_get doc2 ''message'' PNone)], s2)
               else (case compare_docs doc1 doc2 filepath1 filepath2 of
                       Inl e \<Rightarrow> (Inl e, s2)
                     | Inr r \<Rightarrow> (Inr r, s2))))"

definition compare_word_documents ::
  "('w, 'z) stdlib_scheme \<Rightarrow> string \<Rightarrow> string \<Rightarrow> 'w state \<Rightarrow> (pydict, 'w) comp" where
  "compare_word_documents L filepath1 filepath2 s =
     try_except (compare_word_documents_body L filepath1 filepath2 s)
       [(Exception, \<lambda>e s'.
           (Inr [(''success'', PBool False),
                 (''message'', PStr (''Error comparing Word documents: '' @ str_exn e))],
            logger ERROR (''Error comparing Word documents: '' @ str_exn e) s'))]"

subsection \<open>The table geometry in the words of the specification\<close>

text \<open>
  What the specification says the reader reports for a table: the \<^verbatim>\<open>w:w\<close> values of the
  \<^verbatim>\<open>w:gridCol\<close> children of the table's \<^verbatim>\<open>w:tblGrid\<close>, the number of its \<^verbatim>\<open>w:tr\<close>
  elements, and whether some row has a \<^verbatim>\<open>w:trHeight\<close> in its \<^verbatim>\<open>w:trPr\<close>.  The table's
  \<^verbatim>\<open>w:tblGrid\<close> and a row's \<^verbatim>\<open>w:trPr\<close> are the first child of that name; an attribute
  value is read as an integer, a \<^verbatim>\<open>w:gridCol\<close> without \<^verbatim>\<open>w:w\<close> counts as 0.
\<close>

definition spec_grid_cols :: "xml \<Rightarrow> xml list" where
  "spec_grid_cols tbl =
     concat (map (\<lambda>g. filter (\<lambda>c. tag c = ''w:gridCol'') (children g))
                 (take 1 (filter (\<lambda>c. tag c = ''w:tblGrid'') (children tbl))))"

definition spec_width :: "xml \<Rightarrow> int option" where
  "spec_width gc = (case map_of (attrs gc) ''w:w'' of None \<Rightarrow> Some 0 | Some v \<Rightarrow> int_literal v)"

definition spec_row_count :: "xml \<Rightarrow> nat" where
  "spec_row_count tbl = length (filter (\<lambda>c. tag c = ''w:tr'') (children tbl))"

definition spec_row_has_height :: "xml \<Rightarrow> bool" where
  "spec_row_has_height row =
     list_ex (\<lambda>pr. list_ex (\<lambda>h. tag h = ''w:trHeight'') (children pr))
             (take 1 (filter (\<lambda>c. tag c = ''w:trPr'') (children row)))"

definition spec_has_row_heights :: "xml \<Rightarrow> bool" where
  "spec_has_row_heights tbl = list_ex spec_row_has_height (filter (\<lambda>c. tag c = ''w:tr'') (children tbl))"

text \<open>
  What the specification says of the comparison, on two results of the reader: the same
  \<^verbatim>\<open>tables_count\<close> and, for every index below the smaller count, equal
  \<^verbatim>\<open>column_widths\<close>, \<^verbatim>\<open>has_explicit_row_heights\<close> and \<^verbatim>\<open>row_count\<close>.  \<open>geometry\<close> is what
  these three say of a table of the document.
\<close>

definition field :: "pyval \<Rightarrow> string \<Rightarrow> pyval option" where
  "field t k = (case t of PDict kvs \<Rightarrow> map_of kvs k | _ \<Rightarrow> None)"

definition tables_of :: "pydict \<Rightarrow> pyval list" where
  "tables_of d = (case map_of d ''tables'' of Some (PList ts) \<Rightarrow> ts | _ \<Rightarrow> [])"

definition same_geometry :: "pyval \<Rightarrow> pyval \<Rightarrow> bool" where
  "same_geometry t1 t2 =
     (field t1 ''column_widths'' = field t2 ''column_widths''
      \<and> field t1 ''has_explicit_row_heights'' = field t2 ''has_explicit_row_heights''
      \<and> field t1 ''row_count'' = field t2 ''row_count'')"

definition spec_identical :: "pydict \<Rightarrow> pydict \<Rightarrow> bool" where
  "spec_identical d1 d2 =
     (map_of d1 ''tables_count'' = map_of d2 ''tables_count''
      \<and> (\<forall>i < min (length (tables_of d1)) (length (tables_of d2)).
            same_geometry (tables_of d1 ! i) (tables_of d2 ! i)))"

definition geometry :: "xml \<Rightarrow> int option list \<times> bool \<times> nat" where
  "geometry tbl = (map spec_width (spec_grid_cols tbl), spec_has_row_heights tbl, spec_row_count tbl)"

text \<open>An entry of the reader's table list carries the four keys the comparison reads.\<close>

definition entry :: "pyval \<Rightarrow> bool" where
  "entry t = (field t ''column_widths'' \<noteq> None \<and> field t ''column_widths_source'' \<noteq> None
              \<and> field t ''has_explicit_row_heights'' \<noteq> None \<and> field t ''row_count'' \<noteq> None)"

section \<open>Word tools\<close>

definition add_block :: "'o document \<Rightarrow> xml \<Rightarrow> 'o document" where
  "add_block doc e = doc\<lparr>body := body doc @ [e]\<rparr>"

definition create_word_document_body ::
  "('w, 'o, 'z) docxlib_scheme \<Rightarrow> string \<Rightarrow> string \<Rightarrow> 'w state \<Rightarrow> (pydict, 'w) comp" where
  "create_word_document_body L filepath content =
     on_value (docx_new L) (\<lambda>doc.
     on_value (docx_paragraph L doc (PStr content) PNone) (\<lambda>p.
     on_write (make_parent_dirs L filepath) (\<lambda>u.
     on_write (docx_save L (add_block doc p) filepath) (\<lambda>u s.
       (Inr [(''success'', PBool True), (''message'', PStr ''Successfully created Word document''),
             (''filepath'', PStr filepath)],
        logger INFO (''Created Word document: '' @ filepath) s)))))"

definition create_word_document ::
  "('w, 'o, 'z) docxlib_scheme \<Rightarrow> string \<Rightarrow> string \<Rightarrow> 'w state \<Rightarrow> (pydict, 'w) comp" where
  "create_word_document L filepath content s =
     try_except (create_word_document_body L filepath content s)
       [(Exception, \<lambda>e s'.
           (Inr [(''success'', PBool False),
                 (''message'', PStr (''Error creating Word document: '' @ str_exn e)),
                 (''filepath'', PNone)],
            logger ERROR (''Error creating Word document: '' @ str_exn e) s'))]"

text \<open>
  \<^verbatim>\<open>doc.paragraphs\<close> are the \<^verbatim>\<open>w:p\<close> elements of the body, in order;
  \<open>paragraph_positions\<close> are their positions among the block-level elements.
\<close>

definition paragraph_positions :: "xml list \<Rightarrow> nat list" where
  "paragraph_positions b = filter (\<lambda>i. tag (b ! i) = ''w:p'') [0..<length b]"

definition word_edit_step :: "('w, 'o, 'z) docxlib_scheme \<Rightarrow> pydict \<Rightarrow> 'o document \<Rightarrow> exn + 'o document" where
  "word_edit_step L op doc =
     (let op_type = dict_get op ''type'' PNone in
      if op_type = PStr ''add_paragraph'' then
        then_do (docx_paragraph L doc (dict_get op ''text'' (PStr [])) PNone) (\<lambda>p. Inr (add_block doc p))
      else if op_type = PStr ''add_heading'' then
        then_do (docx_heading L doc (dict_get op ''text'' (PStr [])) (dict_get op ''level'' (PInt 1)))
          (\<lambda>p. Inr (add_block doc p))
      else if op_type = PStr ''edit_paragraph'' then
        then_do (index_in_range (dict_get op ''index'' (PInt 0)) (length (paragraph_positions (body doc))))
          (\<lambda>found. case found of
             None \<Rightarrow> Inr doc
           | Some idx \<Rightarrow>
               (let k = paragraph_positions (body doc) ! idx in
                then_do (docx_set_text L (body doc ! k) (dict_get op ''text'' (PStr [])))
                  (\<lambda>p. Inr (doc\<lparr>body := (body doc)[k := p]\<rparr>))))
      else if op_type = PStr ''delete_paragraph'' then
        then_do (index_in_range (dict_get op ''index'' (PInt 0)) (length (paragraph_positions (body doc))))
          (\<lambda>found. case found of
             None \<Rightarrow> Inr doc
           | Some idx \<Rightarrow>
               (let k = paragraph_positions (body doc) ! idx in
                Inr (doc\<lparr>body := take k (body doc) @ drop (Suc k) (body doc)\<rparr>)))
      else Inr doc)"

definition edit_word_document_body ::
  "('w, 'o, 'z) docxlib_scheme \<Rightarrow> string \<Rightarrow> pydict list \<Rightarrow> 'w state \<Rightarrow> (pydict, 'w) comp" where
  "edit_word_document_body L filepath operations s =
     (if \<not> os_path_exists L (world s) filepath then
        (Inr [(''success'', PBool False), (''message'', PStr (''File not found: '' @ filepath)),
              (''filepath'', PNone)], s)
      else
        on_value (docx_open L (world s) filepath) (\<lambda>doc.
        on_value (for_each (word_edit_step L) operations doc) (\<lambda>doc'.
        on_write (docx_save L doc' filepath) (\<lambda>u s'.
          (Inr [(''success'', PBool True), (''message'', PStr ''Successfully edited Word document''),
                (''filepath'', PStr filepath)], s')))) s)"

definition edit_word_document ::
  "('w, 'o, 'z) docxlib_scheme \<Rightarrow> string \<Rightarrow> pydict list \<Rightarrow> 'w state \<Rightarrow> (pydict, 'w) comp" where
  "edit_word_document L filepath operations s =
     try_except (edit_word_document_body L filepath operations s)
       [(Exception, \<lambda>e s'.
           (Inr [(''success'', PBool False),
                 (''message'', PStr (''Error editing Word document: '' @ str_exn e)),
                 (''filepath'', PNone)], s'))]"

text \<open>The body of the loop over the lines of the text file.\<close>

definition txt_line_step :: "('w, 'o, 'z) docxlib_scheme \<Rightarrow> string \<Rightarrow> 'o document \<Rightarrow> exn + 'o document" where
  "txt_line_step L paragraph doc =
     (if strip paragraph \<noteq> [] then
        then_do (docx_paragraph L doc (PStr paragraph) PNone) (\<lambda>p. Inr (add_block doc p))
      else Inr doc)"

definition convert_txt_to_word_body ::
  "('w, 'o, 'z) docxlib_scheme \<Rightarrow> string \<Rightarrow> string \<Rightarrow> 'w state \<Rightarrow> (pydict, 'w) comp" where
  "convert_txt_to_word_body L source_path target_path s =
     (if \<not> os_path_exists L (world s) source_path then
        (Inr [(''success'', PBool False), (''message'', PStr (''Source file not found: '' @ source_path)),
              (''filepath'', PNone)], s)
      else
        on_value (read_text L (world s) source_path) (\<lambda>text_content.
        on_value (docx_new L) (\<lambda>doc.
        on_value (for_each (txt_line_step L) (split_on (CHR 0x0A) text_content) doc) (\<lambda>doc'.
        on_write (make_parent_dirs L target_path) (\<lambda>u.
        on_write (docx_save L doc' target_path) (\<lambda>u s'.
          (Inr [(''success'', PBool True),
                (''message'', PStr ''Successfully converted text to Word document''),
                (''filepath'', PStr target_path)], s')))))) s)"

definition convert_txt_to_word ::
  "('w, 'o, 'z) docxlib_scheme \<Rightarrow> string \<Rightarrow> string \<Rightarrow> 'w state \<Rightarrow> (pydict, 'w) comp" where
  "convert_txt_to_word L source_path target_path s =
     try_except (convert_txt_to_word_body L source_path target_path s)
       [(Exception, \<lambda>e s'.
           (Inr [(''success'', PBool False),
                 (''message'', PStr (''Error converting text to Word: '' @ str_exn e)),
                 (''filepath'', PNone)], s'))]"

text \<open>
  An operation that the specification calls out of range for a document: an
  \<^verbatim>\<open>edit_paragraph\<close> or \<^verbatim>\<open>delete_paragraph\<close> whose index is negative or at least the number
  of paragraphs.
\<close>

definition out_of_range_op :: "pydict \<Rightarrow> 'o document \<Rightarrow> bool" where
  "out_of_range_op op doc =
     ((dict_get op ''type'' PNone = PStr ''edit_paragraph''
         \<or> dict_get op ''type'' PNone = PStr ''delete_paragraph'')
      \<and> (\<exists>i. as_int (dict_get op ''index'' (PInt 0)) = Some i
             \<and> (i < 0 \<or> int (length (filter (\<lambda>e. tag e = ''w:p'') (body doc))) \<le> i)))"

section \<open>The helpers of the formatted-document tool\<close>

subsection \<open>Changing the tree\<close>

text \<open>
  The calls of the tree API that the helpers make on elements: \<^verbatim>\<open>e.set(name, value)\<close>
  (which takes strings without control characters only), \<^verbatim>\<open>e.append(child)\<close>,
  \<^verbatim>\<open>e.remove(e.find(name))\<close>; and python-docx's \<^verbatim>\<open>get_or_add_tcPr\<close> and
  \<^verbatim>\<open>get_or_add_trPr\<close>, which return the first child of that name and add an empty one when
  there is none (a \<^verbatim>\<open>w:tcPr\<close> in front, a \<^verbatim>\<open>w:trPr\<close> behind a leading \<^verbatim>\<open>w:tblPrEx\<close>).
\<close>

definition set_attr :: "xml \<Rightarrow> string \<Rightarrow> string \<Rightarrow> xml" where
  "set_attr e k v =
     Elem (tag e)
       (if k \<in> set (map fst (attrs e))
        then map (\<lambda>kv. if fst kv = k then (k, v) else kv) (attrs e)
        else attrs e @ [(k, v)])
       (etext e) (children e)"

definition xml_compatible :: "string \<Rightarrow> bool" where
  "xml_compatible s = list_all (\<lambda>c. (32::nat) \<le> of_char c \<or> of_char c \<in> set [9, 10, 13 :: nat]) s"

definition set_attr_val :: "xml \<Rightarrow> string \<Rightarrow> pyval \<Rightarrow> exn + xml" where
  "set_attr_val e k v =
     (case v of
        PStr s \<Rightarrow>
          if xml_compatible s then Inr (set_attr e k s)
          else Inl (Exn ValueError
                 ''All strings must be XML compatible: Unicode or ASCII, no NULL bytes or control characters'')
      | _ \<Rightarrow> Inl (Exn TypeError (''Argument must be bytes or unicode, got '' @ apos @ type_name v @ apos)))"

definition with_children :: "xml \<Rightarrow> xml list \<Rightarrow> xml" where
  "with_children e cs = Elem (tag e) (attrs e) (etext e) cs"

definition append_child :: "xml \<Rightarrow> xml \<Rightarrow> xml" where
  "append_child e c = with_children e (children e @ [c])"

fun map_first :: "('a \<Rightarrow> bool) \<Rightarrow> ('a \<Rightarrow> 'a) \<Rightarrow> 'a list \<Rightarrow> 'a list" where
  "map_first P f [] = []"
| "map_first P f (x # xs) = (if P x then f x # xs else x # map_first P f xs)"

fun remove_first :: "('a \<Rightarrow> bool) \<Rightarrow> 'a list \<Rightarrow> 'a list" where
  "remove_first P [] = []"
| "remove_first P (x # xs) = (if P x then xs else x # remove_first P xs)"

fun insert_after_first :: "('a \<Rightarrow> bool) \<Rightarrow> 'a \<Rightarrow> 'a list \<Rightarrow> 'a list" where
  "insert_after_first P y [] = [y]"
| "insert_after_first P y (x # xs) = (if P x then x # y # xs else x # insert_after_first P y xs)"

definition update_first_child :: "string \<Rightarrow> (xml \<Rightarrow> xml) \<Rightarrow> xml \<Rightarrow> xml" where
  "update_first_child t f e = with_children e (map_first (\<lambda>c. tag c = t) f (children e))"

definition remove_first_child :: "string \<Rightarrow> xml \<Rightarrow> xml" where
  "remove_first_child t e = with_children e (remove_first (\<lambda>c. tag c = t) (children e))"

definition get_or_add_tcPr :: "xml \<Rightarrow> xml" where
  "get_or_add_tcPr tc =
     (if find_child tc ''w:tcPr'' = None then with_children tc (Elem ''w:tcPr'' [] [] [] # children tc) else tc)"

definition get_or_add_trPr :: "xml \<Rightarrow> xml" where
  "get_or_add_trPr tr =
     (if find_child tr ''w:trPr'' \<noteq> None then tr
      else if find_child tr ''w:tblPrEx'' \<noteq> None
        then with_children tr (insert_after_first (\<lambda>c. tag c = ''w:tblPrEx'') (Elem ''w:trPr'' [] [] []) (children tr))
      else with_children tr (Elem ''w:trPr'' [] [] [] # children tr))"

text \<open>
  A loop over the children of one name (\<^verbatim>\<open>cell.paragraphs\<close>, \<^verbatim>\<open>para.runs\<close>) whose body
  changes the child, and a change of \<^verbatim>\<open>table.rows[n]\<close> or \<^verbatim>\<open>row.cells[n]\<close>, which raises
  \<^verbatim>\<open>IndexError\<close> as the list of rows and the tuple of cells do.  The rows of a table are
  its \<^verbatim>\<open>w:tr\<close> children and the cells of a row its \<^verbatim>\<open>w:tc\<close> children, as in the tables
  that python-docx makes (no merged cells).
\<close>

definition for_children :: "string \<Rightarrow> (xml \<Rightarrow> exn + xml) \<Rightarrow> xml \<Rightarrow> exn + xml" where
  "for_children t f e =
     then_do (sequence (map (\<lambda>c. if tag c = t then f c else Inr c) (children e)))
       (\<lambda>cs. Inr (with_children e cs))"

fun update_nth_where :: "('a \<Rightarrow> bool) \<Rightarrow> nat \<Rightarrow> ('a \<Rightarrow> exn + 'a) \<Rightarrow> string \<Rightarrow> 'a list \<Rightarrow> exn + 'a list" where
  "update_nth_where P n f kind [] = Inl (Exn IndexError (kind @ '' index out of range''))"
| "update_nth_where P n f kind (x # xs) =
     (if P x then
        (case n of
           0 \<Rightarrow> then_do (f x) (\<lambda>y. Inr (y # xs))
         | Suc m \<Rightarrow> then_do (update_nth_where P m f kind xs) (\<lambda>ys. Inr (x # ys)))
      else then_do (update_nth_where P n f kind xs) (\<lambda>ys. Inr (x # ys)))"

definition update_row :: "nat \<Rightarrow> (xml \<Rightarrow> exn + xml) \<Rightarrow> xml \<Rightarrow> exn + xml" where
  "update_row n f tbl =
     then_do (update_nth_where (\<lambda>c. tag c = ''w:tr'') n f ''list'' (children tbl))
       (\<lambda>cs. Inr (with_children tbl cs))"

definition update_cell :: "nat \<Rightarrow> (xml \<Rightarrow> exn + xml) \<Rightarrow> xml \<Rightarrow> exn + xml" where
  "update_cell n f row =
     then_do (update_nth_where (\<lambda>c. tag c = ''w:tc'') n f ''tuple'' (children row))
       (\<lambda>cs. Inr (with_children row cs))"

subsection \<open>The helper functions\<close>

definition set_cell_shading :: "xml \<Rightarrow> pyval \<Rightarrow> exn + xml" where
  "set_cell_shading cell color_hex =
     then_do (set_attr_val (Elem ''w:shd'' [] [] []) ''w:fill'' color_hex) (\<lambda>shading.
       Inr (update_first_child ''w:tcPr'' (\<lambda>tcPr. append_child tcPr shading) (get_or_add_tcPr cell)))"

definition border :: "string \<Rightarrow> string \<Rightarrow> string \<Rightarrow> xml" where
  "border name color sz = Elem (''w:'' @ name) [(''w:val'', ''single''), (''w:sz'', sz), (''w:color'', color)] [] []"

definition set_cell_borders :: "xml \<Rightarrow> string \<Rightarrow> string \<Rightarrow> xml" where
  "set_cell_borders cell color sz =
     update_first_child ''w:tcPr''
       (\<lambda>tcPr. append_child tcPr
          (Elem ''w:tcBorders'' [] [] (map (\<lambda>name. border name color sz) [''top'', ''left'', ''bottom'', ''right''])))
       (get_or_add_tcPr cell)"

definition set_cell_width :: "xml \<Rightarrow> int \<Rightarrow> xml" where
  "set_cell_width cell width_dxa =
     update_first_child ''w:tcPr''
       (\<lambda>tcPr. append_child tcPr (Elem ''w:tcW'' [(''w:type'', ''dxa''), (''w:w'', str_int width_dxa)] [] []))
       (get_or_add_tcPr cell)"

definition fix_cell_paragraph_spacing ::
  "(xml \<Rightarrow> (string \<times> pyval) list \<Rightarrow> exn + xml) \<Rightarrow> xml \<Rightarrow> exn + xml" where
  "fix_cell_paragraph_spacing format cell =
     for_children ''w:p''
       (\<lambda>p. format p [(''space_after'', PInt 0), (''space_before'', PInt 0), (''line_spacing'', PInt 1)]) cell"

text \<open>\<^verbatim>\<open>int(v * 20)\<close>, for the height of a row in points.\<close>

definition times_20 :: "pyval \<Rightarrow> exn + int" where
  "times_20 v =
     (case v of
        PInt n \<Rightarrow> Inr (n * 20)
      | PBool b \<Rightarrow> Inr (if b then 20 else 0)
      | PStr s \<Rightarrow> int_of_str (concat (replicate 20 s))
      | PList xs \<Rightarrow> Inl (Exn TypeError
          (''int() argument must be a string, a bytes-like object or a real number, not '' @ apos @ ''list'' @ apos))
      | _ \<Rightarrow> Inl (Exn TypeError (''unsupported operand type(s) for *: '' @ apos @ type_name v @ apos
                       @ '' and '' @ apos @ ''int'' @ apos)))"

definition set_row_height :: "xml \<Rightarrow> pyval \<Rightarrow> bool \<Rightarrow> exn + xml" where
  "set_row_height row height_pt auto_fit =
     (if height_pt = PNone \<and> auto_fit then Inr row
      else
        then_do (times_20 (if auto_fit \<and> \<not> truthy height_pt then PInt 0 else height_pt)) (\<lambda>v.
          Inr (update_first_child ''w:trPr''
                 (\<lambda>trPr. append_child trPr
                    (Elem ''w:trHeight''
                       [(''w:val'', str_int v), (''w:hRule'', if auto_fit then ''auto'' else ''exact'')] [] []))
                 (get_or_add_trPr row))))"

text \<open>\<open>_set_table_grid\<close>.  First the table properties, then the grid, then the cell widths.\<close>

definition reset_table_properties :: "xml \<Rightarrow> xml" where
  "reset_table_properties tblPr =
     (let p1 = update_first_child ''w:tblW''
                 (\<lambda>tblW. set_attr (set_attr tblW ''w:w'' ''100'') ''w:type'' ''auto'') tblPr;
          p2 = remove_first_child ''w:tblLook'' p1
      in if find_child p2 ''w:tblBorders'' = None then append_child p2 (Elem ''w:tblBorders'' [] [] []) else p2)"

definition grid_columns :: "(pyval \<Rightarrow> string) \<Rightarrow> pyval \<Rightarrow> exn + xml list" where
  "grid_columns repr col_widths =
     then_do (py_iter col_widths) (\<lambda>widths.
       sequence (map (\<lambda>width. set_attr_val (Elem ''w:gridCol'' [] [] []) ''w:w'' (PStr (py_str repr width))) widths))"

definition drop_cell_width :: "xml \<Rightarrow> xml" where
  "drop_cell_width tc = update_first_child ''w:tcPr'' (remove_first_child ''w:tcW'') tc"

definition drop_cell_widths :: "xml \<Rightarrow> xml" where
  "drop_cell_widths tbl =
     with_children tbl
       (map (\<lambda>row. if tag row = ''w:tr''
                   then with_children row (map (\<lambda>c. if tag c = ''w:tc'' then drop_cell_width c else c) (children row))
                   else row)
            (children tbl))"

definition set_table_grid :: "(pyval \<Rightarrow> string) \<Rightarrow> xml \<Rightarrow> pyval \<Rightarrow> exn + xml" where
  "set_table_grid repr tbl col_widths =
     (let t1 = update_first_child ''w:tblPr'' reset_table_properties tbl;
          t2 = with_children t1 (filter (\<lambda>c. \<not> ends_with (tag c) ''tblGrid'') (children t1))
      in then_do (grid_columns repr col_widths) (\<lambda>cols.
           (let tblGrid = Elem ''w:tblGrid'' [] [] cols;
                t3 = (if find_child t2 ''w:tblPr'' \<noteq> None
                      then with_children t2 (insert_after_first (\<lambda>c. tag c = ''w:tblPr'') tblGrid (children t2))
                      else with_children t2 (tblGrid # children t2))
            in Inr (drop_cell_widths t3))))"

section \<open>The formatted Word document\<close>

subsection \<open>Rich text\<close>

text \<open>
  \<^verbatim>\<open>re.split(r'(\*\*.*?\*\*)', text)\<close>: the text between the matches and the matches
  themselves, in turn.  A match starts at two asterisks and ends with the next two
  asterisks on the same line; \<open>find_close\<close> counts the characters between them.
\<close>

fun find_close :: "string \<Rightarrow> nat option" where
  "find_close [] = None"
| "find_close (c # cs) =
     (if starts_with (c # cs) ''**'' then Some 0
      else if c = CHR 0x0A then None
      else map_option Suc (find_close cs))"

function split_bold :: "string \<Rightarrow> string \<Rightarrow> string list" where
  "split_bold acc [] = [rev acc]"
| "split_bold acc (c # cs) =
     (case (if starts_with (c # cs) ''**'' then find_close (drop 1 cs) else None) of
        Some n \<Rightarrow> rev acc # take (n + 4) (c # cs) # split_bold [] (drop (n + 3) cs)
      | None \<Rightarrow> split_bold (c # acc) cs)"
  by pat_completeness auto
termination
  by (relation "measure (\<lambda>p. length (snd p))") auto

definition coloured :: "('w, 'o, 'z) docxlib_scheme \<Rightarrow> pyval \<Rightarrow> xml \<Rightarrow> exn + xml" where
  "coloured L color_hex run =
     then_do (parse_rgb color_hex) (\<lambda>rgb. docx_format L run [(''font.color.rgb'', rgb)])"

definition rich_run ::
  "('w, 'o, 'z) docxlib_scheme \<Rightarrow> bool \<Rightarrow> string \<Rightarrow> string \<Rightarrow> pyval \<Rightarrow> pyval \<Rightarrow> pyval \<Rightarrow> exn + xml" where
  "rich_run L bold txt default_font default_size default_color default_italic =
     then_do (docx_run L (PStr txt)) (\<lambda>r0.
     then_do (docx_format L r0
                ((if bold then [(''bold'', PBool True)] else [])
                 @ [(''font.name'', PStr default_font), (''font.size'', default_size)])) (\<lambda>r1.
     then_do (if truthy default_color then coloured L default_color r1 else Inr r1) (\<lambda>r2.
       if truthy default_italic then docx_format L r2 [(''italic'', PBool True)] else Inr r2)))"

definition parse_rich_text ::
  "('w, 'o, 'z) docxlib_scheme \<Rightarrow> xml \<Rightarrow> pyval \<Rightarrow> string \<Rightarrow> pyval \<Rightarrow> pyval \<Rightarrow> pyval \<Rightarrow> exn + xml" where
  "parse_rich_text L paragraph txt default_font default_size default_color default_italic =
     (case txt of
        PStr s \<Rightarrow>
          for_each
            (\<lambda>part p.
               if starts_with part ''**'' \<and> ends_with part ''**'' then
                 then_do (rich_run L True (drop 2 (take (length part - 2) part))
                            default_font default_size default_color default_italic)
                   (\<lambda>r. Inr (append_child p r))
               else if part \<noteq> [] then
                 then_do (rich_run L False part default_font default_size default_color default_italic)
                   (\<lambda>r. Inr (append_child p r))
               else Inr p)
            (split_bold [] s) paragraph
      | _ \<Rightarrow> Inl (Exn TypeError (''expected string or bytes-like object, got '' @ apos @ type_name txt @ apos)))"

subsection \<open>Running header, title and subtitle\<close>

text \<open>
  \<open>docx_page_setup\<close> stands for the margins of the sections and the font of the style
  \<^verbatim>\<open>Normal\<close>, \<open>docx_set_header\<close> and \<open>docx_set_footer\<close> for the text, alignment and font
  of the first paragraph of the header and of the footer.  A run is formatted before it is
  put into its paragraph: nothing reads the document before it is saved.
\<close>

definition title_block :: "('w, 'o, 'z) docxlib_scheme \<Rightarrow> pyval \<Rightarrow> 'o document \<Rightarrow> exn + 'o document" where
  "title_block L title doc =
     then_do (docx_paragraph L doc (PStr []) PNone) (\<lambda>p0.
     then_do (docx_format L p0 [(''alignment'', PStr ''CENTER'')]) (\<lambda>title_para.
     then_do (docx_run L title) (\<lambda>r0.
     then_do (docx_format L r0
                [(''bold'', PBool True), (''font.name'', PStr ''Arial''), (''font.size'', PInt 24),
                 (''font.color.rgb'', PList [PInt 31, PInt 78, PInt 121])]) (\<lambda>title_run.
       Inr (add_block doc (append_child title_para title_run))))))"

definition subtitle_block :: "('w, 'o, 'z) docxlib_scheme \<Rightarrow> pyval \<Rightarrow> 'o document \<Rightarrow> exn + 'o document" where
  "subtitle_block L subtitle doc =
     then_do (docx_paragraph L doc (PStr []) PNone) (\<lambda>p0.
     then_do (docx_format L p0 [(''alignment'', PStr ''CENTER'')]) (\<lambda>subtitle_para.
     then_do (docx_run L subtitle) (\<lambda>r0.
     then_do (docx_format L r0
                [(''italic'', PBool True), (''font.name'', PStr ''Arial''), (''font.size'', PInt 12),
                 (''font.color.rgb'', PList [PInt 102, PInt 102, PInt 102])]) (\<lambda>subtitle_run.
     then_do (docx_format L (append_child subtitle_para subtitle_run) [(''space_after'', PInt 20)]) (\<lambda>p1.
       Inr (add_block doc p1))))))"

definition formatted_front :: "('w, 'o, 'z) docxlib_scheme \<Rightarrow> pyval \<Rightarrow> exn + 'o document" where
  "formatted_front L data =
     then_do (docx_new L) (\<lambda>doc.
     then_do (docx_page_setup L (package doc)) (\<lambda>pk1.
     then_do (py_get data ''header'' PNone) (\<lambda>header.
     then_do (if truthy header then docx_set_header L pk1 header else Inr pk1) (\<lambda>pk2.
     then_do (py_get data ''footer'' PNone) (\<lambda>footer.
     then_do (if truthy footer then docx_set_footer L pk2 footer else Inr pk2) (\<lambda>pk3.
     then_do (py_get data ''title'' PNone) (\<lambda>title.
     then_do (if truthy title then title_block L title (doc\<lparr>package := pk3\<rparr>)
              else Inr (doc\<lparr>package := pk3\<rparr>)) (\<lambda>doc1.
     then_do (py_get data ''subtitle'' PNone) (\<lambda>subtitle.
       if truthy subtitle then subtitle_block L subtitle doc1 else Inr doc1)))))))))"

subsection \<open>Sections\<close>

definition cell_runs :: "(xml \<Rightarrow> exn + xml) \<Rightarrow> xml \<Rightarrow> exn + xml" where
  "cell_runs f cell = for_children ''w:p'' (for_children ''w:r'' f) cell"

definition heading_section :: "('w, 'o, 'z) docxlib_scheme \<Rightarrow> pydict \<Rightarrow> 'o document \<Rightarrow> exn + 'o document" where
  "heading_section L sec doc =
     (let level = dict_get sec ''level'' (PInt 1);
          txt = dict_get sec ''text'' (PStr []);
          color_hex = dict_get sec ''color'' (PStr ''1F4E79'')
      in then_do (docx_heading L doc txt level) (\<lambda>h0.
         then_do (for_children ''w:r''
                    (\<lambda>run. then_do (docx_format L run [(''font.name'', PStr ''Arial'')]) (coloured L color_hex)) h0) (\<lambda>h1.
         then_do (docx_format L h1 [(''space_before'', PInt 15), (''space_after'', PInt 6)]) (\<lambda>heading.
           Inr (add_block doc heading)))))"

definition alignment_of :: "string \<Rightarrow> string" where
  "alignment_of a =
     (if a = ''center'' then ''CENTER'' else if a = ''right'' then ''RIGHT''
      else if a = ''justify'' then ''JUSTIFY'' else ''LEFT'')"

definition paragraph_section :: "('w, 'o, 'z) docxlib_scheme \<Rightarrow> pydict \<Rightarrow> 'o document \<Rightarrow> exn + 'o document" where
  "paragraph_section L sec doc =
     (let txt = dict_get sec ''text'' (PStr []) in
      then_do (docx_paragraph L doc (PStr []) PNone) (\<lambda>p0.
      then_do (py_lower (dict_get sec ''alignment'' (PStr ''left''))) (\<lambda>alignment.
      then_do (docx_format L p0 [(''alignment'', PStr (alignment_of alignment))]) (\<lambda>p1.
        (let font_size = dict_get sec ''font_size'' (PInt 11);
             color_hex = dict_get sec ''color'' PNone;
             is_italic = dict_get sec ''italic'' (PBool False);
             is_bold = dict_get sec ''bold'' (PBool False)
         in then_do (contains_stars txt) (\<lambda>rich.
            then_do (if rich then parse_rich_text L p1 txt ''Arial'' font_size color_hex is_italic
                     else
                       then_do (docx_run L txt) (\<lambda>r0.
                       then_do (docx_format L r0
                                  [(''bold'', is_bold), (''italic'', is_italic),
                                   (''font.name'', PStr ''Arial''), (''font.size'', font_size)]) (\<lambda>r1.
                       then_do (if truthy color_hex then coloured L color_hex r1 else Inr r1) (\<lambda>r2.
                         Inr (append_child p1 r2))))) (\<lambda>p2.
            then_do (docx_format L p2 [(''space_after'', dict_get sec ''space_after'' (PInt 6))]) (\<lambda>p3.
              Inr (add_block doc p3)))))))))"

definition list_section ::
  "('w, 'o, 'z) docxlib_scheme \<Rightarrow> string \<Rightarrow> pydict \<Rightarrow> 'o document \<Rightarrow> exn + 'o document" where
  "list_section L style sec doc =
     then_do (py_iter (dict_get sec ''items'' (PList []))) (\<lambda>items.
       for_each
         (\<lambda>item d.
            then_do (docx_paragraph L d item (PStr style)) (\<lambda>p0.
            then_do (for_children ''w:r'' (\<lambda>run. docx_format L run [(''font.name'', PStr ''Arial'')]) p0) (\<lambda>p1.
              Inr (add_block d p1))))
         items doc)"

text \<open>The cells and rows of a table with headers.\<close>

definition header_cell :: "('w, 'o, 'z) docxlib_scheme \<Rightarrow> pyval \<Rightarrow> pyval \<Rightarrow> pyval \<Rightarrow> xml \<Rightarrow> exn + xml" where
  "header_cell L header_text_val header_bg header_text_color cell =
     then_do (docx_cell_set_text L cell (py_str (py_repr L) header_text_val)) (\<lambda>c1.
     then_do (set_cell_shading c1 header_bg) (\<lambda>c2.
     then_do (fix_cell_paragraph_spacing (docx_format L) (set_cell_borders c2 ''CCCCCC'' ''4'')) (\<lambda>c3.
       cell_runs
         (\<lambda>run. then_do (docx_format L run [(''bold'', PBool True), (''font.name'', PStr ''Arial'')])
                   (coloured L header_text_color))
         c3)))"

definition header_row ::
  "('w, 'o, 'z) docxlib_scheme \<Rightarrow> pyval \<Rightarrow> pyval \<Rightarrow> pyval \<Rightarrow> pyval \<Rightarrow> xml \<Rightarrow> exn + xml" where
  "header_row L headers row_height header_bg header_text_color row =
     then_do (if truthy row_height then set_row_height row row_height True else Inr row) (\<lambda>row1.
     then_do (py_iter headers) (\<lambda>hs.
       for_each (\<lambda>ih r. update_cell (fst ih) (header_cell L (snd ih) header_bg header_text_color) r)
         (enumerate_from 0 hs) row1))"

definition data_cell :: "('w, 'o, 'z) docxlib_scheme \<Rightarrow> nat \<Rightarrow> pyval \<Rightarrow> pyval \<Rightarrow> xml \<Rightarrow> exn + xml" where
  "data_cell L row_idx cell_value alt_row cell =
     then_do (docx_cell_set_text L cell (py_str (py_repr L) cell_value)) (\<lambda>c1.
     then_do (fix_cell_paragraph_spacing (docx_format L) (set_cell_borders c1 ''CCCCCC'' ''4'')) (\<lambda>c2.
     then_do (cell_runs (\<lambda>run. docx_format L run [(''font.name'', PStr ''Arial'')]) c2) (\<lambda>c3.
       if row_idx mod 2 = 1 then set_cell_shading c3 alt_row else Inr c3)))"

definition cells_of_row :: "(nat \<Rightarrow> pyval \<Rightarrow> xml \<Rightarrow> exn + xml) \<Rightarrow> pyval \<Rightarrow> pyval \<Rightarrow> xml \<Rightarrow> exn + xml" where
  "cells_of_row cell_step row_data row_height row =
     then_do (if truthy row_height then set_row_height row row_height True else Inr row) (\<lambda>row1.
     then_do (py_iter row_data) (\<lambda>vs.
       for_each
         (\<lambda>cv r. if fst cv < length (findall r ''w:tc'') then update_cell (fst cv) (cell_step (fst cv) (snd cv)) r
                  else Inr r)
         (enumerate_from 0 vs) row1))"

definition gridded :: "('w, 'o, 'z) docxlib_scheme \<Rightarrow> pyval \<Rightarrow> xml \<Rightarrow> exn + xml" where
  "gridded L col_widths tbl = (if truthy col_widths then set_table_grid (py_repr L) tbl col_widths else Inr tbl)"

definition table_section :: "('w, 'o, 'z) docxlib_scheme \<Rightarrow> pydict \<Rightarrow> 'o document \<Rightarrow> exn + 'o document" where
  "table_section L sec doc =
     (let headers = dict_get sec ''headers'' (PList []);
          rows = dict_get sec ''rows'' (PList []);
          header_bg = dict_get sec ''header_bg_color'' (PStr ''1F4E79'');
          header_text_color = dict_get sec ''header_text_color'' (PStr ''FFFFFF'');
          alt_row = dict_get sec ''alt_row_color'' (PStr ''F2F2F2'');
          row_height = dict_get sec ''row_height'' PNone;
          col_widths = dict_get sec ''col_widths'' PNone
      in if truthy headers then
           then_do (py_len rows) (\<lambda>n_rows.
           then_do (py_len headers) (\<lambda>n_cols.
           then_do (docx_table L doc (1 + n_rows) n_cols) (\<lambda>t0.
           then_do (gridded L col_widths t0) (\<lambda>t1.
           then_do (update_row 0 (header_row L headers row_height header_bg header_text_color) t1) (\<lambda>t2.
           then_do (py_iter rows) (\<lambda>rs.
           then_do (for_each
                      (\<lambda>ir t. update_row (fst ir + 1)
                                 (cells_of_row (\<lambda>col_idx v. data_cell L (fst ir) v alt_row) (snd ir) row_height) t)
                      (enumerate_from 0 rs) t2) (\<lambda>t3.
           then_do (docx_paragraph L (add_block doc t3) (PStr []) PNone) (\<lambda>p.
             Inr (add_block (add_block doc t3) p)))))))))
         else Inr doc)"

definition key_value_cell ::
  "('w, 'o, 'z) docxlib_scheme \<Rightarrow> pyval \<Rightarrow> pyval \<Rightarrow> pyval \<Rightarrow> nat \<Rightarrow> nat \<Rightarrow> pyval \<Rightarrow> xml \<Rightarrow> exn + xml" where
  "key_value_cell L first_col_bg first_cell_bg first_cell_text row_idx col_idx cell_value cell =
     then_do (docx_cell_set_text L cell (py_str (py_repr L) cell_value)) (\<lambda>c1.
     then_do (fix_cell_paragraph_spacing (docx_format L) (set_cell_borders c1 ''CCCCCC'' ''4'')) (\<lambda>c2.
       if row_idx = 0 \<and> col_idx = 0 then
         then_do (set_cell_shading c2 first_cell_bg)
           (cell_runs (\<lambda>run. then_do (docx_format L run [(''bold'', PBool True), (''font.name'', PStr ''Arial'')])
                               (coloured L first_cell_text)))
       else if col_idx = 0 then
         then_do (set_cell_shading c2 first_col_bg)
           (cell_runs (\<lambda>run. docx_format L run [(''bold'', PBool True), (''font.name'', PStr ''Arial'')]))
       else
         cell_runs (\<lambda>run. docx_format L run
                      ((''font.name'', PStr ''Arial'')
                       # (if row_idx = 1 \<and> col_idx = 1 then [(''bold'', PBool True)] else [])))
           c2))"

definition key_value_table_section ::
  "('w, 'o, 'z) docxlib_scheme \<Rightarrow> pydict \<Rightarrow> 'o document \<Rightarrow> exn + 'o document" where
  "key_value_table_section L sec doc =
     (let rows = dict_get sec ''rows'' (PList []);
          first_col_bg = dict_get sec ''first_col_bg_color'' (PStr ''D6E3F0'');
          first_cell_bg = dict_get sec ''first_cell_bg_color'' (PStr ''1F4E79'');
          first_cell_text = dict_get sec ''first_cell_text_color'' (PStr ''FFFFFF'');
          col_widths = dict_get sec ''col_widths'' PNone;
          row_height = dict_get sec ''row_height'' PNone
      in if truthy rows then
           then_do (py_len rows) (\<lambda>n_rows.
           then_do (getitem_nat rows 0) (\<lambda>first_row.
           then_do (py_len first_row) (\<lambda>n_cols.
           then_do (docx_table L doc n_rows n_cols) (\<lambda>t0.
           then_do (gridded L col_widths t0) (\<lambda>t1.
           then_do (py_iter rows) (\<lambda>rs.
           then_do (for_each
                      (\<lambda>ir t. update_row (fst ir)
                                 (cells_of_row (key_value_cell L first_col_bg first_cell_bg first_cell_text (fst ir))
                                    (snd ir) row_height) t)
                      (enumerate_from 0 rs) t1) (\<lambda>t2.
           then_do (docx_paragraph L (add_block doc t2) (PStr []) PNone) (\<lambda>p.
             Inr (add_block (add_block doc t2) p)))))))))
         else Inr doc)"

definition formatted_section :: "('w, 'o, 'z) docxlib_scheme \<Rightarrow> pyval \<Rightarrow> 'o document \<Rightarrow> exn + 'o document" where
  "formatted_section L section_data doc =
     then_do (py_get section_data ''type'' PNone) (\<lambda>section_type.
       case section_data of
         PDict sec \<Rightarrow>
           if section_type = PStr ''heading'' then heading_section L sec doc
           else if section_type = PStr ''paragraph'' then paragraph_section L sec doc
           else if section_type = PStr ''bullet_list'' then list_section L ''List Bullet'' sec doc
           else if section_type = PStr ''numbered_list'' then list_section L ''List Number'' sec doc
           else if section_type = PStr ''table'' then table_section L sec doc
           else if section_type = PStr ''key_value_table'' then key_value_table_section L sec doc
           else if section_type = PStr ''page_break'' then
             then_do (docx_page_break L doc) (\<lambda>p. Inr (add_block doc p))
           else if section_type = PStr ''spacer'' then
             then_do (docx_paragraph L doc (PStr []) PNone) (\<lambda>p. Inr (add_block doc p))
           else Inr doc
       | _ \<Rightarrow> Inr doc)"

definition formatted_document :: "('w, 'o, 'z) docxlib_scheme \<Rightarrow> pyval \<Rightarrow> exn + 'o document" where
  "formatted_document L data =
     then_do (formatted_front L data) (\<lambda>doc.
     then_do (py_get data ''sections'' (PList [])) (\<lambda>sections.
     then_do (py_iter sections) (\<lambda>secs.
       for_each (formatted_section L) secs doc)))"

subsection \<open>The tool\<close>

definition create_formatted_word_document_body ::
  "('w, 'o, 'z) docxlib_scheme \<Rightarrow> string \<Rightarrow> string \<Rightarrow> 'w state \<Rightarrow> (pydict, 'w) comp" where
  "create_formatted_word_document_body L filepath document_data s =
     (case json_loads L document_data of
        Inl e \<Rightarrow>
          if isinstance e JSONDecodeError
          then (Inr [(''success'', PBool False),
                     (''message'', PStr (''Invalid JSON format: '' @ str_exn e)),
                     (''filepath'', PNone)], s)
          else (Inl e, s)
      | Inr data \<Rightarrow>
          (on_value (formatted_document L data) (\<lambda>doc.
           on_write (make_parent_dirs L filepath) (\<lambda>u.
           on_write (docx_save L doc filepath) (\<lambda>u s'.
             (Inr [(''success'', PBool True),
                   (''message'', PStr ''Successfully created formatted Word document''),
                   (''filepath'', PStr filepath)],
              logger INFO (''Created formatted Word document: '' @ filepath) s'))))) s)"

definition create_formatted_word_document ::
  "('w, 'o, 'z) docxlib_scheme \<Rightarrow> string \<Rightarrow> string \<Rightarrow> 'w state \<Rightarrow> (pydict, 'w) comp" where
  "create_formatted_word_document L filepath document_data s =
     try_except (create_formatted_word_document_body L filepath document_data s)
       [(Exception, \<lambda>e s'.
           (Inr [(''success'', PBool False),
                 (''message'', PStr (''Error creating formatted Word document: '' @ str_exn e)),
                 (''filepath'', PNone)],
            logger ERROR (''Error creating formatted Word document: '' @ str_exn e) s'))]"

section \<open>Excel tools\<close>

text \<open>
  The fallback of \<open>create_excel_file\<close> for a text that is not JSON:
  \<^verbatim>\<open>[line.split(',') for line in content.strip().split('\n')]\<close>.
\<close>

definition csv_grid :: "string \<Rightarrow> pyval" where
  "csv_grid text = PList (map (\<lambda>line. PList (map PStr (split_on (CHR '','') line))) (split_on (CHR 0x0A) (strip text)))"

text \<open>
  The inner \<^verbatim>\<open>try\<close>: the value of \<^verbatim>\<open>json.loads\<close>, the grid when it raises
  \<^verbatim>\<open>JSONDecodeError\<close>; any other exception goes on to the outer handler.
\<close>

definition excel_data :: "('w, 'z) stdlib_scheme \<Rightarrow> string \<Rightarrow> exn + pyval" where
  "excel_data L text =
     (case json_loads L text of
        Inr data \<Rightarrow> Inr data
      | Inl e \<Rightarrow> if isinstance e JSONDecodeError then Inr (csv_grid text) else Inl e)"

definition create_excel_file_body ::
  "('w, 'o, 'z) sheetlib_scheme \<Rightarrow> string \<Rightarrow> string \<Rightarrow> 'w state \<Rightarrow> (pydict, 'w) comp" where
  "create_excel_file_body L filepath text =
     on_value (excel_data L text) (\<lambda>data.
     on_value (pd_DataFrame L data) (\<lambda>df.
     on_write (make_parent_dirs L filepath) (\<lambda>u.
     on_write (df_to_excel L df filepath) (\<lambda>u s.
       (Inr [(''success'', PBool True), (''message'', PStr ''Successfully created Excel file''),
             (''filepath'', PStr filepath)], s)))))"

definition create_excel_file ::
  "('w, 'o, 'z) sheetlib_scheme \<Rightarrow> string \<Rightarrow> string \<Rightarrow> 'w state \<Rightarrow> (pydict, 'w) comp" where
  "create_excel_file L filepath text s =
     try_except (create_excel_file_body L filepath text s)
       [(Exception, \<lambda>e s'.
           (Inr [(''success'', PBool False),
                 (''message'', PStr (''Error creating Excel file: '' @ str_exn e)),
                 (''filepath'', PNone)], s'))]"


text \<open>\<^verbatim>\<open>name in wb.sheetnames\<close>, for any value \<open>name\<close>.\<close>

definition in_sheetnames :: "('w, 'o, 'z) sheetlib_scheme \<Rightarrow> 'o \<Rightarrow> pyval \<Rightarrow> bool" where
  "in_sheetnames L wb name = (name \<in> set (map PStr (wb_sheetnames L wb)))"

text \<open>The body of the inner loop of \<^verbatim>\<open>update_range\<close>, and of the loop over its rows.\<close>

definition range_cell_step ::
  "('w, 'o, 'z) sheetlib_scheme \<Rightarrow> 'o \<Rightarrow> pyval \<Rightarrow> pyval \<Rightarrow> nat \<Rightarrow> nat \<times> pyval \<Rightarrow> 'o \<Rightarrow> exn + 'o" where
  "range_cell_step L sheet start_row start_col i jv wb =
     (case jv of (j, v) \<Rightarrow>
        then_do (py_add_nat start_row i) (\<lambda>r.
        then_do (py_add_nat start_col j) (\<lambda>c. ws_cell L wb sheet r c v)))"

definition range_row_step ::
  "('w, 'o, 'z) sheetlib_scheme \<Rightarrow> 'o \<Rightarrow> pyval \<Rightarrow> pyval \<Rightarrow> nat \<times> pyval \<Rightarrow> 'o \<Rightarrow> exn + 'o" where
  "range_row_step L sheet start_row start_col irow wb =
     (case irow of (i, row_values) \<Rightarrow>
        then_do (py_iter row_values) (\<lambda>vs.
          for_each (range_cell_step L sheet start_row start_col i) (enumerate_from 0 vs) wb))"

definition excel_edit_step :: "('w, 'o, 'z) sheetlib_scheme \<Rightarrow> pydict \<Rightarrow> 'o \<Rightarrow> exn + 'o" where
  "excel_edit_step L op wb =
     (let op_type = dict_get op ''type'' PNone in
      then_do (case wb_sheetnames L wb of
                 [] \<Rightarrow> Inl (Exn IndexError ''list index out of range'')
               | first # others \<Rightarrow> Inr (dict_get op ''sheet'' (PStr first))) (\<lambda>sheet_name.
      then_do (if \<not> in_sheetnames L wb sheet_name then wb_create_sheet L wb sheet_name else Inr wb) (\<lambda>wb1.
      then_do (wb_getitem L wb1 sheet_name) (\<lambda>sheet.
        if op_type = PStr ''update_cell'' then
          ws_cell L wb1 sheet (dict_get op ''row'' (PInt 1)) (dict_get op ''col'' (PInt 1))
            (dict_get op ''value'' (PStr []))
        else if op_type = PStr ''update_range'' then
          then_do (py_iter (dict_get op ''values'' (PList []))) (\<lambda>rows.
            for_each (range_row_step L sheet (dict_get op ''start_row'' (PInt 1))
                        (dict_get op ''start_col'' (PInt 1)))
              (enumerate_from 0 rows) wb1)
        else if op_type = PStr ''delete_row'' then
          ws_delete_rows L wb1 sheet (dict_get op ''row'' (PInt 1))
        else if op_type = PStr ''delete_column'' then
          ws_delete_cols L wb1 sheet (dict_get op ''col'' (PInt 1))
        else if op_type = PStr ''add_sheet'' then
          (if \<not> in_sheetnames L wb1 (dict_get op ''name'' (PStr ''NewSheet''))
           then wb_create_sheet L wb1 (dict_get op ''name'' (PStr ''NewSheet''))
           else Inr wb1)
        else if op_type = PStr ''delete_sheet'' then
          (if in_sheetnames L wb1 sheet_name \<and> length (wb_sheetnames L wb1) > 1
           then wb_delitem L wb1 sheet_name
           else Inr wb1)
        else Inr wb1))))"

definition edit_excel_file_body ::
  "('w, 'o, 'z) sheetlib_scheme \<Rightarrow> string \<Rightarrow> pydict list \<Rightarrow> 'w state \<Rightarrow> (pydict, 'w) comp" where
  "edit_excel_file_body L filepath operations s =
     (if \<not> os_path_exists L (world s) filepath then
        (Inr [(''success'', PBool False), (''message'', PStr (''File not found: '' @ filepath)),
              (''filepath'', PNone)], s)
      else
        on_value (load_workbook L (world s) filepath) (\<lambda>wb.
        on_value (for_each (excel_edit_step L) operations wb) (\<lambda>wb'.
        on_write (wb_save L wb' filepath) (\<lambda>u s'.
          (Inr [(''success'', PBool True), (''message'', PStr ''Successfully edited Excel file''),
                (''filepath'', PStr filepath)], s')))) s)"

definition edit_excel_file ::
  "('w, 'o, 'z) sheetlib_scheme \<Rightarrow> string \<Rightarrow> pydict list \<Rightarrow> 'w state \<Rightarrow> (pydict, 'w) comp" where
  "edit_excel_file L filepath operations s =
     try_except (edit_excel_file_body L filepath operations s)
       [(Exception, \<lambda>e s'.
           (Inr [(''success'', PBool False),
                 (''message'', PStr (''Error editing Excel file: '' @ str_exn e)),
                 (''filepath'', PNone)], s'))]"

definition convert_csv_to_excel_body ::
  "('w, 'o, 'z) sheetlib_scheme \<Rightarrow> string \<Rightarrow> string \<Rightarrow> 'w state \<Rightarrow> (pydict, 'w) comp" where
  "convert_csv_to_excel_body L source_path target_path s =
     (if \<not> os_path_exists L (world s) source_path then
        (Inr [(''success'', PBool False), (''message'', PStr (''Source file not found: '' @ source_path)),
              (''filepath'', PNone)], s)
      else
        on_value (pd_read_csv L (world s) source_path) (\<lambda>df.
        on_write (make_parent_dirs L target_path) (\<lambda>u.
        on_write (df_to_excel L df target_path) (\<lambda>u s'.
          (Inr [(''success'', PBool True), (''message'', PStr ''Successfully converted CSV to Excel''),
                (''filepath'', PStr target_path)], s')))) s)"

definition convert_csv_to_excel ::
  "('w, 'o, 'z) sheetlib_scheme \<Rightarrow> string \<Rightarrow> string \<Rightarrow> 'w state \<Rightarrow> (pydict, 'w) comp" where
  "convert_csv_to_excel L source_path target_path s =
     try_except (convert_csv_to_excel_body L source_path target_path s)
       [(Exception, \<lambda>e s'.
           (Inr [(''success'', PBool False),
                 (''message'', PStr (''Error converting CSV to Excel: '' @ str_exn e)),
                 (''filepath'', PNone)], s'))]"

section \<open>PDF tools\<close>

text \<open>
  The page is \<^verbatim>\<open>letter\<close>, 612 by 792 points.  The loop over the lines carries the canvas
  and \<^verbatim>\<open>y_position\<close>: a new page when it is below 40, then the line at \<^verbatim>\<open>(40, y_position)\<close>
  and 15 points down.
\<close>

definition page_height :: int where
  "page_height = 792"

definition pdf_line_step :: "('w, 'o) lib \<Rightarrow> string \<Rightarrow> 'o \<times> int \<Rightarrow> exn + ('o \<times> int)" where
  "pdf_line_step L line cy =
     (case cy of (c, y_position) \<Rightarrow>
        then_do (if y_position < 40
                 then then_do (canvas_showPage L c) (\<lambda>c'. Inr (c', page_height - 40))
                 else Inr (c, y_position)) (\<lambda>(c1, y1).
        then_do (canvas_drawString L c1 40 y1 line) (\<lambda>c2. Inr (c2, y1 - 15))))"

definition create_pdf_file_body :: "('w, 'o) lib \<Rightarrow> string \<Rightarrow> string \<Rightarrow> 'w state \<Rightarrow> (pydict, 'w) comp" where
  "create_pdf_file_body L filepath text =
     on_write (make_parent_dirs L filepath) (\<lambda>u.
     on_value (canvas_new L filepath) (\<lambda>c.
     on_value (for_each (pdf_line_step L) (split_on (CHR 0x0A) text) (c, page_height - 40)) (\<lambda>(c', y).
     on_write (canvas_save L c' filepath) (\<lambda>u s.
       (Inr [(''success'', PBool True), (''message'', PStr ''Successfully created PDF file''),
             (''filepath'', PStr filepath)], s)))))"

definition create_pdf_file :: "('w, 'o) lib \<Rightarrow> string \<Rightarrow> string \<Rightarrow> 'w state \<Rightarrow> (pydict, 'w) comp" where
  "create_pdf_file L filepath text s =
     try_except (create_pdf_file_body L filepath text s)
       [(Exception, \<lambda>e s'.
           (Inr [(''success'', PBool False),
                 (''message'', PStr (''Error creating PDF file: '' @ str_exn e)),
                 (''filepath'', PNone)], s'))]"

definition convert_word_to_pdf_body :: "('w, 'o) lib \<Rightarrow> string \<Rightarrow> string \<Rightarrow> 'w state \<Rightarrow> (pydict, 'w) comp" where
  "convert_word_to_pdf_body L source_path target_path s =
     (if \<not> os_path_exists L (world s) source_path then
        (Inr [(''success'', PBool False), (''message'', PStr (''Source file not found: '' @ source_path)),
              (''filepath'', PNone)], s)
      else
        on_write (make_parent_dirs L target_path) (\<lambda>u.
        on_write (docx2pdf_convert L source_path target_path) (\<lambda>u s'.
          (Inr [(''success'', PBool True), (''message'', PStr ''Successfully converted Word to PDF''),
                (''filepath'', PStr target_path)], s'))) s)"

definition convert_word_to_pdf :: "('w, 'o) lib \<Rightarrow> string \<Rightarrow> string \<Rightarrow> 'w state \<Rightarrow> (pydict, 'w) comp" where
  "convert_word_to_pdf L source_path target_path s =
     try_except (convert_word_to_pdf_body L source_path target_path s)
       [(Exception, \<lambda>e s'.
           (Inr [(''success'', PBool False),
                 (''message'', PStr (''Error converting Word to PDF: '' @ str_exn e)),
                 (''filepath'', PNone)], s'))]"

section \<open>What the tools rely on from the libraries\<close>



text \<open>
  python-docx and the tables of a document.  A table that \<^verbatim>\<open>add_table\<close> returns is a
  \<^verbatim>\<open>w:tbl\<close> element whose cells declare at most one width each; setting the text of a cell
  keeps the cell's properties; setting a property of a paragraph or run gives a paragraph or
  run; and the \<^verbatim>\<open>word/document.xml\<close> of a saved document holds the tables of the body's
  blocks, in document order.
\<close>

definition tables_in :: "xml \<Rightarrow> xml list" where
  "tables_in b = filter (\<lambda>x. tag x = ''w:tbl'') (b # iter_desc b)"

definition one_width :: "xml \<Rightarrow> bool" where
  "one_width tc =
     (case find_child tc ''w:tcPr'' of None \<Rightarrow> True | Some tcPr \<Rightarrow> length (findall tcPr ''w:tcW'') \<le> 1)"

definition docx_keeps_tables :: "('w, 'o, 'z) docxlib_scheme \<Rightarrow> bool" where
  "docx_keeps_tables L =
     ((\<forall>doc r c t. docx_table L doc r c = Inr t \<longrightarrow>
          tag t = ''w:tbl''
          \<and> (\<forall>row \<in> set (findall t ''w:tr''). \<forall>tc \<in> set (findall row ''w:tc''). one_width tc))
      \<and> (\<forall>tc txt tc'. docx_cell_set_text L tc txt = Inr tc' \<longrightarrow>
            tag tc' = tag tc \<and> find_child tc' ''w:tcPr'' = find_child tc ''w:tcPr'')
      \<and> (\<forall>e props e'. docx_format L e props = Inr e' \<longrightarrow> tag e' = tag e)
      \<and> (\<forall>doc p w w'. docx_save L doc p w = (Inr (), w') \<longrightarrow>
            (\<exists>root names. zip_document_xml L w' p = Inr (root, names)
               \<and> findall_desc root ''w:tbl'' = concat (map tables_in (body doc)))))"

text \<open>
  The document when the loop over the sections has run through the sections \<open>before\<close>, and
  what an entry of \<^verbatim>\<open>"tables"\<close> says of a table whose grid has the widths \<open>ws\<close> and
  whose cells declare no width.
\<close>

definition document_before :: "('w, 'o, 'z) docxlib_scheme \<Rightarrow> pyval \<Rightarrow> pyval list \<Rightarrow> exn + 'o document" where
  "document_before L data before = then_do (formatted_front L data) (for_each (formatted_section L) before)"

definition all_null :: "pyval \<Rightarrow> bool" where
  "all_null v =
     (case v of
        PList rows \<Rightarrow>
          list_all (\<lambda>row. case row of PList cells \<Rightarrow> list_all (\<lambda>c. c = PNone) cells | _ \<Rightarrow> False) rows
      | _ \<Rightarrow> False)"

definition reports_grid :: "pydict \<Rightarrow> int list \<Rightarrow> bool" where
  "reports_grid info ws =
     (map_of info ''column_widths'' = Some (PList (map PInt ws))
      \<and> map_of info ''column_widths_source'' = Some (PStr ''tblGrid'')
      \<and> (case map_of info ''cell_widths'' of Some v \<Rightarrow> all_null v | None \<Rightarrow> False))"

text \<open>The cells of a row declare no width, as \<open>read_word_document_structure\<close> sees them.\<close>

definition no_width :: "xml \<Rightarrow> bool" where
  "no_width tc = (cell_width tc = Inr PNone)"

definition plain_row :: "xml \<Rightarrow> bool" where
  "plain_row row = list_all no_width (findall row ''w:tc'')"

definition plain_rows :: "xml \<Rightarrow> bool" where
  "plain_rows tbl = list_all plain_row (findall tbl ''w:tr'')"

section \<open>The server\<close>

text \<open>
  The thirteen tools the server registers, with their arguments, and a call of one of them in
  a state.  \<open>invoke_body\<close> is the \<^verbatim>\<open>try\<close> block of the tool alone, without its
  \<^verbatim>\<open>except\<close> clauses.
\<close>

datatype tool_call =
    CreateWordDocument string string
  | ReadWordDocumentStructure string
  | CompareWordDocuments string string
  | CreateFormattedWordDocument string string
  | EditWordDocument string "pydict list"
  | ConvertTxtToWord string string
  | CreateExcelFile string string
  | EditExcelFile string "pydict list"
  | ConvertCsvToExcel string string
  | CreatePdfFile string string
  | ConvertWordToPdf string string
  | DeleteFile string string
  | DeleteDirectory string string

fun invoke :: "('w, 'o) lib \<Rightarrow> tool_call \<Rightarrow> 'w state \<Rightarrow> (pydict, 'w) comp" where
  "invoke L (CreateWordDocument filepath content) = create_word_document L filepath content"
| "invoke L (ReadWordDocumentStructure filepath) = read_word_document_structure L filepath"
| "invoke L (CompareWordDocuments filepath1 filepath2) = compare_word_documents L filepath1 filepath2"
| "invoke L (CreateFormattedWordDocument filepath document_data) =
     create_formatted_word_document L filepath document_data"
| "invoke L (EditWordDocument filepath operations) = edit_word_document L filepath operations"
| "invoke L (ConvertTxtToWord source_path target_path) = convert_txt_to_word L source_path target_path"
| "invoke L (CreateExcelFile filepath content) = create_excel_file L filepath content"
| "invoke L (EditExcelFile filepath operations) = edit_excel_file L filepath operations"
| "invoke L (ConvertCsvToExcel source_path target_path) = convert_csv_to_excel L source_path target_path"
| "invoke L (CreatePdfFile filepath content) = create_pdf_file L filepath content"
| "invoke L (ConvertWordToPdf source_path target_path) = convert_word_to_pdf L source_path target_path"
| "invoke L (DeleteFile filepath confirm) = delete_file L filepath confirm"
| "invoke L (DeleteDirectory dirpath confirm) = delete_directory L dirpath confirm"

fun invoke_body :: "('w, 'o) lib \<Rightarrow> tool_call \<Rightarrow> 'w state \<Rightarrow> (pydict, 'w) comp" where
  "invoke_body L (CreateWordDocument filepath content) = create_word_document_body L filepath content"
| "invoke_body L (ReadWordDocumentStructure filepath) = read_word_document_structure_body L filepath"
| "invoke_body L (CompareWordDocuments filepath1 filepath2) = compare_word_documents_body L filepath1 filepath2"
| "invoke_body L (CreateFormattedWordDocument filepath document_data) =
     create_formatted_word_document_body L filepath document_data"
| "invoke_body L (EditWordDocument filepath operations) = edit_word_document_body L filepath operations"
| "invoke_body L (ConvertTxtToWord source_path target_path) = convert_txt_to_word_body L source_path target_path"
| "invoke_body L (CreateExcelFile filepath content) = create_excel_file_body L filepath content"
| "invoke_body L (EditExcelFile filepath operations) = edit_excel_file_body L filepath operations"
| "invoke_body L (ConvertCsvToExcel source_path target_path) = convert_csv_to_excel_body L source_path target_path"
| "invoke_body L (CreatePdfFile filepath content) = create_pdf_file_body L filepath content"
| "invoke_body L (ConvertWordToPdf source_path target_path) = convert_word_to_pdf_body L source_path target_path"
| "invoke_body L (DeleteFile filepath confirm) = delete_file_body L filepath confirm"
| "invoke_body L (DeleteDirectory dirpath confirm) = delete_directory_body L dirpath confirm"

text \<open>
  A message describes an exception when it ends with the text of the exception, or says
  that permission was denied for an exception of that class.
\<close>

definition describes :: "string \<Rightarrow> exn \<Rightarrow> bool" where
  "describes m e =
     (ends_with m (str_exn e) \<or> (isinstance e PermissionError \<and> starts_with m ''Permission denied: ''))"

definition reports_error :: "pydict \<Rightarrow> exn \<Rightarrow> bool" where
  "reports_error r e =
     (failed r \<and> (case map_of r ''message'' of Some (PStr m) \<Rightarrow> describes m e | _ \<Rightarrow> False))"

text \<open>The state after a sequence of calls.\<close>

definition run_calls :: "('w, 'o) lib \<Rightarrow> tool_call list \<Rightarrow> 'w state \<Rightarrow> 'w state" where
  "run_calls L calls s = foldl (\<lambda>s' c. snd (invoke L c s')) s calls"

text \<open>Two outcomes of a call agree when the results and the worlds left behind are the same.\<close>

definition same_outcome :: "('a, 'w) comp \<Rightarrow> ('a, 'w) comp \<Rightarrow> bool" where
  "same_outcome r1 r2 = (fst r1 = fst r2 \<and> world (snd r1) = world (snd r2))"

section \<open>A reference world\<close>

text \<open>
  A small concrete instance of the standard-library calls, used to run the tools on
  explicit inputs: paths are absolute, a node is a file with its text, a Word document
  with the root of its \<^verbatim>\<open>word/document.xml\<close> and the names of its members, or a
  directory, and a path listed as \<open>locked\<close> refuses removal and writing with
  \<^verbatim>\<open>PermissionError\<close>.
\<close>

datatype rnode = RFile string | RDocx xml "string list" | RDir

record rworld =
  nodes :: "(string \<times> rnode) list"
  trash :: "(string \<times> rnode) list"
  locked :: "string list"

definition r_basename :: "string \<Rightarrow> string" where
  "r_basename p = rev (takeWhile (\<lambda>c. c \<noteq> CHR ''/'') (rev p))"

definition r_dirname :: "string \<Rightarrow> string" where
  "r_dirname p =
     (let d = rev (drop 1 (dropWhile (\<lambda>c. c \<noteq> CHR ''/'') (rev p))) in if d = [] then ''/'' else d)"

definition r_exists :: "rworld \<Rightarrow> string \<Rightarrow> bool" where
  "r_exists w p = (map_of (nodes w) p \<noteq> None)"

definition r_isdir :: "rworld \<Rightarrow> string \<Rightarrow> bool" where
  "r_isdir w p = (map_of (nodes w) p = Some RDir)"

definition r_getsize :: "rworld \<Rightarrow> string \<Rightarrow> exn + nat" where
  "r_getsize w p =
     (case map_of (nodes w) p of
        None \<Rightarrow> Inl (Exn FileNotFoundError (''No such file or directory: '' @ p))
      | Some RDir \<Rightarrow> Inr 4096
      | Some (RDocx root names) \<Rightarrow> Inr (length names)
      | Some (RFile c) \<Rightarrow> Inr (length c))"

definition r_listdir :: "rworld \<Rightarrow> string \<Rightarrow> exn + string list" where
  "r_listdir w p =
     (if r_isdir w p
      then Inr (map r_basename (filter (\<lambda>q. r_dirname q = p \<and> q \<noteq> p) (map fst (nodes w))))
      else Inl (Exn FileNotFoundError (''No such file or directory: '' @ p)))"

definition r_makedirs :: "string \<Rightarrow> rworld \<Rightarrow> (exn + unit) \<times> rworld" where
  "r_makedirs p w =
     (if r_exists w p then (Inr (), w)
      else if p \<in> set (locked w) then (Inl (Exn PermissionError (''Permission denied: '' @ p)), w)
      else (Inr (), w\<lparr>nodes := nodes w @ [(p, RDir)]\<rparr>))"

definition r_unlink :: "string \<Rightarrow> rworld \<Rightarrow> (exn + unit) \<times> rworld" where
  "r_unlink p w =
     (if p \<in> set (locked w) then (Inl (Exn PermissionError (''Permission denied: '' @ p)), w)
      else if \<not> r_exists w p then (Inl (Exn FileNotFoundError (''No such file or directory: '' @ p)), w)
      else (Inr (), w\<lparr>nodes := filter (\<lambda>(q, n). q \<noteq> p) (nodes w)\<rparr>))"

definition r_send2trash :: "string \<Rightarrow> rworld \<Rightarrow> (exn + unit) \<times> rworld" where
  "r_send2trash p w =
     (if p \<in> set (locked w) then (Inl (Exn PermissionError (''Permission denied: '' @ p)), w)
      else (case map_of (nodes w) p of
              None \<Rightarrow> (Inl (Exn OSError (''File not found: '' @ p)), w)
            | Some n \<Rightarrow>
                (Inr (), w\<lparr>nodes := filter (\<lambda>(q, n). q \<noteq> p) (nodes w), trash := trash w @ [(p, n)]\<rparr>)))"

definition ref_os :: "rworld oslib" where
  "ref_os =
     \<lparr> os_path_exists = r_exists, os_path_isdir = r_isdir, os_path_getsize = r_getsize,
       os_path_basename = r_basename, os_path_abspath = (\<lambda>w p. p), os_path_dirname = r_dirname,
       os_listdir = r_listdir, os_makedirs = r_makedirs, os_remove = r_unlink, os_rmdir = r_unlink,
       send2trash = r_send2trash \<rparr>"

definition r_read_text :: "rworld \<Rightarrow> string \<Rightarrow> exn + string" where
  "r_read_text w p =
     (case map_of (nodes w) p of
        Some (RFile c) \<Rightarrow> Inr c
      | Some RDir \<Rightarrow> Inl (Exn OSError (''Is a directory: '' @ p))
      | Some (RDocx root names) \<Rightarrow> Inl (Exn ValueError ''invalid start byte'')
      | None \<Rightarrow> Inl (Exn FileNotFoundError (''No such file or directory: '' @ p)))"

definition r_zip_document_xml :: "rworld \<Rightarrow> string \<Rightarrow> exn + (xml \<times> string list)" where
  "r_zip_document_xml w p =
     (case map_of (nodes w) p of
        Some (RDocx root names) \<Rightarrow> Inr (root, names)
      | Some RDir \<Rightarrow> Inl (Exn OSError (''Is a directory: '' @ p))
      | Some (RFile c) \<Rightarrow> Inl (Exn (LibraryError ''BadZipFile'') ''File is not a zip file'')
      | None \<Rightarrow> Inl (Exn FileNotFoundError (''No such file or directory: '' @ p)))"

text \<open>The reference JSON reader knows the texts the examples use and rejects every other.\<close>

definition r_json_loads :: "(string \<times> pyval) list \<Rightarrow> string \<Rightarrow> exn + pyval" where
  "r_json_loads known text =
     (case map_of known text of
        Some v \<Rightarrow> Inr v
      | None \<Rightarrow> Inl (Exn JSONDecodeError ''Expecting value: line 1 column 1 (char 0)''))"

definition ref_std :: "(string \<times> pyval) list \<Rightarrow> rworld stdlib" where
  "ref_std known =
     \<lparr> os_path_exists = r_exists, os_path_isdir = r_isdir, os_path_getsize = r_getsize,
       os_path_basename = r_basename, os_path_abspath = (\<lambda>w p. p), os_path_dirname = r_dirname,
       os_listdir = r_listdir, os_makedirs = r_makedirs, os_remove = r_unlink, os_rmdir = r_unlink,
       send2trash = r_send2trash,
       read_text = r_read_text, json_loads = r_json_loads known, zip_document_xml = r_zip_document_xml \<rparr>"

subsection \<open>Reference libraries\<close>

text \<open>
  Plain stand-ins for the document libraries, enough to run every tool: a write needs an
  existing parent directory and a path that is neither locked nor a directory.
\<close>

datatype robj =
    RParts "string list"
  | RFrame pyval
  | RBook "string list"
  | RSheet string
  | RCanvas "(int \<times> int \<times> string) list list"

definition r_write :: "string \<Rightarrow> rnode \<Rightarrow> rworld \<Rightarrow> (exn + unit) \<times> rworld" where
  "r_write p n w =
     (if p \<in> set (locked w) then (Inl (Exn PermissionError (''Permission denied: '' @ p)), w)
      else if \<not> r_isdir w (r_dirname p) then
        (Inl (Exn FileNotFoundError (''No such file or directory: '' @ p)), w)
      else if r_isdir w p then (Inl (Exn OSError (''Is a directory: '' @ p)), w)
      else (Inr (), w\<lparr>nodes := filter (\<lambda>(q, m). q \<noteq> p) (nodes w) @ [(p, n)]\<rparr>))"

definition el :: "string \<Rightarrow> xml list \<Rightarrow> xml" where
  "el t cs = Elem t [] [] cs"

definition para :: "string \<Rightarrow> xml" where
  "para txt = el ''w:p'' (if txt = [] then [] else [Elem ''w:r'' [] txt []])"

definition grid_col :: "string \<Rightarrow> xml" where
  "grid_col w = Elem ''w:gridCol'' [(''w:w'', w)] [] []"

definition cell_w :: "string \<Rightarrow> string \<Rightarrow> xml" where
  "cell_w w txt =
     el ''w:tc'' [el ''w:tcPr'' [Elem ''w:tcW'' [(''w:type'', ''dxa''), (''w:w'', w)] [] []], para txt]"

definition r_document_root :: "robj document \<Rightarrow> xml" where
  "r_document_root doc = el ''w:document'' [el ''w:body'' (body doc)]"

definition r_parts :: "robj \<Rightarrow> string list" where
  "r_parts pkg = (case pkg of RParts names \<Rightarrow> names | _ \<Rightarrow> [])"

definition r_docx_new :: "exn + robj document" where
  "r_docx_new = Inr \<lparr>body = [], package = RParts [''[Content_Types].xml'', ''word/document.xml'']\<rparr>"

definition r_docx_open :: "rworld \<Rightarrow> string \<Rightarrow> exn + robj document" where
  "r_docx_open w p =
     (case r_zip_document_xml w p of
        Inl e \<Rightarrow> Inl e
      | Inr (root, names) \<Rightarrow>
          Inr \<lparr>body = concat (map children (filter (\<lambda>c. tag c = ''w:body'') (children root))),
               package = RParts names\<rparr>)"

definition r_docx_save :: "robj document \<Rightarrow> string \<Rightarrow> rworld \<Rightarrow> (exn + unit) \<times> rworld" where
  "r_docx_save doc p w = r_write p (RDocx (r_document_root doc) (r_parts (package doc))) w"

definition r_styled :: "pyval \<Rightarrow> (string \<times> string) list" where
  "r_styled style = (case style of PStr st \<Rightarrow> [(''w:pStyle'', st)] | _ \<Rightarrow> [])"

definition r_docx_paragraph :: "robj document \<Rightarrow> pyval \<Rightarrow> pyval \<Rightarrow> exn + xml" where
  "r_docx_paragraph doc txt style =
     (case txt of
        PStr s \<Rightarrow> Inr (Elem ''w:p'' (r_styled style) [] (children (para s)))
      | _ \<Rightarrow> Inl (Exn TypeError ''paragraph text must be a string''))"

definition r_docx_heading :: "robj document \<Rightarrow> pyval \<Rightarrow> pyval \<Rightarrow> exn + xml" where
  "r_docx_heading doc txt lvl =
     (case (txt, lvl) of
        (PStr s, PInt n) \<Rightarrow>
          if 0 \<le> n \<and> n \<le> 9
          then Inr (Elem ''w:p'' [(''w:pStyle'', ''Heading '' @ str_int n)] [] (children (para s)))
          else Inl (Exn ValueError (''level must be in range 0-9, got '' @ str_int n))
      | _ \<Rightarrow> Inl (Exn TypeError ''heading text must be a string and its level an integer''))"

definition r_docx_set_text :: "xml \<Rightarrow> pyval \<Rightarrow> exn + xml" where
  "r_docx_set_text p v =
     (case v of
        PStr s \<Rightarrow> Inr (Elem (tag p) (attrs p) [] (children (para s)))
      | _ \<Rightarrow> Inl (Exn TypeError ''paragraph text must be a string''))"

definition r_docx_run :: "pyval \<Rightarrow> exn + xml" where
  "r_docx_run v =
     (case v of
        PStr s \<Rightarrow> Inr (Elem ''w:r'' [] s [])
      | _ \<Rightarrow> Inl (Exn TypeError ''run text must be a string''))"

fun r_repr :: "pyval \<Rightarrow> string" where
  "r_repr PNone = ''None''"
| "r_repr (PBool b) = (if b then ''True'' else ''False'')"
| "r_repr (PInt i) = str_int i"
| "r_repr (PStr s) = apos @ s @ apos"
| "r_repr (PList xs) = ''['' @ concat (map (\<lambda>x. r_repr x @ '', '') xs) @ '']''"
| "r_repr (PDict kvs) = ''{'' @ concat (map (\<lambda>kv. apos @ fst kv @ apos @ '': '' @ r_repr (snd kv) @ '', '') kvs) @ ''}''"

definition r_docx_format :: "xml \<Rightarrow> (string \<times> pyval) list \<Rightarrow> exn + xml" where
  "r_docx_format e props =
     Inr (Elem (tag e) (attrs e @ map (\<lambda>kv. (fst kv, r_repr (snd kv))) props) (etext e) (children e))"

definition r_docx_add_part :: "string \<Rightarrow> robj \<Rightarrow> pyval \<Rightarrow> exn + robj" where
  "r_docx_add_part name pkg v =
     (case v of
        PStr s \<Rightarrow> Inr (RParts (r_parts pkg @ [name]))
      | _ \<Rightarrow> Inl (Exn TypeError ''text must be a string''))"

definition r_docx_table :: "robj document \<Rightarrow> nat \<Rightarrow> nat \<Rightarrow> exn + xml" where
  "r_docx_table doc rows cols =
     Inr (el ''w:tbl''
            ([el ''w:tblPr'' [Elem ''w:tblW'' [(''w:type'', ''auto''), (''w:w'', ''0'')] [] [],
                              el ''w:tblLook'' []],
              el ''w:tblGrid'' (replicate cols (grid_col ''2880''))]
             @ replicate rows (el ''w:tr'' (replicate cols (cell_w ''2880'' [])))))"

definition r_docx_cell_set_text :: "xml \<Rightarrow> string \<Rightarrow> exn + xml" where
  "r_docx_cell_set_text tc s =
     Inr (Elem (tag tc) (attrs tc) (etext tc) (filter (\<lambda>c. tag c = ''w:tcPr'') (children tc) @ [para s]))"

definition r_docx_page_break :: "robj document \<Rightarrow> exn + xml" where
  "r_docx_page_break doc = Inr (el ''w:p'' [el ''w:r'' [Elem ''w:br'' [(''w:type'', ''page'')] [] []]])"

definition r_frame :: "pyval \<Rightarrow> exn + robj" where
  "r_frame v =
     (case v of
        PList xs \<Rightarrow> Inr (RFrame v)
      | PDict kvs \<Rightarrow> Inr (RFrame v)
      | _ \<Rightarrow> Inl (Exn ValueError ''DataFrame constructor not properly called!''))"

definition r_workbook_op :: "robj \<Rightarrow> exn + robj" where
  "r_workbook_op wb = (case wb of RBook names \<Rightarrow> Inr wb | _ \<Rightarrow> Inl (Exn TypeError ''not a workbook''))"

definition r_create_sheet :: "robj \<Rightarrow> pyval \<Rightarrow> exn + robj" where
  "r_create_sheet wb name =
     (case (wb, name) of
        (RBook names, PStr n) \<Rightarrow> Inr (RBook (names @ [n]))
      | _ \<Rightarrow> Inl (Exn TypeError ''sheet title must be a string''))"

definition r_getsheet :: "robj \<Rightarrow> pyval \<Rightarrow> exn + robj" where
  "r_getsheet wb name =
     (case (wb, name) of
        (RBook names, PStr n) \<Rightarrow>
          if n \<in> set names then Inr (RSheet n) else Inl (Exn KeyError (''Worksheet '' @ n @ '' does not exist.''))
      | _ \<Rightarrow> Inl (Exn KeyError ''Worksheet does not exist.''))"

definition r_delsheet :: "robj \<Rightarrow> pyval \<Rightarrow> exn + robj" where
  "r_delsheet wb name =
     (case (wb, name) of
        (RBook names, PStr n) \<Rightarrow> Inr (RBook (filter (\<lambda>m. m \<noteq> n) names))
      | _ \<Rightarrow> Inl (Exn KeyError ''Worksheet does not exist.''))"

definition r_draw :: "robj \<Rightarrow> int \<Rightarrow> int \<Rightarrow> string \<Rightarrow> exn + robj" where
  "r_draw c x y line =
     (case c of
        RCanvas pages \<Rightarrow> Inr (RCanvas (butlast pages @ [(if pages = [] then [] else last pages) @ [(x, y, line)]]))
      | _ \<Rightarrow> Inl (Exn TypeError ''not a canvas''))"

definition r_show_page :: "robj \<Rightarrow> exn + robj" where
  "r_show_page c = (case c of RCanvas pages \<Rightarrow> Inr (RCanvas (pages @ [[]])) | _ \<Rightarrow> Inl (Exn TypeError ''not a canvas''))"

definition r_convert :: "string \<Rightarrow> string \<Rightarrow> rworld \<Rightarrow> (exn + unit) \<times> rworld" where
  "r_convert src tgt w =
     (case map_of (nodes w) src of
        Some (RDocx root names) \<Rightarrow> r_write tgt (RFile ''%PDF'') w
      | _ \<Rightarrow> (Inl (Exn (LibraryError ''ConversionError'') (''cannot convert '' @ src)), w))"

definition ref_lib :: "(string \<times> pyval) list \<Rightarrow> (rworld, robj) lib" where
  "ref_lib known =
     \<lparr> os_path_exists = r_exists, os_path_isdir = r_isdir, os_path_getsize = r_getsize,
       os_path_basename = r_basename, os_path_abspath = (\<lambda>w p. p), os_path_dirname = r_dirname,
       os_listdir = r_listdir, os_makedirs = r_makedirs, os_remove = r_unlink, os_rmdir = r_unlink,
       send2trash = r_send2trash,
       read_text = r_read_text, json_loads = r_json_loads known, zip_document_xml = r_zip_document_xml,
       docx_new = r_docx_new, docx_open = r_docx_open, docx_save = r_docx_save,
       docx_paragraph = r_docx_paragraph, docx_heading = r_docx_heading,
       docx_set_text = r_docx_set_text, docx_run = r_docx_run, docx_format = r_docx_format,
       docx_page_setup = Inr, docx_set_header = r_docx_add_part ''word/header1.xml'',
       docx_set_footer = r_docx_add_part ''word/footer1.xml'',
       docx_table = r_docx_table, docx_cell_set_text = r_docx_cell_set_text,
       docx_page_break = r_docx_page_break, py_repr = r_repr,
       pd_DataFrame = r_frame,
       pd_read_csv = (\<lambda>w p. then_do (r_read_text w p) (\<lambda>c. r_frame (csv_grid c))),
       df_to_excel = (\<lambda>df p. r_write p (RFile ''xlsx'')),
       load_workbook = (\<lambda>w p. then_do (r_read_text w p) (\<lambda>c. Inr (RBook [''Sheet1'']))),
       wb_sheetnames = (\<lambda>wb. case wb of RBook names \<Rightarrow> names | _ \<Rightarrow> []),
       wb_create_sheet = r_create_sheet, wb_getitem = r_getsheet,
       ws_cell = (\<lambda>wb sh r c v. r_workbook_op wb),
       ws_delete_rows = (\<lambda>wb sh r. r_workbook_op wb),
       ws_delete_cols = (\<lambda>wb sh c. r_workbook_op wb),
       wb_delitem = r_delsheet,
       wb_save = (\<lambda>wb p. r_write p (RFile ''xlsx'')),
       canvas_new = (\<lambda>p. Inr (RCanvas [[]])), canvas_showPage = r_show_page,
       canvas_drawString = r_draw,
       canvas_save = (\<lambda>c p. r_write p (RFile ''%PDF'')),
       docx2pdf_convert = r_convert \<rparr>"

text \<open>
  Two Word documents with one table each: the same grid, row count and row heights, and
  different paragraph and cell texts.
\<close>

definition sample_table :: "string \<Rightarrow> string \<Rightarrow> xml" where
  "sample_table a b =
     el ''w:tbl''
       [el ''w:tblPr'' [],
        el ''w:tblGrid'' [grid_col ''2000'', grid_col ''3000''],
        el ''w:tr'' [el ''w:trPr'' [Elem ''w:trHeight'' [(''w:val'', ''400''), (''w:hRule'', ''exact'')] [] []],
                     cell_w ''2000'' a, cell_w ''3000'' b],
        el ''w:tr'' [cell_w ''2000'' b, el ''w:tc'' [para a]]]"

definition sample_root :: "string \<Rightarrow> string \<Rightarrow> string \<Rightarrow> xml" where
  "sample_root title a b = el ''w:document'' [el ''w:body'' [para title, sample_table a b, para []]]"

definition sample_names :: "string list" where
  "sample_names = [''[Content_Types].xml'', ''word/document.xml'', ''word/header1.xml'']"

definition docs_world :: rworld where
  "docs_world =
     \<lparr> nodes = [(''/docs'', RDir), (''/docs/a.txt'', RFile ''abc''), (''/docs/b.txt'', RFile ''hello'')],
       trash = [], locked = [''/docs/b.txt''] \<rparr>"

definition word_world :: rworld where
  "word_world =
     \<lparr> nodes = [(''/w'', RDir),
                (''/w/one.docx'', RDocx (sample_root ''Report'' ''x'' ''y'') sample_names),
                (''/w/two.docx'', RDocx (sample_root ''Minutes'' ''p'' ''q'') [''word/document.xml'']),
                (''/w/bad.docx'', RFile ''plain text'')],
       trash = [], locked = [] \<rparr>"

definition word_state :: "rworld state" where
  "word_state = \<lparr> world = word_world, logs = [] \<rparr>"

definition docs_state :: "rworld state" where
  "docs_state = \<lparr> world = docs_world, logs = [] \<rparr>"

definition one_docx_structure :: pydict where
  "one_docx_structure =
     [(''success'', PBool True), (''filepath'', PStr ''/w/one.docx''),
      (''tables_count'', PInt 1),
      (''tables'',
        PList [PDict [(''table_index'', PInt 1),
                      (''column_widths'', PList [PInt 2000, PInt 3000]),
                      (''column_widths_source'', PStr ''tblGrid''),
                      (''row_count'', PInt 2),
                      (''row_heights'',
                        PList [PDict [(''row_index'', PInt 0), (''height'', PInt 400), (''height_rule'', PStr ''exact'')],
                               PDict [(''row_index'', PInt 1), (''height'', PNone), (''height_rule'', PNone)]]),
                      (''has_explicit_row_heights'', PBool True),
                      (''cell_widths'', PList [PList [PInt 2000, PInt 3000], PList [PInt 2000, PNone]])]]),
      (''paragraphs_count'', PInt 6), (''has_header'', PBool True), (''has_footer'', PBool False)]"

definition two_docx_structure :: pydict where
  "two_docx_structure =
     [(''success'', PBool True), (''filepath'', PStr ''/w/two.docx''),
      (''tables_count'', PInt 1),
      (''tables'',
        PList [PDict [(''table_index'', PInt 1),
                      (''column_widths'', PList [PInt 2000, PInt 3000]),
                      (''column_widths_source'', PStr ''tblGrid''),
                      (''row_count'', PInt 2),
                      (''row_heights'',
                        PList [PDict [(''row_index'', PInt 0), (''height'', PInt 400), (''height_rule'', PStr ''exact'')],
                               PDict [(''row_index'', PInt 1), (''height'', PNone), (''height_rule'', PNone)]]),
                      (''has_explicit_row_heights'', PBool True),
                      (''cell_widths'', PList [PList [PInt 2000, PInt 3000], PList [PInt 2000, PNone]])]]),
      (''paragraphs_count'', PInt 6), (''has_header'', PBool False), (''has_footer'', PBool False)]"

text \<open>A directory with a note of two paragraphs, a text file and a file that cannot be written.\<close>

definition note_body :: "xml list" where
  "note_body = [para ''one'', para ''two'']"

definition note_world :: rworld where
  "note_world =
     \<lparr> nodes = [(''/n'', RDir),
                (''/n/note.docx'', RDocx (el ''w:document'' [el ''w:body'' note_body]) [''word/document.xml'']),
                (''/n/lines.txt'', RFile ''a,b''),
                (''/n/fixed.xlsx'', RFile ''xlsx'')],
       trash = [], locked = [''/n/fixed.xlsx''] \<rparr>"

definition note_state :: "rworld state" where
  "note_state = \<lparr> world = note_world, logs = [] \<rparr>"

definition edit_example_ops :: "pydict list" where
  "edit_example_ops =
     [[(''type'', PStr ''delete_paragraph''), (''index'', PInt 2)],
      [(''type'', PStr ''add_paragraph''), (''text'', PStr ''three'')]]"


section \<open>Properties of the file management tools\<close>



lemma str_nat_5: "str_nat 5 = ''5''"
  by (simp add: str_nat_def digits10.simps digit_char_def)

lemma str_nat_2: "str_nat (Suc (Suc 0)) = ''2''"
  by (simp add: str_nat_def digits10.simps digit_char_def)



text \<open>
  An existing regular file that the trash refuses: the tool answers
  \<^verbatim>\<open>"Permission denied"\<close> with \<^verbatim>\<open>"success": false\<close>, and the file stays.
\<close>

theorem delete_file_locked:
  "os_path_exists ref_os (world docs_state) ''/docs/b.txt''
   \<and> \<not> os_path_isdir ref_os (world docs_state) ''/docs/b.txt''
   \<and> delete_file ref_os ''/docs/b.txt'' confirm_trash docs_state =
     (Inr [(''success'', PBool False), (''message'', PStr ''Permission denied: /docs/b.txt''),
           (''filepath'', PStr ''/docs/b.txt''), (''deleted'', PBool False)], docs_state)"
  by (simp add: delete_file_def delete_file_body_def try_except_def is_subclass_def
      ref_os_def docs_state_def docs_world_def r_exists_def r_isdir_def r_getsize_def
      r_basename_def r_send2trash_def confirm_trash_def confirm_permanent_def)

text \<open>
  C10, as the code has it.  For an existing directory whose listing is not empty, the
  result always says failure and not deleted and the state is unchanged.  The message is
  the \<^verbatim>\<open>"Directory not empty"\<close> one, with the first ten entries at most, when \<open>confirm\<close> is
  one of the two confirmation values; for any other value the check of \<open>confirm\<close> comes
  first and the result is the cancellation message, with no listing.
\<close>

theorem delete_directory_nonempty:
  fixes L :: "('w, 'z) oslib_scheme"
  shows
  "os_path_exists L (world s) dp \<and> os_path_isdir L (world s) dp
     \<and> os_listdir L (world s) dp = Inr contents \<and> contents \<noteq> [] \<longrightarrow>
     (confirm = confirm_trash \<or> confirm = confirm_permanent \<longrightarrow>
        delete_directory L dp confirm s =
          (Inr [(''success'', PBool False),
                (''message'', PStr (''Directory not empty ('' @ str_nat (length contents)
                    @ '' items). Delete contents first.'')),
                (''dirpath'', PStr dp),
                (''contents'', PList (map PStr (take 10 contents))),
                (''deleted'', PBool False)], s))
     \<and> (confirm \<noteq> confirm_trash \<and> confirm \<noteq> confirm_permanent \<longrightarrow>
        delete_directory L dp confirm s =
          (Inr [(''success'', PBool False), (''message'', PStr cancel_message),
                (''dirpath'', PStr dp), (''deleted'', PBool False)], s))
     \<and> (\<exists>r. delete_directory L dp confirm s = (Inr r, s) \<and> failed r
            \<and> map_of r ''deleted'' = Some (PBool False))"
  by (auto simp add: delete_directory_def delete_directory_body_def try_except_def failed_def)

theorem delete_directory_nonempty_witness:
  "delete_directory ref_os ''/docs'' confirm_permanent docs_state =
     (Inr [(''success'', PBool False),
           (''message'', PStr ''Directory not empty (2 items). Delete contents first.''),
           (''dirpath'', PStr ''/docs''),
           (''contents'', PList [PStr ''a.txt'', PStr ''b.txt'']),
           (''deleted'', PBool False)], docs_state)"
  using delete_directory_nonempty [of ref_os docs_state "''/docs''" "[''a.txt'', ''b.txt'']" confirm_permanent]
  by (simp add: ref_os_def docs_state_def docs_world_def r_exists_def r_isdir_def r_listdir_def
      r_basename_def r_dirname_def str_nat_2)

text \<open>
  A directory that is not empty and a \<open>confirm\<close> that is neither confirmation value: the
  message is the cancellation message and the result has no \<^verbatim>\<open>"contents"\<close>.
\<close>

theorem delete_directory_confirm_counterexample:
  "os_path_isdir ref_os (world docs_state) ''/docs''
   \<and> os_listdir ref_os (world docs_state) ''/docs'' = Inr [''a.txt'', ''b.txt'']
   \<and> delete_directory ref_os ''/docs'' ''oui'' docs_state =
       (Inr [(''success'', PBool False), (''message'', PStr cancel_message),
             (''dirpath'', PStr ''/docs''), (''deleted'', PBool False)], docs_state)
   \<and> take 19 cancel_message = ''Suppression annulee''"
  by (simp add: delete_directory_def delete_directory_body_def try_except_def
      ref_os_def docs_state_def docs_world_def r_exists_def r_isdir_def r_listdir_def
      r_basename_def r_dirname_def confirm_trash_def confirm_permanent_def cancel_message_def)

section \<open>Properties of the structure reader\<close>

lemma then_do_Inr: "then_do m f = Inr y \<longleftrightarrow> (\<exists>x. m = Inr x \<and> f x = Inr y)"
  by (cases m) (simp_all add: then_do_def)

lemma sequence_map_Inr: "sequence (map Inr vs) = Inr vs"
  by (induction vs) simp_all

lemma sequence_Inr_D: "sequence ms = Inr vs \<Longrightarrow> ms = map Inr vs"
  by (induction ms arbitrary: vs) (auto split: sum.splits)

lemma sequence_Inr: "sequence ms = Inr vs \<longleftrightarrow> ms = map Inr vs"
  using sequence_Inr_D sequence_map_Inr by blast

lemma find_filter_take: "List.find P xs = (case filter P xs of [] \<Rightarrow> None | x # _ \<Rightarrow> Some x)"
  by (induction xs) auto

lemma spec_grid_cols_find:
  "spec_grid_cols tbl = (case find_child tbl ''w:tblGrid'' of None \<Rightarrow> [] | Some g \<Rightarrow> findall g ''w:gridCol'')"
  unfolding spec_grid_cols_def find_child_def findall_def find_filter_take
  by (cases "filter (\<lambda>c. tag c = ''w:tblGrid'') (children tbl)") simp_all

lemma declared_int_spec: "declared_int gc ''w:w'' = Inr w \<longleftrightarrow> spec_width gc = Some w"
  by (auto simp add: declared_int_def spec_width_def attr_def int_of_str_def split: option.splits)

lemma map_declared_spec:
  "map (\<lambda>gc. declared_int gc ''w:w'') gs = map Inr ws \<Longrightarrow> map spec_width gs = map Some ws"
  by (induction gs arbitrary: ws) (auto simp add: declared_int_spec)

lemma column_widths_of_Inr:
  assumes "column_widths_of tbl = Inr (cw, src)"
  shows "\<exists>ws. cw = PList (map PInt ws) \<and> map spec_width (spec_grid_cols tbl) = map Some ws
           \<and> src = (if find_child tbl ''w:tblGrid'' = None then PNone else PStr ''tblGrid'')"
proof (cases "find_child tbl ''w:tblGrid''")
  case None
  with assms show ?thesis by (simp add: column_widths_of_def spec_grid_cols_find)
next
  case (Some g)
  with assms obtain ws where ws: "map (\<lambda>gc. declared_int gc ''w:w'') (findall g ''w:gridCol'') = map Inr ws"
    and cw: "cw = PList (map PInt ws)" and src: "src = PStr ''tblGrid''"
    by (auto simp add: column_widths_of_def then_do_Inr sequence_Inr)
  from ws have "map spec_width (findall g ''w:gridCol'') = map Some ws"
    by (rule map_declared_spec)
  with cw src Some show ?thesis by (simp add: spec_grid_cols_find)
qed

lemma enumerate_from_Nil: "enumerate_from n [] = []"
  by (simp add: enumerate_from_def)

lemma enumerate_from_Cons: "enumerate_from n (x # xs) = (n, x) # enumerate_from (Suc n) xs"
  by (simp add: enumerate_from_def upt_rec)

lemma find_ne_None: "List.find P xs \<noteq> None \<longleftrightarrow> list_ex P xs"
  by (induction xs) auto

lemma spec_row_has_height_find:
  "spec_row_has_height row =
     (case find_child row ''w:trPr'' of None \<Rightarrow> False | Some pr \<Rightarrow> find_child pr ''w:trHeight'' \<noteq> None)"
proof (cases "filter (\<lambda>c. tag c = ''w:trPr'') (children row)")
  case Nil
  then show ?thesis
    by (simp add: spec_row_has_height_def find_child_def find_filter_take)
next
  case (Cons pr rest)
  then have "find_child row ''w:trPr'' = Some pr"
    by (simp add: find_child_def find_filter_take)
  moreover from Cons have "spec_row_has_height row = list_ex (\<lambda>h. tag h = ''w:trHeight'') (children pr)"
    by (simp add: spec_row_has_height_def)
  ultimately show ?thesis
    by (simp add: find_ne_None [symmetric] find_child_def)
qed

lemma row_height_info_flag:
  "row_height_info j row = Inr (ex, info) \<Longrightarrow> ex = spec_row_has_height row"
  by (auto simp add: row_height_info_def spec_row_has_height_find then_do_Inr Let_def
      split: option.splits if_splits)

lemma rows_loop_flag:
  "for_each row_step (enumerate_from n rows) (has0, hs0, ws0) = Inr (has, hs, wsl)
   \<Longrightarrow> has = (has0 \<or> list_ex spec_row_has_height rows)"
proof (induction rows arbitrary: n has0 hs0 ws0)
  case Nil
  then show ?case by (simp add: enumerate_from_Nil)
next
  case (Cons r rows)
  from Cons.prems obtain acc where step: "row_step (n, r) (has0, hs0, ws0) = Inr acc"
    and rest: "for_each row_step (enumerate_from (Suc n) rows) acc = Inr (has, hs, wsl)"
    by (auto simp add: enumerate_from_Cons split: sum.splits)
  obtain has1 hs1 ws1 where acc: "acc = (has1, hs1, ws1)" by (cases acc) auto
  from step acc have "has1 = (has0 \<or> spec_row_has_height r)"
    by (auto simp add: row_step_def then_do_Inr dest: row_height_info_flag)
  with Cons.IH [OF rest [unfolded acc]] show ?case by auto
qed

lemma table_info_fields:
  assumes "table_info i tbl = Inr info"
  shows "(\<exists>ws. map_of info ''column_widths'' = Some (PList (map PInt ws))
               \<and> map spec_width (spec_grid_cols tbl) = map Some ws)
         \<and> map_of info ''column_widths_source''
             = Some (if find_child tbl ''w:tblGrid'' = None then PNone else PStr ''tblGrid'')
         \<and> map_of info ''row_count'' = Some (PInt (int (spec_row_count tbl)))
         \<and> map_of info ''has_explicit_row_heights'' = Some (PBool (spec_has_row_heights tbl))"
proof -
  from assms obtain cw src has hs wsl where
    c: "column_widths_of tbl = Inr (cw, src)" and
    l: "for_each row_step (enumerate_from 0 (findall tbl ''w:tr'')) (False, [], []) = Inr (has, hs, wsl)" and
    i: "info = [(''table_index'', PInt (int i + 1)), (''column_widths'', cw),
               (''column_widths_source'', src),
               (''row_count'', PInt (int (length (findall tbl ''w:tr'')))),
               (''row_heights'', PList hs), (''has_explicit_row_heights'', PBool has),
               (''cell_widths'', PList wsl)]"
    by (auto simp add: table_info_def then_do_Inr Let_def)
  from rows_loop_flag [OF l] have h: "has = spec_has_row_heights tbl"
    by (simp add: spec_has_row_heights_def findall_def)
  from column_widths_of_Inr [OF c] obtain ws where
    w: "cw = PList (map PInt ws)" "map spec_width (spec_grid_cols tbl) = map Some ws"
       "src = (if find_child tbl ''w:tblGrid'' = None then PNone else PStr ''tblGrid'')"
    by blast
  have r: "length (findall tbl ''w:tr'') = spec_row_count tbl"
    by (simp add: spec_row_count_def findall_def)
  show ?thesis unfolding i using w h r by simp
qed

lemma tables_loop_infos:
  "for_each table_step (enumerate_from n ts) acc = Inr out
   \<Longrightarrow> \<exists>infos. out = acc @ map PDict infos \<and> length infos = length ts
          \<and> (\<forall>i < length ts. table_info (n + i) (ts ! i) = Inr (infos ! i))"
proof (induction ts arbitrary: n acc)
  case Nil
  then show ?case by (simp add: enumerate_from_Nil)
next
  case (Cons t ts)
  from Cons.prems obtain acc' where step: "table_step (n, t) acc = Inr acc'"
    and rest': "for_each table_step (enumerate_from (Suc n) ts) acc' = Inr out"
    by (auto simp add: enumerate_from_Cons split: sum.splits)
  from step obtain info where info: "table_info n t = Inr info" and acc': "acc' = acc @ [PDict info]"
    by (auto simp add: table_step_def then_do_Inr)
  from rest' acc' have rest: "for_each table_step (enumerate_from (Suc n) ts) (acc @ [PDict info]) = Inr out"
    by simp
  from Cons.IH [OF rest] obtain infos where
    o: "out = (acc @ [PDict info]) @ map PDict infos" and len: "length infos = length ts"
    and each: "\<forall>i < length ts. table_info (Suc n + i) (ts ! i) = Inr (infos ! i)"
    by blast
  have "\<forall>i < length (t # ts). table_info (n + i) ((t # ts) ! i) = Inr ((info # infos) ! i)"
  proof (intro allI impI)
    fix i assume "i < length (t # ts)"
    then show "table_info (n + i) ((t # ts) ! i) = Inr ((info # infos) ! i)"
      using info each by (cases i) auto
  qed
  with o len show ?case
    by (intro exI [of _ "info # infos"]) simp
qed

lemma read_structure_success:
  fixes L :: "('w, 'z) stdlib_scheme"
  assumes "read_word_document_structure L fp s = (Inr r, s')" and "succeeded r"
  shows "\<exists>root names tables_info.
           zip_document_xml L (world s) fp = Inr (root, names)
           \<and> for_each table_step (enumerate_from 0 (findall_desc root ''w:tbl'')) [] = Inr tables_info
           \<and> s' = s
           \<and> r = [(''success'', PBool True), (''filepath'', PStr fp),
                  (''tables_count'', PInt (int (length tables_info))),
                  (''tables'', PList tables_info),
                  (''paragraphs_count'', PInt (int (length (findall_desc root ''w:p'')))),
                  (''has_header'', PBool (list_ex (\<lambda>name. str_contains name ''header'') names)),
                  (''has_footer'', PBool (list_ex (\<lambda>name. str_contains name ''footer'') names))]"
proof (cases "zip_document_xml L (world s) fp")
  case (Inl e)
  with assms show ?thesis
    by (cases e) (auto simp add: read_word_document_structure_def read_word_document_structure_body_def
        try_except_def succeeded_def is_subclass_def)
next
  case (Inr rn)
  obtain root names where rn: "rn = (root, names)" by (cases rn) auto
  show ?thesis
  proof (cases "for_each table_step (enumerate_from 0 (findall_desc root ''w:tbl'')) []")
    case (Inl e)
    with assms Inr rn show ?thesis
      by (cases e) (auto simp add: read_word_document_structure_def read_word_document_structure_body_def
          try_except_def succeeded_def is_subclass_def)
  next
    case inner: (Inr tables_info)
    with assms Inr rn show ?thesis
      by (auto simp add: read_word_document_structure_def read_word_document_structure_body_def
          try_except_def Let_def)
  qed
qed

text \<open>
  C4.  When \<open>read_word_document_structure\<close> reports success, the archive was read and the
  result lists one entry for every \<^verbatim>\<open>w:tbl\<close> of the document, in document order.  In each
  entry \<^verbatim>\<open>column_widths\<close> is the list of the \<^verbatim>\<open>w:w\<close> values of the \<^verbatim>\<open>w:gridCol\<close> children
  of the table's \<^verbatim>\<open>w:tblGrid\<close>, \<^verbatim>\<open>column_widths_source\<close> is \<^verbatim>\<open>"tblGrid"\<close> when the table
  has a \<^verbatim>\<open>w:tblGrid\<close> (and null when it has none), \<^verbatim>\<open>row_count\<close> is the number of its
  \<^verbatim>\<open>w:tr\<close> elements, and \<^verbatim>\<open>has_explicit_row_heights\<close> is true exactly when some row has a
  \<^verbatim>\<open>w:trHeight\<close> in its \<^verbatim>\<open>w:trPr\<close>.
\<close>

text \<open>
  C4.  When \<open>read_word_document_structure\<close> reports success, the archive was read and the
  result lists one entry for every \<^verbatim>\<open>w:tbl\<close> of the document, in document order.  In each
  entry \<^verbatim>\<open>column_widths\<close> is the list of the \<^verbatim>\<open>w:w\<close> values of the \<^verbatim>\<open>w:gridCol\<close> children
  of the table's \<^verbatim>\<open>w:tblGrid\<close>, \<^verbatim>\<open>column_widths_source\<close> is \<^verbatim>\<open>"tblGrid"\<close> when the table
  has a \<^verbatim>\<open>w:tblGrid\<close> (and null when it has none), \<^verbatim>\<open>row_count\<close> is the number of its
  \<^verbatim>\<open>w:tr\<close> elements, and \<^verbatim>\<open>has_explicit_row_heights\<close> is true exactly when some row has a
  \<^verbatim>\<open>w:trHeight\<close> in its \<^verbatim>\<open>w:trPr\<close>.
\<close>

theorem read_structure_direct_extraction:
  fixes L :: "('w, 'z) stdlib_scheme"
  assumes "read_word_document_structure L fp s = (Inr r, s')" and "succeeded r"
  shows "\<exists>root names infos.
           zip_document_xml L (world s) fp = Inr (root, names)
           \<and> map_of r ''tables_count'' = Some (PInt (int (length (findall_desc root ''w:tbl''))))
           \<and> map_of r ''tables'' = Some (PList (map PDict infos))
           \<and> length infos = length (findall_desc root ''w:tbl'')
           \<and> (\<forall>i < length infos.
                 (\<exists>ws. map_of (infos ! i) ''column_widths'' = Some (PList (map PInt ws))
                        \<and> map spec_width (spec_grid_cols (findall_desc root ''w:tbl'' ! i)) = map Some ws)
                 \<and> map_of (infos ! i) ''column_widths_source''
                     = Some (if find_child (findall_desc root ''w:tbl'' ! i) ''w:tblGrid'' = None
                             then PNone else PStr ''tblGrid'')
                 \<and> map_of (infos ! i) ''row_count''
                     = Some (PInt (int (spec_row_count (findall_desc root ''w:tbl'' ! i))))
                 \<and> map_of (infos ! i) ''has_explicit_row_heights''
                     = Some (PBool (spec_has_row_heights (findall_desc root ''w:tbl'' ! i))))"
proof -
  from read_structure_success [OF assms] obtain root names tables_info where
    z: "zip_document_xml L (world s) fp = Inr (root, names)" and
    l: "for_each table_step (enumerate_from 0 (findall_desc root ''w:tbl'')) [] = Inr tables_info" and
    r: "map_of r ''tables'' = Some (PList tables_info)"
       "map_of r ''tables_count'' = Some (PInt (int (length tables_info)))"
    by auto
  from tables_loop_infos [OF l] obtain infos where
    t: "tables_info = map PDict infos" and
    len: "length infos = length (findall_desc root ''w:tbl'')" and
    each: "\<forall>i < length (findall_desc root ''w:tbl''). table_info i (findall_desc root ''w:tbl'' ! i) = Inr (infos ! i)"
    by auto
  have "\<forall>i < length infos.
          (\<exists>ws. map_of (infos ! i) ''column_widths'' = Some (PList (map PInt ws))
                 \<and> map spec_width (spec_grid_cols (findall_desc root ''w:tbl'' ! i)) = map Some ws)
          \<and> map_of (infos ! i) ''column_widths_source''
              = Some (if find_child (findall_desc root ''w:tbl'' ! i) ''w:tblGrid'' = None
                      then PNone else PStr ''tblGrid'')
          \<and> map_of (infos ! i) ''row_count''
              = Some (PInt (int (spec_row_count (findall_desc root ''w:tbl'' ! i))))
          \<and> map_of (infos ! i) ''has_explicit_row_heights''
              = Some (PBool (spec_has_row_heights (findall_desc root ''w:tbl'' ! i)))"
  proof (intro allI impI)
    fix i assume "i < length infos"
    with each len have "table_info i (findall_desc root ''w:tbl'' ! i) = Inr (infos ! i)"
      by simp
    then show "(\<exists>ws. map_of (infos ! i) ''column_widths'' = Some (PList (map PInt ws))
                 \<and> map spec_width (spec_grid_cols (findall_desc root ''w:tbl'' ! i)) = map Some ws)
          \<and> map_of (infos ! i) ''column_widths_source''
              = Some (if find_child (findall_desc root ''w:tbl'' ! i) ''w:tblGrid'' = None
                      then PNone else PStr ''tblGrid'')
          \<and> map_of (infos ! i) ''row_count''
              = Some (PInt (int (spec_row_count (findall_desc root ''w:tbl'' ! i))))
          \<and> map_of (infos ! i) ''has_explicit_row_heights''
              = Some (PBool (spec_has_row_heights (findall_desc root ''w:tbl'' ! i)))"
      by (rule table_info_fields)
  qed
  with z r t len show ?thesis by (intro exI [of _ root] exI [of _ names] exI [of _ infos]) simp
qed

lemma read_one_docx:
  "read_word_document_structure (ref_std []) ''/w/one.docx'' word_state = (Inr one_docx_structure, word_state)"
  by code_simp

theorem read_structure_direct_extraction_witness:
  "read_word_document_structure (ref_std []) ''/w/one.docx'' word_state = (Inr one_docx_structure, word_state)
   \<and> succeeded one_docx_structure
   \<and> (\<exists>infos. map_of one_docx_structure ''tables'' = Some (PList (map PDict infos))
         \<and> length infos = 1
         \<and> map_of (infos ! 0) ''column_widths'' = Some (PList [PInt 2000, PInt 3000])
         \<and> map spec_width (spec_grid_cols (sample_table ''x'' ''y'')) = [Some 2000, Some 3000]
         \<and> map_of (infos ! 0) ''column_widths_source'' = Some (PStr ''tblGrid'')
         \<and> map_of (infos ! 0) ''row_count'' = Some (PInt 2)
         \<and> spec_row_count (sample_table ''x'' ''y'') = 2
         \<and> map_of (infos ! 0) ''has_explicit_row_heights'' = Some (PBool True)
         \<and> spec_has_row_heights (sample_table ''x'' ''y''))"
proof -
  have ok: "succeeded one_docx_structure"
    by (simp add: succeeded_def one_docx_structure_def)
  have tables: "findall_desc (sample_root ''Report'' ''x'' ''y'') ''w:tbl'' = [sample_table ''x'' ''y'']"
    by code_simp
  have zip: "zip_document_xml (ref_std []) (world word_state) ''/w/one.docx''
               = Inr (sample_root ''Report'' ''x'' ''y'', sample_names)"
    by code_simp
  have grid: "find_child (sample_table ''x'' ''y'') ''w:tblGrid'' \<noteq> None"
    by code_simp
  have widths: "map spec_width (spec_grid_cols (sample_table ''x'' ''y'')) = [Some 2000, Some 3000]"
    by code_simp
  have rows: "spec_row_count (sample_table ''x'' ''y'') = 2"
    by code_simp
  have heights: "spec_has_row_heights (sample_table ''x'' ''y'')"
    by code_simp
  from read_structure_direct_extraction [OF read_one_docx ok] zip tables
  obtain infos where
    i: "map_of one_docx_structure ''tables'' = Some (PList (map PDict infos))" "length infos = 1"
    and w: "\<exists>ws. map_of (infos ! 0) ''column_widths'' = Some (PList (map PInt ws))
                \<and> map spec_width (spec_grid_cols (sample_table ''x'' ''y'')) = map Some ws"
    and o: "map_of (infos ! 0) ''column_widths_source''
              = Some (if find_child (sample_table ''x'' ''y'') ''w:tblGrid'' = None then PNone else PStr ''tblGrid'')"
         "map_of (infos ! 0) ''row_count'' = Some (PInt (int (spec_row_count (sample_table ''x'' ''y''))))"
         "map_of (infos ! 0) ''has_explicit_row_heights'' = Some (PBool (spec_has_row_heights (sample_table ''x'' ''y'')))"
    by auto
  from w obtain ws where a: "map_of (infos ! 0) ''column_widths'' = Some (PList (map PInt ws))"
    and b: "map spec_width (spec_grid_cols (sample_table ''x'' ''y'')) = map Some ws"
    by blast
  from b widths have "map Some ws = [Some 2000, Some 3000]" by simp
  then have "ws = [2000, 3000]" by (auto simp add: map_eq_Cons_conv)
  with a have cw: "map_of (infos ! 0) ''column_widths'' = Some (PList [PInt 2000, PInt 3000])"
    by simp
  from i cw o grid widths rows heights ok read_one_docx show ?thesis
    by (intro conjI exI [of _ infos]) simp_all
qed

lemma getitem_str_field: "field t k = Some v \<Longrightarrow> getitem_str t k = Inr v"
  by (cases t) (simp_all add: field_def getitem_str_def dict_getitem_def)

lemma table_differences_geometry:
  assumes "field t1 ''column_widths'' = Some c1" "field t2 ''column_widths'' = Some c2"
    and "field t1 ''column_widths_source'' = Some s1" "field t2 ''column_widths_source'' = Some s2"
    and "field t1 ''has_explicit_row_heights'' = Some h1" "field t2 ''has_explicit_row_heights'' = Some h2"
    and "field t1 ''row_count'' = Some r1" "field t2 ''row_count'' = Some r2"
  shows "\<exists>ds. table_differences t1 t2 = Inr ds \<and> (ds = [] \<longleftrightarrow> same_geometry t1 t2)"
  using assms
  by (simp add: table_differences_def then_do_def getitem_str_field same_geometry_def)

lemma table_differences_entry:
  assumes "entry t1" "entry t2"
  shows "\<exists>ds. table_differences t1 t2 = Inr ds \<and> (ds = [] \<longleftrightarrow> same_geometry t1 t2)"
  using assms unfolding entry_def by (auto intro!: table_differences_geometry)

lemma compare_step_entry:
  assumes "map_of d1 ''tables'' = Some (PList ts1)" "map_of d2 ''tables'' = Some (PList ts2)"
    and "i < length ts1" "i < length ts2" "entry (ts1 ! i)" "entry (ts2 ! i)"
  shows "\<exists>out. compare_step d1 d2 i diffs = Inr out
           \<and> (out = [] \<longleftrightarrow> diffs = [] \<and> same_geometry (ts1 ! i) (ts2 ! i))"
proof -
  from table_differences_entry [OF assms(5,6)] obtain ds where
    "table_differences (ts1 ! i) (ts2 ! i) = Inr ds" "ds = [] \<longleftrightarrow> same_geometry (ts1 ! i) (ts2 ! i)"
    by blast
  with assms(1-4) show ?thesis
    by (auto simp add: compare_step_def then_do_def dict_getitem_def getitem_nat_def)
qed

lemma compare_loop_entries:
  assumes "map_of d1 ''tables'' = Some (PList ts1)" "map_of d2 ''tables'' = Some (PList ts2)"
    and "\<forall>i \<in> set js. i < length ts1 \<and> i < length ts2 \<and> entry (ts1 ! i) \<and> entry (ts2 ! i)"
  shows "\<exists>out. for_each (compare_step d1 d2) js diffs = Inr out
           \<and> (out = [] \<longleftrightarrow> diffs = [] \<and> (\<forall>i \<in> set js. same_geometry (ts1 ! i) (ts2 ! i)))"
  using assms(3)
proof (induction js arbitrary: diffs)
  case Nil
  then show ?case by simp
next
  case (Cons j js)
  from Cons.prems have j: "j < length ts1" "j < length ts2" "entry (ts1 ! j)" "entry (ts2 ! j)"
    by auto
  from compare_step_entry [OF assms(1,2) j] obtain mid where
    m: "compare_step d1 d2 j diffs = Inr mid"
       "mid = [] \<longleftrightarrow> diffs = [] \<and> same_geometry (ts1 ! j) (ts2 ! j)"
    by blast
  from Cons.prems have "\<forall>i \<in> set js. i < length ts1 \<and> i < length ts2 \<and> entry (ts1 ! i) \<and> entry (ts2 ! i)"
    by simp
  from Cons.IH [OF this, of mid] obtain out where
    "for_each (compare_step d1 d2) js mid = Inr out"
    "out = [] \<longleftrightarrow> mid = [] \<and> (\<forall>i \<in> set js. same_geometry (ts1 ! i) (ts2 ! i))"
    by blast
  with m show ?case by auto
qed

lemma table_info_entry: "table_info i tbl = Inr info \<Longrightarrow> entry (PDict info)"
  by (auto simp add: table_info_def then_do_Inr Let_def entry_def field_def)

lemma read_structure_shape:
  fixes L :: "('w, 'z) stdlib_scheme"
  assumes "read_word_document_structure L fp s = (Inr d, s')" and "succeeded d"
  shows "s' = s \<and> (\<exists>ts. map_of d ''tables'' = Some (PList ts)
            \<and> map_of d ''tables_count'' = Some (PInt (int (length ts)))
            \<and> (\<forall>t \<in> set ts. entry t))"
proof -
  from read_structure_success [OF assms] obtain root names tables_info where
    l: "for_each table_step (enumerate_from 0 (findall_desc root ''w:tbl'')) [] = Inr tables_info" and
    s: "s' = s" and
    r: "map_of d ''tables'' = Some (PList tables_info)"
       "map_of d ''tables_count'' = Some (PInt (int (length tables_info)))"
    by auto
  from tables_loop_infos [OF l] obtain infos where
    t: "tables_info = map PDict infos" and
    len: "length infos = length (findall_desc root ''w:tbl'')" and
    each: "\<forall>i < length (findall_desc root ''w:tbl''). table_info i (findall_desc root ''w:tbl'' ! i) = Inr (infos ! i)"
    by auto
  have "\<forall>t \<in> set tables_info. entry t"
  proof
    fix x assume "x \<in> set tables_info"
    with t obtain i where "i < length infos" "x = PDict (infos ! i)"
      by (auto simp add: in_set_conv_nth)
    with each len show "entry x" by (auto intro: table_info_entry)
  qed
  with s r show ?thesis by blast
qed

lemma compare_docs_identical:
  assumes t1: "map_of d1 ''tables'' = Some (PList ts1)"
      "map_of d1 ''tables_count'' = Some (PInt (int (length ts1)))" "\<forall>t \<in> set ts1. entry t"
    and t2: "map_of d2 ''tables'' = Some (PList ts2)"
      "map_of d2 ''tables_count'' = Some (PInt (int (length ts2)))" "\<forall>t \<in> set ts2. entry t"
  shows "\<exists>r. compare_docs d1 d2 fp1 fp2 = Inr r \<and> succeeded r
           \<and> map_of r ''is_identical'' = Some (PBool (spec_identical d1 d2))"
proof -
  let ?m = "min (length ts1) (length ts2)"
  let ?d0 = "if length ts1 \<noteq> length ts2
             then [PDict [(''type'', PStr ''tables_count''), (''doc1'', PInt (int (length ts1))),
                          (''doc2'', PInt (int (length ts2)))]]
             else []"
  have rng: "range_min (PInt (int (length ts1))) (PInt (int (length ts2))) = Inr [0..<?m]"
    by (simp add: range_min_def min_def)
  have "\<forall>i \<in> set [0..<?m]. i < length ts1 \<and> i < length ts2 \<and> entry (ts1 ! i) \<and> entry (ts2 ! i)"
    using t1(3) t2(3) by simp
  from compare_loop_entries [OF t1(1) t2(1) this, of ?d0] obtain out where
    out: "for_each (compare_step d1 d2) [0..<?m] ?d0 = Inr out"
         "out = [] \<longleftrightarrow> ?d0 = [] \<and> (\<forall>i \<in> set [0..<?m]. same_geometry (ts1 ! i) (ts2 ! i))"
    by blast
  have spec: "spec_identical d1 d2 \<longleftrightarrow> out = []"
    using out(2) t1(1,2) t2(1,2) by (auto simp add: spec_identical_def tables_of_def)
  have "compare_docs d1 d2 fp1 fp2 =
          Inr [(''success'', PBool True), (''is_identical'', PBool (out = [])),
               (''filepath1'', PStr fp1), (''filepath2'', PStr fp2),
               (''differences'', PList out),
               (''summary'', PStr (if out = [] then ''Documents are identical in structure''
                   else ''Found '' @ str_nat (length out) @ '' difference(s)''))]"
    using t1(2) t2(2) rng out(1)
    by (simp add: compare_docs_def then_do_def dict_getitem_def Let_def)
  with spec show ?thesis by (simp add: succeeded_def)
qed

lemma compare_of_reads:
  fixes L :: "('w, 'z) stdlib_scheme"
  assumes r1: "read_word_document_structure L fp1 s = (Inr d1, s1)" and ok1: "succeeded d1"
    and r2: "read_word_document_structure L fp2 s1 = (Inr d2, s2)" and ok2: "succeeded d2"
  shows "\<exists>r. compare_word_documents L fp1 fp2 s = (Inr r, s2) \<and> succeeded r
           \<and> map_of r ''is_identical'' = Some (PBool (spec_identical d1 d2))"
proof -
  from read_structure_shape [OF r1 ok1] obtain ts1 where
    t1: "map_of d1 ''tables'' = Some (PList ts1)"
        "map_of d1 ''tables_count'' = Some (PInt (int (length ts1)))" "\<forall>t \<in> set ts1. entry t"
    by blast
  from read_structure_shape [OF r2 ok2] obtain ts2 where
    t2: "map_of d2 ''tables'' = Some (PList ts2)"
        "map_of d2 ''tables_count'' = Some (PInt (int (length ts2)))" "\<forall>t \<in> set ts2. entry t"
    by blast
  from compare_docs_identical [OF t1 t2, of fp1 fp2] obtain r where
    r: "compare_docs d1 d2 fp1 fp2 = Inr r" "succeeded r"
       "map_of r ''is_identical'' = Some (PBool (spec_identical d1 d2))"
    by blast
  have "compare_word_documents L fp1 fp2 s = (Inr r, s2)"
    using r1 r2 ok1 ok2 r(1)
    by (simp add: compare_word_documents_def compare_word_documents_body_def try_except_def
        succeeded_def dict_get_def)
  with r show ?thesis by blast
qed

lemma same_geometry_tables:
  assumes "table_info i t1 = Inr i1" "table_info j t2 = Inr i2"
  shows "same_geometry (PDict i1) (PDict i2) \<longleftrightarrow> geometry t1 = geometry t2"
proof -
  from table_info_fields [OF assms(1)] obtain ws1 where
    a: "map_of i1 ''column_widths'' = Some (PList (map PInt ws1))"
       "map spec_width (spec_grid_cols t1) = map Some ws1"
       "map_of i1 ''row_count'' = Some (PInt (int (spec_row_count t1)))"
       "map_of i1 ''has_explicit_row_heights'' = Some (PBool (spec_has_row_heights t1))"
    by blast
  from table_info_fields [OF assms(2)] obtain ws2 where
    b: "map_of i2 ''column_widths'' = Some (PList (map PInt ws2))"
       "map spec_width (spec_grid_cols t2) = map Some ws2"
       "map_of i2 ''row_count'' = Some (PInt (int (spec_row_count t2)))"
       "map_of i2 ''has_explicit_row_heights'' = Some (PBool (spec_has_row_heights t2))"
    by blast
  have "map PInt ws1 = map PInt ws2 \<longleftrightarrow> map Some ws1 = map Some ws2"
    by (simp add: inj_map_eq_map inj_on_def)
  with a b show ?thesis
    by (auto simp add: same_geometry_def field_def geometry_def)
qed

lemma read_structure_tables:
  fixes L :: "('w, 'z) stdlib_scheme"
  assumes "read_word_document_structure L fp s = (Inr d, s')" and "succeeded d"
  shows "\<exists>root names infos. zip_document_xml L (world s) fp = Inr (root, names)
           \<and> map_of d ''tables'' = Some (PList (map PDict infos))
           \<and> map_of d ''tables_count'' = Some (PInt (int (length infos)))
           \<and> length infos = length (findall_desc root ''w:tbl'')
           \<and> (\<forall>i < length infos. table_info i (findall_desc root ''w:tbl'' ! i) = Inr (infos ! i))"
proof -
  from read_structure_success [OF assms] obtain root names tables_info where
    z: "zip_document_xml L (world s) fp = Inr (root, names)" and
    l: "for_each table_step (enumerate_from 0 (findall_desc root ''w:tbl'')) [] = Inr tables_info" and
    r: "map_of d ''tables'' = Some (PList tables_info)"
       "map_of d ''tables_count'' = Some (PInt (int (length tables_info)))"
    by auto
  from tables_loop_infos [OF l] obtain infos where
    "tables_info = map PDict infos" "length infos = length (findall_desc root ''w:tbl'')"
    "\<forall>i < length (findall_desc root ''w:tbl''). table_info i (findall_desc root ''w:tbl'' ! i) = Inr (infos ! i)"
    by auto
  with z r show ?thesis by (intro exI [of _ root] exI [of _ names] exI [of _ infos]) simp
qed

lemma spec_identical_geometry:
  assumes a: "map_of d1 ''tables'' = Some (PList (map PDict infos1))"
      "map_of d1 ''tables_count'' = Some (PInt (int (length infos1)))"
      "length infos1 = length T1" "\<forall>i < length infos1. table_info i (T1 ! i) = Inr (infos1 ! i)"
    and b: "map_of d2 ''tables'' = Some (PList (map PDict infos2))"
      "map_of d2 ''tables_count'' = Some (PInt (int (length infos2)))"
      "length infos2 = length T2" "\<forall>i < length infos2. table_info i (T2 ! i) = Inr (infos2 ! i)"
  shows "spec_identical d1 d2 \<longleftrightarrow>
           length T1 = length T2 \<and> (\<forall>i < min (length T1) (length T2). geometry (T1 ! i) = geometry (T2 ! i))"
proof -
  have "same_geometry (PDict (infos1 ! i)) (PDict (infos2 ! i)) \<longleftrightarrow> geometry (T1 ! i) = geometry (T2 ! i)"
    if "i < length T1" "i < length T2" for i
    using that a(3,4) b(3,4) by (intro same_geometry_tables) auto
  then show ?thesis
    using a(1,2,3) b(1,2,3) by (auto simp add: spec_identical_def tables_of_def)
qed

text \<open>
  C5.  When both documents are readable, \<open>compare_word_documents\<close> succeeds and
  \<^verbatim>\<open>is_identical\<close> is true exactly when the two results have the same \<^verbatim>\<open>tables_count\<close>
  and, for every index below the smaller count, equal \<^verbatim>\<open>column_widths\<close>,
  \<^verbatim>\<open>has_explicit_row_heights\<close> and \<^verbatim>\<open>row_count\<close>.  In terms of the documents: exactly when
  they have the same number of tables and the tables agree, index by index, in their grid
  widths, row count and explicit row heights; nothing else of the documents is looked at.
\<close>

theorem compare_reports_table_geometry:
  fixes L :: "('w, 'z) stdlib_scheme"
  assumes r1: "read_word_document_structure L fp1 s = (Inr d1, s1)" and ok1: "succeeded d1"
    and r2: "read_word_document_structure L fp2 s1 = (Inr d2, s2)" and ok2: "succeeded d2"
  shows "\<exists>r root1 names1 root2 names2.
           compare_word_documents L fp1 fp2 s = (Inr r, s2) \<and> succeeded r
           \<and> map_of r ''is_identical'' = Some (PBool (spec_identical d1 d2))
           \<and> zip_document_xml L (world s) fp1 = Inr (root1, names1)
           \<and> zip_document_xml L (world s) fp2 = Inr (root2, names2)
           \<and> (spec_identical d1 d2 \<longleftrightarrow>
                length (findall_desc root1 ''w:tbl'') = length (findall_desc root2 ''w:tbl'')
                \<and> (\<forall>i < min (length (findall_desc root1 ''w:tbl'')) (length (findall_desc root2 ''w:tbl'')).
                      geometry (findall_desc root1 ''w:tbl'' ! i) = geometry (findall_desc root2 ''w:tbl'' ! i)))"
proof -
  from compare_of_reads [OF r1 ok1 r2 ok2] obtain r where
    r: "compare_word_documents L fp1 fp2 s = (Inr r, s2)" "succeeded r"
       "map_of r ''is_identical'' = Some (PBool (spec_identical d1 d2))"
    by blast
  from read_structure_shape [OF r1 ok1] have s1: "s1 = s" by simp
  from read_structure_tables [OF r1 ok1] obtain root1 names1 infos1 where
    a: "zip_document_xml L (world s) fp1 = Inr (root1, names1)"
       "map_of d1 ''tables'' = Some (PList (map PDict infos1))"
       "map_of d1 ''tables_count'' = Some (PInt (int (length infos1)))"
       "length infos1 = length (findall_desc root1 ''w:tbl'')"
       "\<forall>i < length infos1. table_info i (findall_desc root1 ''w:tbl'' ! i) = Inr (infos1 ! i)"
    by blast
  from read_structure_tables [OF r2 ok2] s1 obtain root2 names2 infos2 where
    b: "zip_document_xml L (world s) fp2 = Inr (root2, names2)"
       "map_of d2 ''tables'' = Some (PList (map PDict infos2))"
       "map_of d2 ''tables_count'' = Some (PInt (int (length infos2)))"
       "length infos2 = length (findall_desc root2 ''w:tbl'')"
       "\<forall>i < length infos2. table_info i (findall_desc root2 ''w:tbl'' ! i) = Inr (infos2 ! i)"
    by auto
  from spec_identical_geometry [OF a(2-5) b(2-5)] r a(1) b(1) show ?thesis
    by (intro exI [of _ r] exI [of _ root1] exI [of _ names1] exI [of _ root2] exI [of _ names2]) simp
qed

lemma read_two_docx:
  "read_word_document_structure (ref_std []) ''/w/two.docx'' word_state = (Inr two_docx_structure, word_state)"
  by code_simp

theorem compare_reports_table_geometry_witness:
  "read_word_document_structure (ref_std []) ''/w/one.docx'' word_state = (Inr one_docx_structure, word_state)
   \<and> read_word_document_structure (ref_std []) ''/w/two.docx'' word_state = (Inr two_docx_structure, word_state)
   \<and> sample_root ''Report'' ''x'' ''y'' \<noteq> sample_root ''Minutes'' ''p'' ''q''
   \<and> (\<exists>r. compare_word_documents (ref_std []) ''/w/one.docx'' ''/w/two.docx'' word_state = (Inr r, word_state)
           \<and> succeeded r \<and> map_of r ''is_identical'' = Some (PBool True))"
proof -
  have ok1: "succeeded one_docx_structure"
    by (simp add: succeeded_def one_docx_structure_def)
  have ok2: "succeeded two_docx_structure"
    by (simp add: succeeded_def two_docx_structure_def)
  have z1: "zip_document_xml (ref_std []) (world word_state) ''/w/one.docx''
              = Inr (sample_root ''Report'' ''x'' ''y'', sample_names)"
    by code_simp
  have z2: "zip_document_xml (ref_std []) (world word_state) ''/w/two.docx''
              = Inr (sample_root ''Minutes'' ''p'' ''q'', [''word/document.xml''])"
    by code_simp
  have t1: "findall_desc (sample_root ''Report'' ''x'' ''y'') ''w:tbl'' = [sample_table ''x'' ''y'']"
    by code_simp
  have t2: "findall_desc (sample_root ''Minutes'' ''p'' ''q'') ''w:tbl'' = [sample_table ''p'' ''q'']"
    by code_simp
  have g: "geometry (sample_table ''x'' ''y'') = geometry (sample_table ''p'' ''q'')"
    by code_simp
  have ne: "sample_root ''Report'' ''x'' ''y'' \<noteq> sample_root ''Minutes'' ''p'' ''q''"
    by code_simp
  from compare_reports_table_geometry [OF read_one_docx ok1 read_two_docx ok2]
  obtain r root1 names1 root2 names2 where
    r: "compare_word_documents (ref_std []) ''/w/one.docx'' ''/w/two.docx'' word_state = (Inr r, word_state)"
       "succeeded r"
       "map_of r ''is_identical'' = Some (PBool (spec_identical one_docx_structure two_docx_structure))"
    and zz1: "zip_document_xml (ref_std []) (world word_state) ''/w/one.docx'' = Inr (root1, names1)"
    and zz2: "zip_document_xml (ref_std []) (world word_state) ''/w/two.docx'' = Inr (root2, names2)"
    and e: "spec_identical one_docx_structure two_docx_structure \<longleftrightarrow>
              length (findall_desc root1 ''w:tbl'') = length (findall_desc root2 ''w:tbl'')
              \<and> (\<forall>i < min (length (findall_desc root1 ''w:tbl'')) (length (findall_desc root2 ''w:tbl'')).
                    geometry (findall_desc root1 ''w:tbl'' ! i) = geometry (findall_desc root2 ''w:tbl'' ! i))"
    by blast
  from zz1 z1 have r1: "root1 = sample_root ''Report'' ''x'' ''y''" by simp
  from zz2 z2 have r2: "root2 = sample_root ''Minutes'' ''p'' ''q''" by simp
  from e t1 t2 g have "spec_identical one_docx_structure two_docx_structure"
    unfolding r1 r2 by simp
  with r read_one_docx read_two_docx ne show ?thesis by auto
qed

section \<open>Properties of the Word tools\<close>

lemma for_each_append: "for_each f (xs @ ys) s = then_do (for_each f xs s) (for_each f ys)"
  by (induction xs arbitrary: s) (auto simp add: then_do_def split: sum.splits)

lemma length_paragraph_positions:
  "length (paragraph_positions b) = length (filter (\<lambda>e. tag e = ''w:p'') b)"
proof -
  have "filter (\<lambda>e. tag e = ''w:p'') b = filter (\<lambda>e. tag e = ''w:p'') (map ((!) b) [0..<length b])"
    by (simp add: map_nth)
  also have "\<dots> = map ((!) b) (filter ((\<lambda>e. tag e = ''w:p'') \<circ> (!) b) [0..<length b])"
    by (rule filter_map)
  finally show ?thesis
    by (simp add: paragraph_positions_def comp_def)
qed

lemma out_of_range_step:
  fixes L :: "('w, 'o, 'z) docxlib_scheme"
  assumes "out_of_range_op op doc"
  shows "word_edit_step L op doc = Inr doc"
  using assms
  by (auto simp add: out_of_range_op_def word_edit_step_def index_in_range_def then_do_def
      length_paragraph_positions Let_def)

lemma out_of_range_loop:
  fixes L :: "('w, 'o, 'z) docxlib_scheme"
  assumes "for_each (word_edit_step L) ops1 doc = Inr d1" "out_of_range_op op d1"
  shows "for_each (word_edit_step L) (ops1 @ op # ops2) doc = for_each (word_edit_step L) (ops1 @ ops2) doc"
  using assms by (simp add: for_each_append then_do_def out_of_range_step)

text \<open>
  C8.  An \<^verbatim>\<open>edit_paragraph\<close> or \<^verbatim>\<open>delete_paragraph\<close> operation whose index is negative or
  at least the number of paragraphs the document has when the operation is reached leaves
  the document as it is and raises nothing; the tool then behaves exactly as on the list
  without that operation, so the other operations are applied, and it returns success
  whenever they and the saving of the document succeed.
\<close>

theorem edit_ignores_out_of_range:
  fixes L :: "('w, 'o, 'z) docxlib_scheme"
  assumes "os_path_exists L (world s) fp" and "docx_open L (world s) fp = Inr doc"
    and "for_each (word_edit_step L) ops1 doc = Inr d1" and "out_of_range_op op d1"
  shows "word_edit_step L op d1 = Inr d1
         \<and> edit_word_document L fp (ops1 @ op # ops2) s = edit_word_document L fp (ops1 @ ops2) s
         \<and> (\<forall>d2 w'. for_each (word_edit_step L) ops2 d1 = Inr d2
                      \<and> docx_save L d2 fp (world s) = (Inr (), w') \<longrightarrow>
                edit_word_document L fp (ops1 @ op # ops2) s =
                  (Inr [(''success'', PBool True), (''message'', PStr ''Successfully edited Word document''),
                        (''filepath'', PStr fp)], s\<lparr>world := w'\<rparr>))"
proof -
  have step: "word_edit_step L op d1 = Inr d1"
    using assms(4) by (rule out_of_range_step)
  have loop: "for_each (word_edit_step L) (ops1 @ op # ops2) doc = for_each (word_edit_step L) (ops1 @ ops2) doc"
    using assms(3,4) by (rule out_of_range_loop)
  have same: "edit_word_document L fp (ops1 @ op # ops2) s = edit_word_document L fp (ops1 @ ops2) s"
    using assms(1,2) by (simp add: edit_word_document_def edit_word_document_body_def on_value_def loop)
  have "edit_word_document L fp (ops1 @ ops2) s =
          (Inr [(''success'', PBool True), (''message'', PStr ''Successfully edited Word document''),
                (''filepath'', PStr fp)], s\<lparr>world := w'\<rparr>)"
    if "for_each (word_edit_step L) ops2 d1 = Inr d2" "docx_save L d2 fp (world s) = (Inr (), w')" for d2 w'
    using that assms(1,2,3)
    by (simp add: edit_word_document_def edit_word_document_body_def try_except_def on_value_def
        on_write_def for_each_append then_do_def)
  with step same show ?thesis by simp
qed

theorem edit_ignores_out_of_range_witness:
  "out_of_range_op [(''type'', PStr ''delete_paragraph''), (''index'', PInt 2)] \<lparr>body = note_body, package = RParts [''word/document.xml'']\<rparr>
   \<and> edit_word_document (ref_lib []) ''/n/note.docx'' edit_example_ops note_state
       = edit_word_document (ref_lib []) ''/n/note.docx'' [[(''type'', PStr ''add_paragraph''), (''text'', PStr ''three'')]] note_state
   \<and> edit_word_document (ref_lib []) ''/n/note.docx'' edit_example_ops note_state
       = (Inr [(''success'', PBool True), (''message'', PStr ''Successfully edited Word document''),
               (''filepath'', PStr ''/n/note.docx'')],
          note_state\<lparr>world := note_world\<lparr>nodes :=
             [(''/n'', RDir), (''/n/lines.txt'', RFile ''a,b''), (''/n/fixed.xlsx'', RFile ''xlsx''),
              (''/n/note.docx'', RDocx (el ''w:document'' [el ''w:body'' (note_body @ [para ''three''])])
                                  [''word/document.xml''])]\<rparr>\<rparr>)"
proof -
  let ?doc = "\<lparr>body = note_body, package = RParts [''word/document.xml'']\<rparr>"
  let ?op = "[(''type'', PStr ''delete_paragraph''), (''index'', PInt 2)]"
  let ?add = "[(''type'', PStr ''add_paragraph''), (''text'', PStr ''three'')]"
  have e: "os_path_exists (ref_lib []) (world note_state) ''/n/note.docx''"
    by code_simp
  have o: "docx_open (ref_lib []) (world note_state) ''/n/note.docx'' = Inr ?doc"
    by code_simp
  have l: "for_each (word_edit_step (ref_lib [])) [] ?doc = Inr ?doc"
    by simp
  have r: "out_of_range_op ?op ?doc"
    by (simp add: out_of_range_op_def dict_get_def as_int_def note_body_def para_def el_def)
  have a: "for_each (word_edit_step (ref_lib [])) [?add] ?doc = Inr (?doc\<lparr>body := note_body @ [para ''three'']\<rparr>)"
    by code_simp
  have w: "docx_save (ref_lib []) (?doc\<lparr>body := note_body @ [para ''three'']\<rparr>) ''/n/note.docx'' (world note_state)
             = (Inr (), note_world\<lparr>nodes :=
                 [(''/n'', RDir), (''/n/lines.txt'', RFile ''a,b''), (''/n/fixed.xlsx'', RFile ''xlsx''),
                  (''/n/note.docx'', RDocx (el ''w:document'' [el ''w:body'' (note_body @ [para ''three''])])
                                      [''word/document.xml''])]\<rparr>)"
    by code_simp
  note th = edit_ignores_out_of_range [OF e o l r, of "[?add]"]
  from th have s1: "edit_word_document (ref_lib []) ''/n/note.docx'' ([] @ ?op # [?add]) note_state
                    = edit_word_document (ref_lib []) ''/n/note.docx'' ([] @ [?add]) note_state"
    by blast
  from th a w have s2: "edit_word_document (ref_lib []) ''/n/note.docx'' ([] @ ?op # [?add]) note_state
       = (Inr [(''success'', PBool True), (''message'', PStr ''Successfully edited Word document''),
               (''filepath'', PStr ''/n/note.docx'')],
          note_state\<lparr>world := note_world\<lparr>nodes :=
             [(''/n'', RDir), (''/n/lines.txt'', RFile ''a,b''), (''/n/fixed.xlsx'', RFile ''xlsx''),
              (''/n/note.docx'', RDocx (el ''w:document'' [el ''w:body'' (note_body @ [para ''three''])])
                                  [''word/document.xml''])]\<rparr>\<rparr>)"
    by blast
  show ?thesis
    unfolding edit_example_ops_def using r s1 s2 by (intro conjI) (simp_all only: append_Nil)
qed

section \<open>Properties of the Excel tools\<close>

lemma isinstance_Exception: "isinstance e Exception"
  by (cases e) (simp add: is_subclass_def)




section \<open>Properties of the creation and conversion tools\<close>










section \<open>Properties of the server as a whole\<close>

lemma starts_with_append: "starts_with (p @ s) p"
  by (induction p) simp_all

lemma ends_with_append: "ends_with (p @ s) s"
  by (simp add: ends_with_def starts_with_append)

lemma starts_with_prefix: "starts_with a p \<Longrightarrow> starts_with (a @ b) p"
  by (induction a p rule: starts_with.induct) simp_all

lemma ends_with_refl: "ends_with s s"
  using starts_with_append [of "rev s" "[]"] by (simp add: ends_with_def)

lemma ends_with_Cons: "ends_with m s \<Longrightarrow> ends_with (c # m) s"
  by (simp add: ends_with_def starts_with_prefix)

lemma caught:
  assumes "\<And>e. reports_error (F e) e"
  shows "\<exists>r s'. try_except b [(Exception, \<lambda>e s'. (Inr (F e), G e s'))] = (Inr r, s')
           \<and> (\<forall>e s1. b = (Inl e, s1) \<longrightarrow> reports_error r e)"
proof (cases b)
  case (Pair v s1)
  then show ?thesis
    using assms by (cases v) (simp_all add: try_except_def isinstance_Exception)
qed

lemma caught_permission:
  assumes "\<And>e. isinstance e PermissionError \<Longrightarrow> reports_error (P e) e" "\<And>e. reports_error (F e) e"
  shows "\<exists>r s'. try_except b [(PermissionError, \<lambda>e s'. (Inr (P e), s')),
                               (Exception, \<lambda>e s'. (Inr (F e), G e s'))] = (Inr r, s')
           \<and> (\<forall>e s1. b = (Inl e, s1) \<longrightarrow> reports_error r e)"
proof (cases b)
  case (Pair v s1)
  then show ?thesis
    using assms by (cases v) (simp_all add: try_except_def isinstance_Exception)
qed

lemma never_raises:
  fixes L :: "('w, 'o) lib"
  shows "\<exists>r s'. invoke L c s = (Inr r, s') \<and> (\<forall>e s1. invoke_body L c s = (Inl e, s1) \<longrightarrow> reports_error r e)"
    (is "?P c")
proof (cases c)
  case (CreateWordDocument fp d)
  show ?thesis unfolding CreateWordDocument invoke.simps invoke_body.simps create_word_document_def
    by (rule caught) (simp add: reports_error_def failed_def ends_with_Cons ends_with_refl describes_def)
next
  case (ReadWordDocumentStructure fp)
  show ?thesis unfolding ReadWordDocumentStructure invoke.simps invoke_body.simps read_word_document_structure_def
    by (rule caught) (simp add: reports_error_def failed_def ends_with_Cons ends_with_refl describes_def)
next
  case (CompareWordDocuments a b)
  show ?thesis unfolding CompareWordDocuments invoke.simps invoke_body.simps compare_word_documents_def
    by (rule caught) (simp add: reports_error_def failed_def ends_with_Cons ends_with_refl describes_def)
next
  case (CreateFormattedWordDocument a b)
  show ?thesis unfolding CreateFormattedWordDocument invoke.simps invoke_body.simps create_formatted_word_document_def
    by (rule caught) (simp add: reports_error_def failed_def ends_with_Cons ends_with_refl describes_def)
next
  case (EditWordDocument a b)
  show ?thesis unfolding EditWordDocument invoke.simps invoke_body.simps edit_word_document_def
    by (rule caught) (simp add: reports_error_def failed_def ends_with_Cons ends_with_refl describes_def)
next
  case (ConvertTxtToWord a b)
  show ?thesis unfolding ConvertTxtToWord invoke.simps invoke_body.simps convert_txt_to_word_def
    by (rule caught) (simp add: reports_error_def failed_def ends_with_Cons ends_with_refl describes_def)
next
  case (CreateExcelFile a b)
  show ?thesis unfolding CreateExcelFile invoke.simps invoke_body.simps create_excel_file_def
    by (rule caught) (simp add: reports_error_def failed_def ends_with_Cons ends_with_refl describes_def)
next
  case (EditExcelFile a b)
  show ?thesis unfolding EditExcelFile invoke.simps invoke_body.simps edit_excel_file_def
    by (rule caught) (simp add: reports_error_def failed_def ends_with_Cons ends_with_refl describes_def)
next
  case (ConvertCsvToExcel a b)
  show ?thesis unfolding ConvertCsvToExcel invoke.simps invoke_body.simps convert_csv_to_excel_def
    by (rule caught) (simp add: reports_error_def failed_def ends_with_Cons ends_with_refl describes_def)
next
  case (CreatePdfFile a b)
  show ?thesis unfolding CreatePdfFile invoke.simps invoke_body.simps create_pdf_file_def
    by (rule caught) (simp add: reports_error_def failed_def ends_with_Cons ends_with_refl describes_def)
next
  case (ConvertWordToPdf a b)
  show ?thesis unfolding ConvertWordToPdf invoke.simps invoke_body.simps convert_word_to_pdf_def
    by (rule caught) (simp add: reports_error_def failed_def ends_with_Cons ends_with_refl describes_def)
next
  case (DeleteFile a b)
  show ?thesis unfolding DeleteFile invoke.simps invoke_body.simps delete_file_def
    by (rule caught_permission)
      (simp_all add: reports_error_def failed_def ends_with_Cons ends_with_refl describes_def)
next
  case (DeleteDirectory a b)
  show ?thesis unfolding DeleteDirectory invoke.simps invoke_body.simps delete_directory_def
    by (rule caught_permission)
      (simp_all add: reports_error_def failed_def ends_with_Cons ends_with_refl describes_def)
qed

lemma invalid_json_reported:
  fixes L :: "('w, 'o, 'z) docxlib_scheme"
  assumes "json_loads L d = Inl e"
  shows "\<exists>r s'. create_formatted_word_document L fp d s = (Inr r, s') \<and> reports_error r e"
proof (cases "isinstance e JSONDecodeError")
  case True
  have "reports_error [(''success'', PBool False), (''message'', PStr (''Invalid JSON format: '' @ str_exn e)),
                       (''filepath'', PNone)] e"
    by (simp add: reports_error_def failed_def ends_with_Cons ends_with_refl describes_def)
  with True assms show ?thesis
    by (simp add: create_formatted_word_document_def create_formatted_word_document_body_def try_except_def)
next
  case False
  have "reports_error [(''success'', PBool False),
                       (''message'', PStr (''Error creating formatted Word document: '' @ str_exn e)),
                       (''filepath'', PNone)] e"
    by (simp add: reports_error_def failed_def ends_with_Cons ends_with_refl describes_def)
  with False assms show ?thesis
    by (simp add: create_formatted_word_document_def create_formatted_word_document_body_def try_except_def
        isinstance_Exception)
qed

text \<open>
  C1.  A call of any of the thirteen tools, with any arguments and in any state, returns a
  dictionary: no exception leaves the tool.  Whenever the \<^verbatim>\<open>try\<close> block of the tool raises
  an exception, raised by a library call or by the tool's own handling of its arguments, the
  dictionary says failure and its message is a string that describes the exception; the same
  holds when the JSON text given to \<open>create_formatted_word_document\<close> is rejected, which that
  tool handles inside its \<^verbatim>\<open>try\<close> block.
\<close>

theorem tools_never_raise:
  fixes L :: "('w, 'o) lib"
  shows "\<exists>r s'. invoke L c s = (Inr r, s')
           \<and> (\<forall>e s1. invoke_body L c s = (Inl e, s1) \<longrightarrow> reports_error r e)
           \<and> (\<forall>fp d e. c = CreateFormattedWordDocument fp d \<longrightarrow> json_loads L d = Inl e \<longrightarrow> reports_error r e)"
proof -
  from never_raises [of L c s] obtain r s' where
    a: "invoke L c s = (Inr r, s')" and b: "\<forall>e s1. invoke_body L c s = (Inl e, s1) \<longrightarrow> reports_error r e"
    by blast
  have "reports_error r e" if "c = CreateFormattedWordDocument fp d" "json_loads L d = Inl e" for fp d e
    using invalid_json_reported [OF that(2), of fp s] a that(1) by auto
  with a b show ?thesis by blast
qed

lemma same_world_logs: fixes s1 :: "'w state" shows "world s1 = world s2 \<Longrightarrow> \<exists>l. s2 = s1\<lparr>logs := l\<rparr>"
  by (rule exI [of _ "logs s2"]) simp

lemma same_create_word_document:
  fixes L :: "('w, 'o) lib"
  shows "same_outcome (create_word_document L a b s) (create_word_document L a b (s\<lparr>logs := l\<rparr>))"
  by (auto simp add: same_outcome_def create_word_document_def create_word_document_body_def try_except_def
     on_value_def on_write_def logger_def isinstance_Exception Let_def split: sum.splits prod.splits if_splits)

lemma same_read_word_document_structure:
  fixes L :: "('w, 'o) lib"
  shows "same_outcome (read_word_document_structure L a s) (read_word_document_structure L a (s\<lparr>logs := l\<rparr>))"
  by (auto simp add: same_outcome_def read_word_document_structure_def read_word_document_structure_body_def try_except_def
     on_value_def on_write_def logger_def isinstance_Exception Let_def split: sum.splits prod.splits if_splits)

lemma same_create_formatted_word_document:
  fixes L :: "('w, 'o) lib"
  shows "same_outcome (create_formatted_word_document L a b s) (create_formatted_word_document L a b (s\<lparr>logs := l\<rparr>))"
  by (auto simp add: same_outcome_def create_formatted_word_document_def create_formatted_word_document_body_def try_except_def
     on_value_def on_write_def logger_def isinstance_Exception Let_def split: sum.splits prod.splits if_splits)

lemma same_edit_word_document:
  fixes L :: "('w, 'o) lib"
  shows "same_outcome (edit_word_document L a b s) (edit_word_document L a b (s\<lparr>logs := l\<rparr>))"
  by (auto simp add: same_outcome_def edit_word_document_def edit_word_document_body_def try_except_def
     on_value_def on_write_def logger_def isinstance_Exception Let_def split: sum.splits prod.splits if_splits)

lemma same_convert_txt_to_word:
  fixes L :: "('w, 'o) lib"
  shows "same_outcome (convert_txt_to_word L a b s) (convert_txt_to_word L a b (s\<lparr>logs := l\<rparr>))"
  by (auto simp add: same_outcome_def convert_txt_to_word_def convert_txt_to_word_body_def try_except_def
     on_value_def on_write_def logger_def isinstance_Exception Let_def split: sum.splits prod.splits if_splits)

lemma same_create_excel_file:
  fixes L :: "('w, 'o) lib"
  shows "same_outcome (create_excel_file L a b s) (create_excel_file L a b (s\<lparr>logs := l\<rparr>))"
  by (auto simp add: same_outcome_def create_excel_file_def create_excel_file_body_def try_except_def
     on_value_def on_write_def logger_def isinstance_Exception Let_def split: sum.splits prod.splits if_splits)

lemma same_edit_excel_file:
  fixes L :: "('w, 'o) lib"
  shows "same_outcome (edit_excel_file L a b s) (edit_excel_file L a b (s\<lparr>logs := l\<rparr>))"
  by (auto simp add: same_outcome_def edit_excel_file_def edit_excel_file_body_def try_except_def
     on_value_def on_write_def logger_def isinstance_Exception Let_def split: sum.splits prod.splits if_splits)

lemma same_convert_csv_to_excel:
  fixes L :: "('w, 'o) lib"
  shows "same_outcome (convert_csv_to_excel L a b s) (convert_csv_to_excel L a b (s\<lparr>logs := l\<rparr>))"
  by (auto simp add: same_outcome_def convert_csv_to_excel_def convert_csv_to_excel_body_def try_except_def
     on_value_def on_write_def logger_def isinstance_Exception Let_def split: sum.splits prod.splits if_splits)

lemma same_create_pdf_file:
  fixes L :: "('w, 'o) lib"
  shows "same_outcome (create_pdf_file L a b s) (create_pdf_file L a b (s\<lparr>logs := l\<rparr>))"
  by (auto simp add: same_outcome_def create_pdf_file_def create_pdf_file_body_def try_except_def
     on_value_def on_write_def logger_def isinstance_Exception Let_def split: sum.splits prod.splits if_splits)

lemma same_convert_word_to_pdf:
  fixes L :: "('w, 'o) lib"
  shows "same_outcome (convert_word_to_pdf L a b s) (convert_word_to_pdf L a b (s\<lparr>logs := l\<rparr>))"
  by (auto simp add: same_outcome_def convert_word_to_pdf_def convert_word_to_pdf_body_def try_except_def
     on_value_def on_write_def logger_def isinstance_Exception Let_def split: sum.splits prod.splits if_splits)

lemma same_delete_file:
  fixes L :: "('w, 'o) lib"
  shows "same_outcome (delete_file L a b s) (delete_file L a b (s\<lparr>logs := l\<rparr>))"
  by (auto simp add: same_outcome_def delete_file_def delete_file_body_def try_except_def
     on_value_def on_write_def logger_def isinstance_Exception Let_def split: sum.splits prod.splits if_splits)

lemma same_delete_directory:
  fixes L :: "('w, 'o) lib"
  shows "same_outcome (delete_directory L a b s) (delete_directory L a b (s\<lparr>logs := l\<rparr>))"
  by (auto simp add: same_outcome_def delete_directory_def delete_directory_body_def try_except_def
     on_value_def on_write_def logger_def isinstance_Exception Let_def split: sum.splits prod.splits if_splits)

lemma same_compare_word_documents:
  fixes L :: "('w, 'o) lib"
  shows "same_outcome (compare_word_documents L a b s) (compare_word_documents L a b (s\<lparr>logs := l\<rparr>))"
proof -
  obtain r1 t1 where r1: "read_word_document_structure L a s = (r1, t1)" by force
  with same_read_word_document_structure [of L a s l]
  obtain t1' where r1': "read_word_document_structure L a (s\<lparr>logs := l\<rparr>) = (r1, t1')" "world t1' = world t1"
    by (cases "read_word_document_structure L a (s\<lparr>logs := l\<rparr>)") (auto simp add: same_outcome_def)
  from same_world_logs [of t1 t1'] r1'(2) obtain l1 where t1': "t1' = t1\<lparr>logs := l1\<rparr>" by auto
  obtain r2 t2 where r2: "read_word_document_structure L b t1 = (r2, t2)" by force
  with same_read_word_document_structure [of L b t1 l1]
  obtain t2' where r2': "read_word_document_structure L b (t1\<lparr>logs := l1\<rparr>) = (r2, t2')" "world t2' = world t2"
    by (cases "read_word_document_structure L b (t1\<lparr>logs := l1\<rparr>)") (auto simp add: same_outcome_def)
  show ?thesis
    using r1 r1' r2 r2' t1'
    by (auto simp add: same_outcome_def compare_word_documents_def compare_word_documents_body_def try_except_def
        logger_def isinstance_Exception split: sum.splits)
qed

text \<open>
  C7.  The tools keep no state of their own.  Take the same call after any two sequences of
  earlier calls: when the two sequences have left the same files, the call returns the same
  result and leaves the same files.  In particular (with empty sequences) two invocations with
  the same arguments against the same filesystem state return equal results.  What differs
  between the two states is the log only, which no tool reads.
\<close>

theorem tools_stateless:
  fixes L :: "('w, 'o) lib" and s1 s2 :: "'w state"
  assumes "world (run_calls L before1 s1) = world (run_calls L before2 s2)"
  shows "fst (invoke L c (run_calls L before1 s1)) = fst (invoke L c (run_calls L before2 s2))
         \<and> world (snd (invoke L c (run_calls L before1 s1))) = world (snd (invoke L c (run_calls L before2 s2)))"
proof -
  define t1 where "t1 = run_calls L before1 s1"
  define t2 where "t2 = run_calls L before2 s2"
  from assms same_world_logs [of t1 t2] obtain l where l: "t2 = t1\<lparr>logs := l\<rparr>"
    by (auto simp add: t1_def t2_def)
  have "same_outcome (invoke L c t1) (invoke L c (t1\<lparr>logs := l\<rparr>))"
    by (cases c)
      (simp_all add: same_create_word_document same_read_word_document_structure
        same_compare_word_documents same_create_formatted_word_document same_edit_word_document
        same_convert_txt_to_word same_create_excel_file same_edit_excel_file same_convert_csv_to_excel
        same_create_pdf_file same_convert_word_to_pdf same_delete_file same_delete_directory)
  then show ?thesis
    unfolding t1_def [symmetric] t2_def [symmetric] l by (simp add: same_outcome_def)
qed

theorem tools_stateless_witness:
  "world (run_calls (ref_lib []) [] word_state)
     = world (run_calls (ref_lib []) [ReadWordDocumentStructure ''/w/bad.docx''] word_state)
   \<and> logs (run_calls (ref_lib []) [] word_state) = []
   \<and> logs (run_calls (ref_lib []) [ReadWordDocumentStructure ''/w/bad.docx''] word_state)
       = [(ERROR, ''Error analyzing Word document: File is not a zip file'')]
   \<and> fst (invoke (ref_lib []) (ReadWordDocumentStructure ''/w/one.docx'') (run_calls (ref_lib []) [] word_state))
       = fst (invoke (ref_lib []) (ReadWordDocumentStructure ''/w/one.docx'')
                (run_calls (ref_lib []) [ReadWordDocumentStructure ''/w/bad.docx''] word_state))
   \<and> fst (invoke (ref_lib []) (ReadWordDocumentStructure ''/w/one.docx'') (run_calls (ref_lib []) [] word_state))
       = Inr one_docx_structure"
proof -
  have w: "world (run_calls (ref_lib []) [] word_state)
             = world (run_calls (ref_lib []) [ReadWordDocumentStructure ''/w/bad.docx''] word_state)"
    by code_simp
  have l1: "logs (run_calls (ref_lib []) [] word_state) = []"
    by code_simp
  have l2: "logs (run_calls (ref_lib []) [ReadWordDocumentStructure ''/w/bad.docx''] word_state)
       = [(ERROR, ''Error analyzing Word document: File is not a zip file'')]"
    by code_simp
  have r: "fst (invoke (ref_lib []) (ReadWordDocumentStructure ''/w/one.docx'') (run_calls (ref_lib []) [] word_state))
       = Inr one_docx_structure"
    by code_simp
  from tools_stateless [OF w, of "ReadWordDocumentStructure ''/w/one.docx''"] w l1 l2 r
  show ?thesis by blast
qed

theorem tools_never_raise_witness:
  "invoke_body (ref_lib []) (EditWordDocument ''/w/bad.docx'' []) word_state
     = (Inl (Exn (LibraryError ''BadZipFile'') ''File is not a zip file''), word_state)
   \<and> (\<exists>r s'. invoke (ref_lib []) (EditWordDocument ''/w/bad.docx'' []) word_state = (Inr r, s')
         \<and> reports_error r (Exn (LibraryError ''BadZipFile'') ''File is not a zip file''))
   \<and> json_loads (ref_lib []) ''{'' = Inl (Exn JSONDecodeError ''Expecting value: line 1 column 1 (char 0)'')
   \<and> (\<exists>r s'. invoke (ref_lib []) (CreateFormattedWordDocument ''/w/new.docx'' ''{'') word_state = (Inr r, s')
         \<and> reports_error r (Exn JSONDecodeError ''Expecting value: line 1 column 1 (char 0)''))"
proof -
  have b: "invoke_body (ref_lib []) (EditWordDocument ''/w/bad.docx'' []) word_state
     = (Inl (Exn (LibraryError ''BadZipFile'') ''File is not a zip file''), word_state)"
    by code_simp
  have j: "json_loads (ref_lib []) ''{'' = Inl (Exn JSONDecodeError ''Expecting value: line 1 column 1 (char 0)'')"
    by code_simp
  from tools_never_raise [of "ref_lib []" "EditWordDocument ''/w/bad.docx'' []" word_state] b
  have 1: "\<exists>r s'. invoke (ref_lib []) (EditWordDocument ''/w/bad.docx'' []) word_state = (Inr r, s')
         \<and> reports_error r (Exn (LibraryError ''BadZipFile'') ''File is not a zip file'')"
    by blast
  from tools_never_raise [of "ref_lib []" "CreateFormattedWordDocument ''/w/new.docx'' ''{''" word_state] j
  have 2: "\<exists>r s'. invoke (ref_lib []) (CreateFormattedWordDocument ''/w/new.docx'' ''{'') word_state = (Inr r, s')
         \<and> reports_error r (Exn JSONDecodeError ''Expecting value: line 1 column 1 (char 0)'')"
    by blast
  from b j 1 2 show ?thesis by blast
qed

end
